theory Spec2Isabelle
  imports Main "HOL-Library.Sublist"
begin

section \<open>JavaScript strings\<close>

text \<open>
  Strings are lists of characters, a character being a code unit below 256. The helpers
  below are the string methods the main process uses on them: \<open>toLowerCase\<close>,
  \<open>trim\<close>, \<open>startsWith\<close>, \<open>endsWith\<close>, \<open>includes\<close> and \<open>split\<close> on one separator
  character. \<open>isUpper\<close>, \<open>isLower\<close> and \<open>isDigit\<close> are the classes \<open>[A-Z]\<close>, \<open>[a-z]\<close> and
  \<open>[0-9]\<close> of the regular expressions.
\<close>

definition isDigit :: "char \<Rightarrow> bool" where
  "isDigit c = (c \<in> set ''0123456789'')"

definition isUpper :: "char \<Rightarrow> bool" where
  "isUpper c = (c \<in> set ''ABCDEFGHIJKLMNOPQRSTUVWXYZ'')"

definition isLower :: "char \<Rightarrow> bool" where
  "isLower c = (c \<in> set ''abcdefghijklmnopqrstuvwxyz'')"

definition lowerChar :: "char \<Rightarrow> char" where
  \<comment> \<open>the letters with a lower case: \<open>A\<close> to \<open>Z\<close>, and the code units 192 to 222 but 215\<close>
  "lowerChar c =
     (if isUpper c
         \<or> ((192::nat) \<le> of_char c \<and> of_char c \<le> (222::nat) \<and> of_char c \<noteq> (215::nat))
      then char_of (of_char c + (32::nat)) else c)"

definition toLowerCase :: "string \<Rightarrow> string" where
  "toLowerCase s = map lowerChar s"

definition isSpace :: "char \<Rightarrow> bool" where
  \<comment> \<open>tab, line feed, vertical tab, form feed, carriage return, space, no-break space\<close>
  "isSpace c = (of_char c \<in> {9, 10, 11, 12, 13, 32, 160 :: nat})"

definition trim :: "string \<Rightarrow> string" where
  "trim s = rev (dropWhile isSpace (rev (dropWhile isSpace s)))"

definition startsWith :: "string \<Rightarrow> string \<Rightarrow> bool" where
  "startsWith s p = (take (length p) s = p)"

definition endsWith :: "string \<Rightarrow> string \<Rightarrow> bool" where
  "endsWith s p = (length p \<le> length s \<and> drop (length s - length p) s = p)"

fun str_includes :: "string \<Rightarrow> string \<Rightarrow> bool" where
  "str_includes [] p = (p = [])"
| "str_includes (c # cs) p = (startsWith (c # cs) p \<or> str_includes cs p)"

fun split_acc :: "char \<Rightarrow> string \<Rightarrow> string \<Rightarrow> string list" where
  "split_acc sep cur [] = [rev cur]"
| "split_acc sep cur (c # cs) =
     (if c = sep then rev cur # split_acc sep [] cs else split_acc sep (c # cur) cs)"

definition split_on :: "char \<Rightarrow> string \<Rightarrow> string list" where
  \<comment> \<open>\<open>s.split(sep)\<close>: the pieces between the separators, empty pieces included\<close>
  "split_on sep s = split_acc sep [] s"

fun join_with :: "string \<Rightarrow> string list \<Rightarrow> string" where
  "join_with sep [] = []"
| "join_with sep [x] = x"
| "join_with sep (x # y # ys) = x @ sep @ join_with sep (y # ys)"


section \<open>Version comparison\<close>

text \<open>
  \<^verbatim>\<open>
  function normalizeVersionFromTag(tagValue) {
    const tag = String(tagValue || "").trim();
    if (!tag) { return ""; }
    return tag.replace(/^v/i, "");
  }
  \<close>
\<close>

definition normalizeVersionFromTag :: "string \<Rightarrow> string" where
  "normalizeVersionFromTag tagValue =
     (let tag = trim tagValue in
      case tag of
        [] \<Rightarrow> []
      | c # cs \<Rightarrow> (if c = CHR ''v'' \<or> c = CHR ''V'' then cs else tag))"

text \<open>
  \<open>source.split(/[^0-9]+/)\<close>: the pieces between the maximal runs of non-digits; a run
  at either end of the string leaves an empty piece there.
\<close>

function split_nondigits :: "string \<Rightarrow> string \<Rightarrow> string list" where
  "split_nondigits cur [] = [rev cur]"
| "split_nondigits cur (c # cs) =
     (if isDigit c then split_nondigits (c # cur) cs
      else rev cur # split_nondigits [] (dropWhile (\<lambda>d. \<not> isDigit d) cs))"
  by pat_completeness auto
termination
  by (relation "measure (\<lambda>(cur, s). length s)")
    (auto simp add: less_Suc_eq_le length_dropWhile_le)

text \<open>
  \<open>Number(part)\<close> on a run of decimal digits. JavaScript numbers are doubles: the value
  is the decimal value of the digits, however many, rounded to the nearest number with a
  significand of 53 bits, a tie going to the even significand. Such a number is an integer here, and the
  model holds it as that natural number; a result of \<open>2^1024\<close> or more stands for
  \<open>Infinity\<close>, which \<open>Number.isFinite\<close> rejects.
\<close>

definition digitValue :: "char \<Rightarrow> nat" where
  "digitValue c = of_char c - 48"

definition decimalValue :: "string \<Rightarrow> nat" where
  "decimalValue part = foldl (\<lambda>n c. 10 * n + digitValue c) 0 part"

function bitLength :: "nat \<Rightarrow> nat" where
  "bitLength n = (if n = 0 then 0 else Suc (bitLength (n div 2)))"
  by pat_completeness auto
termination
  by (relation "measure (\<lambda>n. n)") auto

declare bitLength.simps [simp del]

definition roundToDouble :: "nat \<Rightarrow> nat" where
  "roundToDouble n =
     (if n < 2 ^ 53 then n
      else (let e = bitLength n - 53;
                q = n div 2 ^ e;
                r = n mod 2 ^ e;
                half = 2 ^ (e - 1)
            in (if r > half \<or> (r = half \<and> odd q) then q + 1 else q) * 2 ^ e))"

definition Number_digits :: "string \<Rightarrow> nat" where
  "Number_digits part = roundToDouble (decimalValue part)"

definition Number_isFinite :: "nat \<Rightarrow> bool" where
  "Number_isFinite n = (n < 2 ^ 1024)"

text \<open>
  \<^verbatim>\<open>
  function parseVersionParts(versionValue) {
    const source = String(versionValue || "").trim();
    if (!source) { return []; }
    return source
      .split(/[^0-9]+/)
      .filter((part) => part.length > 0)
      .map((part) => Number(part))
      .filter((part) => Number.isFinite(part));
  }
  \<close>
\<close>

definition parseVersionParts :: "string \<Rightarrow> nat list" where
  "parseVersionParts versionValue =
     (let source = trim versionValue in
      if source = [] then []
      else filter Number_isFinite
             (map Number_digits
                (filter (\<lambda>part. length part > 0) (split_nondigits [] source))))"

text \<open>\<open>xs[index] || 0\<close>: an index past the end reads \<open>undefined\<close>, which is falsy.\<close>

definition at_or_zero :: "nat list \<Rightarrow> nat \<Rightarrow> nat" where
  "at_or_zero xs index = (if index < length xs then xs ! index else 0)"

text \<open>
  \<^verbatim>\<open>
  for (let index = 0; index < maxLength; index += 1) {
    const leftValue = left[index] || 0;
    const rightValue = right[index] || 0;
    if (leftValue > rightValue) { return 1; }
    if (leftValue < rightValue) { return -1; }
  }
  return 0;
  \<close>
\<close>

function compareLoop :: "nat list \<Rightarrow> nat list \<Rightarrow> nat \<Rightarrow> nat \<Rightarrow> int" where
  "compareLoop left right maxLength index =
     (if index < maxLength then
        (let leftValue = at_or_zero left index;
             rightValue = at_or_zero right index
         in if leftValue > rightValue then 1
            else if leftValue < rightValue then - 1
            else compareLoop left right maxLength (index + 1))
      else 0)"
  by pat_completeness auto
termination
  by (relation "measure (\<lambda>(left, right, maxLength, index). maxLength - index)") auto

declare compareLoop.simps [simp del]

definition compareVersions :: "string \<Rightarrow> string \<Rightarrow> int" where
  "compareVersions leftVersion rightVersion =
     (let left = parseVersionParts leftVersion;
          right = parseVersionParts rightVersion
      in if length left = 0 \<or> length right = 0 then 0
         else compareLoop left right (max (length left) (length right)) 0)"

subsection \<open>The comparison as the specification words it\<close>

text \<open>
  Component-wise numeric comparison, the shorter list padded with trailing zeros, the
  first differing component deciding; \<open>0\<close> when a side has no numeric part.
  \<open>compareVersions_padded\<close> is the loop of the code in this form, on the parts the code
  has parsed.
\<close>

definition pad_zeros :: "nat \<Rightarrow> nat list \<Rightarrow> nat list" where
  "pad_zeros n xs = xs @ replicate (n - length xs) 0"

fun compare_componentwise :: "nat list \<Rightarrow> nat list \<Rightarrow> int" where
  "compare_componentwise (x # xs) (y # ys) =
     (if x > y then 1 else if x < y then - 1 else compare_componentwise xs ys)"
| "compare_componentwise _ _ = 0"

definition compareVersions_padded :: "string \<Rightarrow> string \<Rightarrow> int" where
  "compareVersions_padded a b =
     (let l = parseVersionParts a; r = parseVersionParts b; n = max (length l) (length r)
      in if l = [] \<or> r = [] then 0
         else compare_componentwise (pad_zeros n l) (pad_zeros n r))"

text \<open>
  The numeric parts of a version, in the words of the specification: the string is cut
  at every character that is no digit, the pieces that are left empty are dropped, and a
  piece is read as a decimal numeral, digit by digit from its unit position, as the
  nearest double.
\<close>

fun pieces :: "string \<Rightarrow> string list" where
  "pieces [] = [[]]"
| "pieces (c # cs) =
     (if isDigit c
      then (case pieces cs of [] \<Rightarrow> [[c]] | p # ps \<Rightarrow> (c # p) # ps)
      else [] # pieces cs)"

definition digit_runs :: "string \<Rightarrow> string list" where
  "digit_runs s = filter (\<lambda>p. p \<noteq> []) (pieces s)"

fun positional :: "string \<Rightarrow> nat" where
  \<comment> \<open>the argument is the numeral reversed: units first\<close>
  "positional [] = 0"
| "positional (c # cs) = digitValue c + 10 * positional cs"

definition versionNumbers :: "string \<Rightarrow> nat list" where
  "versionNumbers v =
     filter (\<lambda>n. n < 2 ^ 1024) (map (\<lambda>p. roundToDouble (positional (rev p))) (digit_runs v))"

definition compareVersions_spec :: "string \<Rightarrow> string \<Rightarrow> int" where
  "compareVersions_spec a b =
     (let l = versionNumbers a; r = versionNumbers b; n = max (length l) (length r)
      in if l = [] \<or> r = [] then 0
         else compare_componentwise (pad_zeros n l) (pad_zeros n r))"


section \<open>Host matcher\<close>

text \<open>
  The platform's \<open>URL\<close> class is not part of the repository: the functions take the
  parser as the argument \<open>URL\<close>, which returns \<open>None\<close> where \<open>new URL(...)\<close>
  throws. Of a parsed URL the code reads \<open>protocol\<close> and \<open>hostname\<close>.
\<close>

record parsed_url =
  protocol :: string
  hostname :: string

type_synonym url_parser = "string \<Rightarrow> parsed_url option"

definition toUrlObject :: "url_parser \<Rightarrow> string \<Rightarrow> parsed_url option" where
  \<comment> \<open>\<open>try { return new URL(String(input || "")) } catch (_) { return null }\<close>\<close>
  "toUrlObject URL input = URL input"

definition getHostnameFromUrl :: "url_parser \<Rightarrow> string \<Rightarrow> string" where
  "getHostnameFromUrl URL input =
     (case toUrlObject URL input of
        None \<Rightarrow> []
      | Some parsed \<Rightarrow> toLowerCase (hostname parsed))"

definition LOOPBACK_HOSTS :: "string list" where
  "LOOPBACK_HOSTS = [''localhost'', ''127.0.0.1'', ''::1'', ''[::1]'']"

definition isIPv4Literal :: "string \<Rightarrow> bool" where
  \<comment> \<open>\<open>/^\d{1,3}(\.\d{1,3}){3}$/.test(value)\<close>\<close>
  "isIPv4Literal v =
     (let groups = split_on CHR ''.'' v
      in length groups = 4
         \<and> list_all (\<lambda>g. 1 \<le> length g \<and> length g \<le> 3 \<and> list_all isDigit g) groups)"

definition getSiteKey :: "string \<Rightarrow> string" where
  "getSiteKey host =
     (let v = toLowerCase host in
      if v = [] then []
      else if List.member LOOPBACK_HOSTS v \<or> endsWith v ''.localhost'' then v
      else if isIPv4Literal v then v
      else (let parts = filter (\<lambda>part. part \<noteq> []) (split_on CHR ''.'' v)
            in if length parts \<le> 2 then v
               else join_with ''.'' (drop (length parts - 2) parts)))"

definition isThirdPartyRequest :: "url_parser \<Rightarrow> string \<Rightarrow> string \<Rightarrow> bool" where
  "isThirdPartyRequest URL requestUrl initiatorUrl =
     (let requestHost = getHostnameFromUrl URL requestUrl;
          initiatorHost = getHostnameFromUrl URL initiatorUrl
      in if requestHost = [] \<or> initiatorHost = [] then False
         else getSiteKey requestHost \<noteq> getSiteKey initiatorHost)"

definition TRACKER_HOST_RULES :: "string list" where
  "TRACKER_HOST_RULES =
     [''doubleclick.net'', ''google-analytics.com'', ''googletagmanager.com'',
      ''googlesyndication.com'', ''adservice.google.com'', ''ads.yahoo.com'',
      ''facebook.net'', ''connect.facebook.net'', ''scorecardresearch.com'',
      ''hotjar.com'', ''segment.io'', ''mixpanel.com'', ''taboola.com'',
      ''outbrain.com'', ''adnxs.com'', ''criteo.com'', ''quantserve.com'']"

definition matchesTrackerHost :: "string \<Rightarrow> bool" where
  "matchesTrackerHost host =
     (let v = toLowerCase host in
      if v = [] then False
      else list_ex (\<lambda>rule. v = rule \<or> endsWith v (''.'' @ rule)) TRACKER_HOST_RULES)"


section \<open>Privacy policy engine\<close>

record privacyConfig =
  blockTrackers :: bool
  upgradeHttps :: bool
  sendDoNotTrack :: bool
  sendGlobalPrivacyControl :: bool
  blockThirdPartyCookies :: bool
  blockFingerprintingPermissions :: bool
  clearDataOnExit :: bool

definition DEFAULT_PRIVACY_CONFIG :: privacyConfig where
  "DEFAULT_PRIVACY_CONFIG =
     \<lparr>blockTrackers = True, upgradeHttps = True, sendDoNotTrack = True,
      sendGlobalPrivacyControl = True, blockThirdPartyCookies = True,
      blockFingerprintingPermissions = True, clearDataOnExit = False\<rparr>"

text \<open>
  The counters are JavaScript numbers, modelled as naturals: \<open>+= 1\<close> is exact up to
  \<open>2^53\<close> increments.
\<close>

record privacyStats =
  blockedRequests :: nat
  upgradedToHttps :: nat
  strippedCookieHeaders :: nat
  blockedPermissions :: nat
  startedAt :: nat

definition createEmptyPrivacyStats :: "nat \<Rightarrow> privacyStats" where
  \<comment> \<open>the argument is the reading of \<open>Date.now()\<close>\<close>
  "createEmptyPrivacyStats now =
     \<lparr>blockedRequests = 0, upgradedToHttps = 0, strippedCookieHeaders = 0,
      blockedPermissions = 0, startedAt = now\<rparr>"

text \<open>
  \<^verbatim>\<open>
  function incrementPrivacyStat(key) {
    if (!Object.prototype.hasOwnProperty.call(privacyStats, key) ||
        typeof privacyStats[key] !== "number") { return; }
    privacyStats[key] += 1;
    queuePrivacyStatsBroadcast();
  }
  \<close>
  Every own property of the statistics object is a number, \<open>startedAt\<close> included.
\<close>

definition incrementPrivacyStat :: "string \<Rightarrow> privacyStats \<Rightarrow> privacyStats" where
  "incrementPrivacyStat k s =
     (if k = ''blockedRequests'' then s\<lparr>blockedRequests := blockedRequests s + 1\<rparr>
      else if k = ''upgradedToHttps'' then s\<lparr>upgradedToHttps := upgradedToHttps s + 1\<rparr>
      else if k = ''strippedCookieHeaders''
        then s\<lparr>strippedCookieHeaders := strippedCookieHeaders s + 1\<rparr>
      else if k = ''blockedPermissions'' then s\<lparr>blockedPermissions := blockedPermissions s + 1\<rparr>
      else if k = ''startedAt'' then s\<lparr>startedAt := startedAt s + 1\<rparr>
      else s)"

text \<open>
  The process-wide state the privacy layer reads and writes. The history and download
  lists are only ever emptied here, so their element types stay open. \<open>sessionCalls\<close>
  records the clearing calls issued to the browser session, in order.
\<close>

record ('h, 'd) app_state =
  privacyConfig :: privacyConfig
  privacyStats :: privacyStats
  browsingHistory :: "'h list"
  downloadItems :: "'d list"
  sessionCalls :: "string list"

definition bumpStat :: "string \<Rightarrow> ('h, 'd) app_state \<Rightarrow> ('h, 'd) app_state" where
  "bumpStat k st = st\<lparr>privacyStats := incrementPrivacyStat k (privacyStats st)\<rparr>"

text \<open>What the interception hooks receive of a request.\<close>

record details =
  url :: string
  resourceType :: string
  initiator :: "string option"
  requestHeaders :: "(string \<times> string) list"

definition TRACKER_RESOURCE_TYPES :: "string list" where
  "TRACKER_RESOURCE_TYPES =
     [''script'', ''image'', ''xhr'', ''fetch'', ''subFrame'', ''ping'', ''media'', ''font'',
      ''stylesheet'', ''object'', ''webSocket'']"

text \<open>
  \<^verbatim>\<open>
  function shouldBlockTrackerRequest(details) {
    if (!privacyConfig.blockTrackers) { return false; }
    const resourceType = String(details.resourceType || "");
    if (!TRACKER_RESOURCE_TYPES.has(resourceType)) { return false; }
    const host = getHostnameFromUrl(details.url);
    if (!host || !matchesTrackerHost(host)) { return false; }
    const initiator = typeof details.initiator === "string" ? details.initiator : "";
    if (!initiator) { return resourceType !== "mainFrame"; }
    return isThirdPartyRequest(details.url, initiator);
  }
  \<close>
\<close>

definition shouldBlockTrackerRequest :: "url_parser \<Rightarrow> privacyConfig \<Rightarrow> details \<Rightarrow> bool" where
  "shouldBlockTrackerRequest URL cfg d =
     (if \<not> blockTrackers cfg then False
      else if \<not> List.member TRACKER_RESOURCE_TYPES (resourceType d) then False
      else (let host = getHostnameFromUrl URL (url d) in
            if host = [] \<or> \<not> matchesTrackerHost host then False
            else (let init = (case initiator d of Some i \<Rightarrow> i | None \<Rightarrow> [])
                  in if init = [] then resourceType d \<noteq> ''mainFrame''
                     else isThirdPartyRequest URL (url d) init)))"

definition shouldUpgradeToHttps :: "url_parser \<Rightarrow> string \<Rightarrow> bool" where
  "shouldUpgradeToHttps URL rawUrl =
     (case toUrlObject URL rawUrl of
        None \<Rightarrow> False
      | Some parsed \<Rightarrow>
          if protocol parsed \<noteq> ''http:'' then False
          else (let host = toLowerCase (hostname parsed) in
                if host = [] \<or> List.member LOOPBACK_HOSTS host \<or> endsWith host ''.localhost''
                then False
                else if isIPv4Literal host then False
                else True))"

definition upgradeScheme :: "string \<Rightarrow> string" where
  \<comment> \<open>\<open>String(details.url).replace(/^http:\/\//i, "https://")\<close>\<close>
  "upgradeScheme u =
     (if toLowerCase (take 7 u) = ''http://'' then ''https://'' @ drop 7 u else u)"

datatype decision = Cancel | Redirect string | Pass

text \<open>
  \<^verbatim>\<open>
  ses.webRequest.onBeforeRequest((details, callback) => {
    try {
      if (shouldBlockTrackerRequest(details)) {
        incrementPrivacyStat("blockedRequests");
        callback({ cancel: true });
        return;
      }
      if (privacyConfig.upgradeHttps && shouldUpgradeToHttps(details.url)) {
        const redirectURL = String(details.url).replace(/^http:\/\//i, "https://");
        if (redirectURL !== details.url) {
          incrementPrivacyStat("upgradedToHttps");
          callback({ redirectURL });
          return;
        }
      }
    } catch (_) { }
    callback({});
  });
  \<close>
  Nothing in the model throws, so the \<open>catch\<close> has no branch of its own.
\<close>

definition onBeforeRequest ::
  "url_parser \<Rightarrow> details \<Rightarrow> ('h, 'd) app_state \<Rightarrow> decision \<times> ('h, 'd) app_state" where
  "onBeforeRequest URL d st =
     (if shouldBlockTrackerRequest URL (privacyConfig st) d
      then (Cancel, bumpStat ''blockedRequests'' st)
      else if upgradeHttps (privacyConfig st) \<and> shouldUpgradeToHttps URL (url d)
              \<and> upgradeScheme (url d) \<noteq> url d
      then (Redirect (upgradeScheme (url d)), bumpStat ''upgradedToHttps'' st)
      else (Pass, st))"

subsection \<open>Request headers\<close>

text \<open>
  A header object is its list of own properties in insertion order: assigning to a key
  that exists keeps its place, a new key goes last.
\<close>

type_synonym headers = "(string \<times> string) list"

fun findHeaderKey :: "headers \<Rightarrow> string \<Rightarrow> string option" where
  "findHeaderKey [] name = None"
| "findHeaderKey ((k, v) # hs) name =
     (if toLowerCase k = toLowerCase name then Some k else findHeaderKey hs name)"

fun assignKey :: "string \<Rightarrow> string \<Rightarrow> headers \<Rightarrow> headers" where
  "assignKey k v [] = [(k, v)]"
| "assignKey k v ((k', v') # hs) =
     (if k' = k then (k, v) # hs else (k', v') # assignKey k v hs)"

definition deleteKey :: "string \<Rightarrow> headers \<Rightarrow> headers" where
  "deleteKey k hs = filter (\<lambda>(k', v). k' \<noteq> k) hs"

definition setHeader :: "headers \<Rightarrow> string \<Rightarrow> string \<Rightarrow> headers" where
  \<comment> \<open>\<open>const key = findHeaderKey(headers, name) || name; headers[key] = value\<close>\<close>
  "setHeader hs name v =
     (let k = (case findHeaderKey hs name of
                 Some k \<Rightarrow> if k \<noteq> [] then k else name
               | None \<Rightarrow> name)
      in assignKey k v hs)"

definition removeHeader :: "headers \<Rightarrow> string \<Rightarrow> headers" where
  \<comment> \<open>\<open>const key = findHeaderKey(headers, name); if (key) { delete headers[key]; }\<close>\<close>
  "removeHeader hs name =
     (case findHeaderKey hs name of
        Some k \<Rightarrow> if k \<noteq> [] then deleteKey k hs else hs
      | None \<Rightarrow> hs)"

definition hasHeader :: "headers \<Rightarrow> string \<Rightarrow> bool" where
  \<comment> \<open>\<open>Boolean(findHeaderKey(headers, name))\<close>: the empty key is falsy\<close>
  "hasHeader hs name =
     (case findHeaderKey hs name of Some k \<Rightarrow> k \<noteq> [] | None \<Rightarrow> False)"

text \<open>
  \<^verbatim>\<open>
  ses.webRequest.onBeforeSendHeaders((details, callback) => {
    const requestHeaders = { ...(details.requestHeaders || {}) };
    if (privacyConfig.sendDoNotTrack) { setHeader(requestHeaders, "DNT", "1"); }
    else { removeHeader(requestHeaders, "DNT"); }
    if (privacyConfig.sendGlobalPrivacyControl) { setHeader(requestHeaders, "Sec-GPC", "1"); }
    else { removeHeader(requestHeaders, "Sec-GPC"); }
    if (privacyConfig.blockThirdPartyCookies &&
        hasHeader(requestHeaders, "Cookie") &&
        isThirdPartyRequest(details.url, details.initiator || "")) {
      removeHeader(requestHeaders, "Cookie");
      incrementPrivacyStat("strippedCookieHeaders");
    }
    callback({ requestHeaders });
  });
  \<close>
\<close>

definition onBeforeSendHeaders ::
  "url_parser \<Rightarrow> details \<Rightarrow> ('h, 'd) app_state \<Rightarrow> headers \<times> ('h, 'd) app_state" where
  "onBeforeSendHeaders URL d st =
     (let cfg = privacyConfig st;
          h0 = requestHeaders d;
          h1 = (if sendDoNotTrack cfg then setHeader h0 ''DNT'' ''1'' else removeHeader h0 ''DNT'');
          h2 = (if sendGlobalPrivacyControl cfg then setHeader h1 ''Sec-GPC'' ''1''
                else removeHeader h1 ''Sec-GPC'')
      in if blockThirdPartyCookies cfg \<and> hasHeader h2 ''Cookie''
            \<and> isThirdPartyRequest URL (url d) (case initiator d of Some i \<Rightarrow> i | None \<Rightarrow> [])
         then (removeHeader h2 ''Cookie'', bumpStat ''strippedCookieHeaders'' st)
         else (h2, st))"


section \<open>Permission gate\<close>

definition FINGERPRINTING_PERMISSIONS :: "string list" where
  "FINGERPRINTING_PERMISSIONS =
     [''idle-detection'', ''window-management'', ''display-capture'', ''midi'', ''midiSysex'',
      ''midi-sysex'', ''pointerLock'', ''background-sync'', ''payment-handler'',
      ''speaker-selection'']"

definition ALLOWED_PERMISSIONS :: "string list" where
  "ALLOWED_PERMISSIONS = [''fullscreen'', ''notifications'', ''clipboard-read'', ''media'']"

text \<open>
  \<^verbatim>\<open>
  session.defaultSession.setPermissionRequestHandler((_webContents, permission, callback) => {
    const requested = String(permission || "");
    if (privacyConfig.blockFingerprintingPermissions &&
        FINGERPRINTING_PERMISSIONS.has(requested)) {
      incrementPrivacyStat("blockedPermissions");
      callback(false);
      return;
    }
    const allowed = ALLOWED_PERMISSIONS.has(requested);
    if (!allowed) { incrementPrivacyStat("blockedPermissions"); }
    callback(allowed);
  });
  \<close>
\<close>

definition permissionRequestHandler ::
  "string \<Rightarrow> ('h, 'd) app_state \<Rightarrow> bool \<times> ('h, 'd) app_state" where
  "permissionRequestHandler requested st =
     (if blockFingerprintingPermissions (privacyConfig st)
         \<and> List.member FINGERPRINTING_PERMISSIONS requested
      then (False, bumpStat ''blockedPermissions'' st)
      else (let allowed = List.member ALLOWED_PERMISSIONS requested
            in if \<not> allowed then (allowed, bumpStat ''blockedPermissions'' st)
               else (allowed, st)))"



section \<open>Configuration patches and data clearing\<close>

text \<open>
  A patch arrives over IPC as a JSON object: a finite map from property names to values.
  A payload that is no object counts as the empty object.
\<close>

datatype jsvalue = JBool bool | JString string | JNumber int | JNull

type_synonym jsobject = "string \<rightharpoonup> jsvalue"

definition sanitizeBoolean :: "jsvalue option \<Rightarrow> bool \<Rightarrow> bool" where
  \<comment> \<open>\<open>typeof value === "boolean" ? value : fallback\<close>\<close>
  "sanitizeBoolean v fallback = (case v of Some (JBool b) \<Rightarrow> b | _ \<Rightarrow> fallback)"

definition sanitizePrivacyConfig :: "jsobject \<Rightarrow> privacyConfig" where
  "sanitizePrivacyConfig raw =
     \<lparr>blockTrackers = sanitizeBoolean (raw ''blockTrackers'') (blockTrackers DEFAULT_PRIVACY_CONFIG),
      upgradeHttps = sanitizeBoolean (raw ''upgradeHttps'') (upgradeHttps DEFAULT_PRIVACY_CONFIG),
      sendDoNotTrack =
        sanitizeBoolean (raw ''sendDoNotTrack'') (sendDoNotTrack DEFAULT_PRIVACY_CONFIG),
      sendGlobalPrivacyControl =
        sanitizeBoolean (raw ''sendGlobalPrivacyControl'')
          (sendGlobalPrivacyControl DEFAULT_PRIVACY_CONFIG),
      blockThirdPartyCookies =
        sanitizeBoolean (raw ''blockThirdPartyCookies'')
          (blockThirdPartyCookies DEFAULT_PRIVACY_CONFIG),
      blockFingerprintingPermissions =
        sanitizeBoolean (raw ''blockFingerprintingPermissions'')
          (blockFingerprintingPermissions DEFAULT_PRIVACY_CONFIG),
      clearDataOnExit =
        sanitizeBoolean (raw ''clearDataOnExit'') (clearDataOnExit DEFAULT_PRIVACY_CONFIG)\<rparr>"

definition privacyConfigObject :: "privacyConfig \<Rightarrow> jsobject" where
  \<comment> \<open>the configuration as the object that \<open>{ ...privacyConfig }\<close> spreads\<close>
  "privacyConfigObject cfg =
     [''blockTrackers'' \<mapsto> JBool (blockTrackers cfg),
      ''upgradeHttps'' \<mapsto> JBool (upgradeHttps cfg),
      ''sendDoNotTrack'' \<mapsto> JBool (sendDoNotTrack cfg),
      ''sendGlobalPrivacyControl'' \<mapsto> JBool (sendGlobalPrivacyControl cfg),
      ''blockThirdPartyCookies'' \<mapsto> JBool (blockThirdPartyCookies cfg),
      ''blockFingerprintingPermissions'' \<mapsto> JBool (blockFingerprintingPermissions cfg),
      ''clearDataOnExit'' \<mapsto> JBool (clearDataOnExit cfg)]"

text \<open>
  \<^verbatim>\<open>
  function patchPrivacyConfig(patch) {
    const raw = patch && typeof patch === "object" ? patch : {};
    privacyConfig = sanitizePrivacyConfig({ ...privacyConfig, ...raw });
    persistPrivacyConfig();
    sendPrivacyConfig();
    return privacyConfig;
  }
  \<close>
\<close>

definition patchPrivacyConfig :: "jsobject \<Rightarrow> ('h, 'd) app_state \<Rightarrow> ('h, 'd) app_state" where
  "patchPrivacyConfig raw st =
     st\<lparr>privacyConfig := sanitizePrivacyConfig (privacyConfigObject (privacyConfig st) ++ raw)\<rparr>"

datatype clear_error = UnknownScope

text \<open>
  \<open>clearDataByScope\<close>: the scope is lower-cased (the empty scope reads \<open>all\<close>), checked
  against the six known scopes, and the matching session stores and in-memory lists are
  cleared. The statistics are not among them.
\<close>

definition clearDataByScope ::
  "string \<Rightarrow> ('h, 'd) app_state \<Rightarrow> (clear_error + string) \<times> ('h, 'd) app_state" where
  "clearDataByScope scope st =
     (let v = toLowerCase (if scope = [] then ''all'' else scope) in
      if \<not> List.member [''all'', ''cache'', ''cookies'', ''storage'', ''history'', ''downloads''] v
      then (Inl UnknownScope, st)
      else
        (let tasks =
               (if v = ''all'' \<or> v = ''cache'' then [''clearCache''] else [])
               @ (if v = ''all'' \<or> v = ''cookies''
                  then [''clearStorageData:cookies'', ''clearAuthCache''] else [])
               @ (if v = ''all'' \<or> v = ''storage'' then [''clearStorageData:storages''] else []);
             st1 = st\<lparr>sessionCalls := sessionCalls st @ tasks\<rparr>;
             st2 = (if v = ''all'' \<or> v = ''history'' then st1\<lparr>browsingHistory := []\<rparr> else st1);
             st3 = (if v = ''all'' \<or> v = ''downloads'' then st2\<lparr>downloadItems := []\<rparr> else st2)
         in (Inr v, st3)))"

text \<open>The core operations on the privacy state, and one step of any of them.\<close>

datatype operation =
    BeforeRequest details
  | BeforeSendHeaders details
  | PermissionRequest string
  | PermissionCheck string
  | PatchPrivacyConfig jsobject
  | ClearData string

fun step :: "url_parser \<Rightarrow> operation \<Rightarrow> ('h, 'd) app_state \<Rightarrow> ('h, 'd) app_state" where
  "step URL (BeforeRequest d) st = snd (onBeforeRequest URL d st)"
| "step URL (BeforeSendHeaders d) st = snd (onBeforeSendHeaders URL d st)"
| "step URL (PermissionRequest p) st = snd (permissionRequestHandler p st)"
| "step URL (PermissionCheck p) st = st"
| "step URL (PatchPrivacyConfig raw) st = patchPrivacyConfig raw st"
| "step URL (ClearData scope) st = snd (clearDataByScope scope st)"

text \<open>
  A parser for the worked examples: URLs of the form
  \<open>scheme://host[:port][/path][?query][#fragment]\<close> with a plain host name, on which the
  platform's \<open>URL\<close> class yields the lower-cased scheme followed by a colon and the
  lower-cased host. Everything else is taken as unparseable here.
\<close>

definition simple_URL :: url_parser where
  "simple_URL s =
     (let scheme = takeWhile (\<lambda>c. c \<noteq> CHR '':'') s;
          rest = dropWhile (\<lambda>c. c \<noteq> CHR '':'') s;
          host = takeWhile (\<lambda>c. \<not> List.member ''/?#:'' c) (drop 3 rest)
      in if scheme \<noteq> [] \<and> list_all (\<lambda>c. isLower c \<or> isUpper c) scheme
            \<and> startsWith rest ''://'' \<and> host \<noteq> []
         then Some \<lparr>protocol = toLowerCase scheme @ '':'', hostname = toLowerCase host\<rparr>
         else None)"


text \<open>The state at start-up, and the request of the worked examples.\<close>

definition initial_app_state :: "nat \<Rightarrow> ('h, 'd) app_state" where
  "initial_app_state now =
     \<lparr>privacyConfig = DEFAULT_PRIVACY_CONFIG, privacyStats = createEmptyPrivacyStats now,
      browsingHistory = [], downloadItems = [], sessionCalls = []\<rparr>"

definition tracker_request :: details where
  "tracker_request =
     \<lparr>url = ''http://doubleclick.net/x'', resourceType = ''script'',
      initiator = Some ''https://news.example.com/'', requestHeaders = []\<rparr>"


text \<open>A run of operations, left to right.\<close>

fun run :: "url_parser \<Rightarrow> operation list \<Rightarrow> ('h, 'd) app_state \<Rightarrow> ('h, 'd) app_state" where
  "run URL [] st = st"
| "run URL (op # ops) st = run URL ops (step URL op st)"

definition cross_site_request :: details where
  "cross_site_request =
     \<lparr>url = ''https://b.com/beacon'', resourceType = ''xhr'',
      initiator = Some ''https://a.com'', requestHeaders = [(''Referer'', ''https://a.com/'')]\<rparr>"

text \<open>The headers of a header object that are named \<open>Referer\<close>, in any case.\<close>

definition refererHeaders :: "headers \<Rightarrow> headers" where
  "refererHeaders hs = filter (\<lambda>(k, v). toLowerCase k = ''referer'') hs"


section \<open>Update paths\<close>

definition GITHUB_UPDATE_ASSET_NAME :: string where
  "GITHUB_UPDATE_ASSET_NAME = ''update.zip''"

definition GITHUB_RELEASES_TAGS_PAGE_URL :: string where
  "GITHUB_RELEASES_TAGS_PAGE_URL = ''https://github.com/Zombiegoblin4/Bastion-Browser/releases/tags''"

text \<open>
  \<^verbatim>\<open>
  function sanitizeTagForPath(tagValue) {
    const normalized = String(tagValue || "").trim().replace(/[^a-z0-9._-]+/gi, "_");
    return normalized || "latest";
  }
  \<close>
  The flag of \<open>replaceRuns\<close> says whether the character before belonged to a run that
  has been replaced already: a run of characters outside the class becomes one
  underscore.
\<close>

definition isTagChar :: "char \<Rightarrow> bool" where
  \<comment> \<open>the class \<open>[a-z0-9._-]\<close>, case-insensitive\<close>
  "isTagChar c = (isLower c \<or> isUpper c \<or> isDigit c \<or> c \<in> set ''._-'')"

fun replaceRuns :: "bool \<Rightarrow> string \<Rightarrow> string" where
  "replaceRuns inRun [] = []"
| "replaceRuns inRun (c # cs) =
     (if isTagChar c then c # replaceRuns False cs
      else if inRun then replaceRuns True cs
      else CHR ''_'' # replaceRuns True cs)"

definition sanitizeTagForPath :: "string \<Rightarrow> string" where
  "sanitizeTagForPath tagValue =
     (let normalized = replaceRuns False (trim tagValue)
      in if normalized = [] then ''latest'' else normalized)"

text \<open>
  The platform's \<open>path.join\<close>. An absolute path is the list of its components below
  the root. Joining splits the added parts at the separators (\<open>/\<close> and, on Windows,
  the backslash) and normalises: an empty component and \<open>.\<close> are dropped, \<open>..\<close> removes
  the component before it.
\<close>

type_synonym path = "string list"

definition isSeparator :: "char \<Rightarrow> bool" where
  "isSeparator c = (of_char c \<in> {47, 92 :: nat})"

fun split_components :: "string \<Rightarrow> string \<Rightarrow> string list" where
  "split_components cur [] = [rev cur]"
| "split_components cur (c # cs) =
     (if isSeparator c then rev cur # split_components [] cs
      else split_components (c # cur) cs)"

fun normalizeSegments :: "path \<Rightarrow> string list \<Rightarrow> path" where
  "normalizeSegments acc [] = acc"
| "normalizeSegments acc (seg # segs) =
     (if seg = [] \<or> seg = ''.'' then normalizeSegments acc segs
      else if seg = ''..'' then normalizeSegments (butlast acc) segs
      else normalizeSegments (acc @ [seg]) segs)"

definition path_join :: "path \<Rightarrow> string list \<Rightarrow> path" where
  "path_join dir parts = normalizeSegments dir (concat (map (split_components []) parts))"

definition pathString :: "path \<Rightarrow> string" where
  \<comment> \<open>the path as the string the file system calls take\<close>
  "pathString p = (if p = [] then ''/'' else concat (map (\<lambda>c. CHR ''/'' # c) p))"

definition getGitHubUpdateDownloadDir :: "path \<Rightarrow> path" where
  \<comment> \<open>\<open>path.join(app.getPath("userData"), "updates")\<close>\<close>
  "getGitHubUpdateDownloadDir userData = path_join userData [''updates'']"

definition resolveGitHubUpdateAssetName :: "string \<Rightarrow> string" where
  \<comment> \<open>the argument is the environment variable \<open>BASTION_GITHUB_UPDATE_ASSET_NAME\<close>, empty when unset\<close>
  "resolveGitHubUpdateAssetName fromEnv =
     (if trim fromEnv \<noteq> [] then trim fromEnv else GITHUB_UPDATE_ASSET_NAME)"

definition resolveGitHubTagsPageURL :: "string \<Rightarrow> string" where
  \<comment> \<open>the argument is the environment variable \<open>BASTION_GITHUB_RELEASES_TAGS_URL\<close>, empty when unset\<close>
  "resolveGitHubTagsPageURL fromEnv =
     (if trim fromEnv \<noteq> [] then trim fromEnv else GITHUB_RELEASES_TAGS_PAGE_URL)"

text \<open>
  \<^verbatim>\<open>
  function resolveGitHubUpdateTargetPath(tagValue) {
    const safeTag = sanitizeTagForPath(tagValue);
    const fileName = resolveGitHubUpdateAssetName();
    return path.join(getGitHubUpdateDownloadDir(), safeTag, fileName);
  }
  \<close>
\<close>

definition resolveGitHubUpdateTargetPath :: "path \<Rightarrow> string \<Rightarrow> string \<Rightarrow> path" where
  "resolveGitHubUpdateTargetPath userData assetEnv tagValue =
     (let safeTag = sanitizeTagForPath tagValue;
          fileName = resolveGitHubUpdateAssetName assetEnv
      in path_join (getGitHubUpdateDownloadDir userData) [safeTag, fileName])"

definition resolveGitHubUpdateStagingDir :: "path \<Rightarrow> string \<Rightarrow> path" where
  "resolveGitHubUpdateStagingDir userData tagValue =
     (let safeTag = sanitizeTagForPath tagValue
      in path_join (getGitHubUpdateDownloadDir userData) [''staged'', safeTag])"


section \<open>Release discovery\<close>

record asset =
  asset_name :: string
  browser_download_url :: string

text \<open>
  A release object of the index. An absent string property is the empty string, an
  absent flag is \<open>False\<close>: the code tests both for truthiness only.
\<close>

record release =
  tag_name :: string
  draft :: bool
  prerelease :: bool
  published_at :: string
  created_at :: string
  createdAt :: string
  html_url :: string
  assets :: "asset list"

datatype update_error =
    FetchUnsupported
  | NetworkError string
  | ReleasesRequestFailed nat
  | AssetDownloadFailed nat
  | EmptyResponseBody
  | FileSystemError string
  | NoReleaseTags
  | NoAsset string string
  | NotWindows
  | NoDownloadedZip
  | NoLauncher

text \<open>
  What the request for the release index comes to: \<open>fetch\<close> is missing, the request
  is rejected, or a response arrives with its \<open>ok\<close> flag, its status and its body. A body
  that is an array holds release objects and nulls.
\<close>

datatype index_body = InvalidJson string | NotAnArray | ReleaseArray "release option list"

datatype index_outcome =
    IndexFetchUnsupported
  | IndexFetchRejected string
  | IndexResponse bool nat index_body

text \<open>
  \<open>Date.parse(String(release.published_at || release.created_at || release.createdAt || "")) || 0\<close>.
  The platform's \<open>Date.parse\<close> is the argument \<open>Date_parse\<close>, \<open>None\<close> standing for
  \<open>NaN\<close>.
\<close>

definition releaseTime :: "(string \<Rightarrow> int option) \<Rightarrow> release \<Rightarrow> int" where
  "releaseTime Date_parse r =
     (let stamp = (if published_at r \<noteq> [] then published_at r
                   else if created_at r \<noteq> [] then created_at r
                   else createdAt r)
      in case Date_parse stamp of None \<Rightarrow> 0 | Some t \<Rightarrow> t)"

text \<open>
  \<^verbatim>\<open>
  const releases = Array.isArray(payload) ? payload : [];
  const nonDraftReleases = releases.filter((release) => release && !release.draft);
  const preferred = nonDraftReleases.filter((release) =>
    updateConfig.allowPrerelease ? true : !release.prerelease);
  const selectionPool = preferred.length > 0 ? preferred : nonDraftReleases;
  const sorted = selectionPool.sort((left, right) => { ... return rightTime - leftTime; });
  return sorted[0] || null;
  \<close>
  \<open>Array.prototype.sort\<close> is stable; so is \<open>sort_key\<close>, here on the negated time.
\<close>

definition nonDraftReleases :: "release option list \<Rightarrow> release list" where
  "nonDraftReleases releases = filter (\<lambda>r. \<not> draft r) (List.map_filter id releases)"

definition selectionPool :: "bool \<Rightarrow> release option list \<Rightarrow> release list" where
  "selectionPool allowPre releases =
     (let preferred = filter (\<lambda>r. if allowPre then True else \<not> prerelease r)
                        (nonDraftReleases releases)
      in if length preferred > 0 then preferred else nonDraftReleases releases)"

definition selectLatest :: "(string \<Rightarrow> int option) \<Rightarrow> bool \<Rightarrow> release option list \<Rightarrow> release option" where
  "selectLatest Date_parse allowPre releases =
     (case sort_key (\<lambda>r. - releaseTime Date_parse r) (selectionPool allowPre releases) of
        [] \<Rightarrow> None
      | r # rest \<Rightarrow> Some r)"

definition fetchLatestGitHubRelease ::
  "(string \<Rightarrow> int option) \<Rightarrow> bool \<Rightarrow> index_outcome \<Rightarrow> update_error + release option" where
  "fetchLatestGitHubRelease Date_parse allowPre outcome =
     (case outcome of
        IndexFetchUnsupported \<Rightarrow> Inl FetchUnsupported
      | IndexFetchRejected msg \<Rightarrow> Inl (NetworkError msg)
      | IndexResponse ok code body \<Rightarrow>
          if \<not> ok then Inl (ReleasesRequestFailed code)
          else (case body of
                  InvalidJson msg \<Rightarrow> Inl (NetworkError msg)
                | NotAnArray \<Rightarrow> Inr (selectLatest Date_parse allowPre [])
                | ReleaseArray releases \<Rightarrow> Inr (selectLatest Date_parse allowPre releases)))"

text \<open>
  The time of a release in the words of the specification: its published/created time
  stamp, read by \<open>Date.parse\<close>, an unparseable one counting as the epoch \<open>0\<close>.
\<close>

definition publishedOrCreated :: "release \<Rightarrow> string" where
  "publishedOrCreated r =
     (if published_at r \<noteq> [] then published_at r
      else if created_at r \<noteq> [] then created_at r
      else createdAt r)"

definition epochTime :: "(string \<Rightarrow> int option) \<Rightarrow> release \<Rightarrow> int" where
  "epochTime Date_parse r =
     (case Date_parse (publishedOrCreated r) of Some t \<Rightarrow> t | None \<Rightarrow> 0)"

text \<open>
  The newest release of a list: one with the latest time, the earliest in the list among
  those.
\<close>

fun newest :: "(release \<Rightarrow> int) \<Rightarrow> release list \<Rightarrow> release option" where
  "newest t [] = None"
| "newest t (x # xs) =
     (case newest t xs of
        None \<Rightarrow> Some x
      | Some y \<Rightarrow> if t x < t y then Some y else Some x)"

definition findReleaseAsset :: "release \<Rightarrow> string \<Rightarrow> asset option" where
  "findReleaseAsset r assetName =
     find (\<lambda>a. toLowerCase (asset_name a) = toLowerCase assetName) (assets r)"


text \<open>A release index for the worked examples, and \<open>Date.parse\<close> on its time stamps.\<close>

definition mk_release :: "string \<Rightarrow> bool \<Rightarrow> bool \<Rightarrow> string \<Rightarrow> release" where
  "mk_release t d p stamp =
     \<lparr>tag_name = t, draft = d, prerelease = p, published_at = stamp, created_at = [],
      createdAt = [], html_url = [],
      assets = [\<lparr>asset_name = ''update.zip'', browser_download_url = ''https://example.org/'' @ t @ ''/update.zip''\<rparr>]\<rparr>"

definition example_index :: "release option list" where
  "example_index =
     [Some (mk_release ''v9.0.0'' True False ''2024-03-01T00:00:00Z''),
      None,
      Some (mk_release ''v1.2.0'' False False ''not a date''),
      Some (mk_release ''v1.3.0'' False False ''2024-01-01T00:00:00Z''),
      Some (mk_release ''v1.4.0-beta'' False True ''2024-02-01T00:00:00Z'')]"

definition example_dates :: "string \<Rightarrow> int option" where
  "example_dates =
     map_of [(''2024-01-01T00:00:00Z'', 1704067200000), (''2024-02-01T00:00:00Z'', 1706745600000),
             (''2024-03-01T00:00:00Z'', 1709251200000)]"


section \<open>Artifact fetcher\<close>

text \<open>
  The file system is a map from path strings to file contents. What the network and the
  file system do during one download is given from outside:
  \<^item> \<open>fetchSupported\<close>: the runtime has \<open>fetch\<close>;
  \<^item> \<open>assetResponse\<close>: the request is rejected, or a response arrives with its \<open>ok\<close>
    flag, its status and whether it has a body;
  \<^item> \<open>bodyStream\<close>: the pipeline into the temp file runs to the end, fails before the
    file is opened, or breaks after writing a part of the body;
  \<^item> \<open>mkdirSucceeds\<close>, \<open>renameSucceeds\<close>, \<open>unlinkSucceeds\<close>: whether \<open>fs.mkdirSync\<close>,
    \<open>fs.renameSync\<close> and \<open>fs.unlinkSync\<close> return or throw.
\<close>

type_synonym filesystem = "string \<rightharpoonup> string"

datatype asset_response = AssetFetchRejected string | AssetResponse bool nat bool

datatype stream_outcome = StreamDone string | StreamOpenFails string | StreamBreaks string string

record download_env =
  fetchSupported :: bool
  assetResponse :: asset_response
  bodyStream :: stream_outcome
  mkdirSucceeds :: bool
  renameSucceeds :: bool
  unlinkSucceeds :: bool

text \<open>
  \<^verbatim>\<open>
  try {
    await pipeline(Readable.fromWeb(response.body), fs.createWriteStream(tempPath));
    fs.renameSync(tempPath, targetPath);
  }
  \<close>
\<close>

definition streamAndRename ::
  "download_env \<Rightarrow> string \<Rightarrow> string \<Rightarrow> filesystem \<Rightarrow> (update_error + unit) \<times> filesystem" where
  "streamAndRename env tempPath targetPath fs =
     (case bodyStream env of
        StreamOpenFails msg \<Rightarrow> (Inl (FileSystemError msg), fs)
      | StreamBreaks written msg \<Rightarrow> (Inl (NetworkError msg), fs(tempPath \<mapsto> written))
      | StreamDone body \<Rightarrow>
          (let fs1 = fs(tempPath \<mapsto> body) in
           if renameSucceeds env then (Inr (), (fs1(targetPath \<mapsto> body))(tempPath := None))
           else (Inl (FileSystemError ''rename''), fs1)))"

text \<open>
  \<^verbatim>\<open>
  catch (error) {
    if (fs.existsSync(tempPath)) {
      try { fs.unlinkSync(tempPath); } catch (_) { /* Best-effort cleanup. */ }
    }
    throw error;
  }
  \<close>
\<close>

definition cleanupTemp :: "download_env \<Rightarrow> string \<Rightarrow> filesystem \<Rightarrow> filesystem" where
  "cleanupTemp env tempPath fs =
     (if fs tempPath \<noteq> None then (if unlinkSucceeds env then fs(tempPath := None) else fs)
      else fs)"

text \<open>
  \<open>downloadGitHubAssetToPath(assetURL, targetPath)\<close>. The result is the error thrown,
  or the pair of \<open>filePath\<close> and \<open>sizeBytes\<close>; with it come the file system after the
  call and the URLs requested so far.
\<close>

definition downloadGitHubAssetToPath ::
  "download_env \<Rightarrow> string \<Rightarrow> string \<Rightarrow> filesystem \<times> string list
     \<Rightarrow> (update_error + string \<times> nat) \<times> filesystem \<times> string list" where
  "downloadGitHubAssetToPath env assetURL targetPath w =
     (let fs = fst w; requested = snd w in
      if \<not> fetchSupported env then (Inl FetchUnsupported, fs, requested)
      else
        (let requested1 = requested @ [assetURL] in
         case assetResponse env of
           AssetFetchRejected msg \<Rightarrow> (Inl (NetworkError msg), fs, requested1)
         | AssetResponse ok code hasBody \<Rightarrow>
             if \<not> ok then (Inl (AssetDownloadFailed code), fs, requested1)
             else if \<not> hasBody then (Inl EmptyResponseBody, fs, requested1)
             else if \<not> mkdirSucceeds env then (Inl (FileSystemError ''mkdir''), fs, requested1)
             else
               (let tempPath = targetPath @ ''.download'' in
                case streamAndRename env tempPath targetPath fs of
                  (Inl e, fs1) \<Rightarrow> (Inl e, cleanupTemp env tempPath fs1, requested1)
                | (Inr u, fs1) \<Rightarrow>
                    (case fs1 targetPath of
                       None \<Rightarrow> (Inl (FileSystemError ''stat''), fs1, requested1)
                     | Some content \<Rightarrow> (Inr (targetPath, length content), fs1, requested1)))))"

text \<open>
  The downloads of the worked examples: a stream that breaks after three bytes, and one
  that delivers the whole body.
\<close>

definition broken_download :: download_env where
  "broken_download =
     \<lparr>fetchSupported = True, assetResponse = AssetResponse True 200 True,
      bodyStream = StreamBreaks ''PK.'' ''socket hang up'', mkdirSucceeds = True,
      renameSucceeds = True, unlinkSucceeds = True\<rparr>"

definition good_download :: download_env where
  "good_download =
     \<lparr>fetchSupported = True, assetResponse = AssetResponse True 200 True,
      bodyStream = StreamDone ''PK.archive'', mkdirSucceeds = True,
      renameSucceeds = True, unlinkSucceeds = True\<rparr>"


section \<open>Update orchestrator\<close>

record updateConfig =
  autoCheck :: bool
  autoDownload :: bool
  allowPrerelease :: bool
  feedURL :: string
  useGithubReleaseZip :: bool
  autoApplyGithubZip :: bool

definition DEFAULT_UPDATE_CONFIG :: updateConfig where
  "DEFAULT_UPDATE_CONFIG =
     \<lparr>autoCheck = True, autoDownload = True, allowPrerelease = False, feedURL = [],
      useGithubReleaseZip = True, autoApplyGithubZip = True\<rparr>"

datatype update_state =
  Idle | Checking | Available | Downloading | Downloaded | Installing | Disabled | Failed

datatype update_source = NoSource | GithubReleaseZip | ElectronUpdater

text \<open>
  The status record. \<open>null\<close> is \<open>None\<close>; the \<open>error\<close> field holds the error whose
  message the code stores.
\<close>

record updateStatus =
  status :: update_state
  message :: string
  currentVersion :: string
  source :: update_source
  availableVersion :: "string option"
  downloadedVersion :: "string option"
  updateFilePath :: "string option"
  releasePage :: "string option"
  progressPercent :: nat
  checkedAt :: "nat option"
  isPackaged :: bool
  error :: "update_error option"
  updatedAt :: nat

record githubUpdateMetadata =
  lastTag :: string
  filePath :: string
  downloadedAt :: nat
  sizeBytes :: nat
  assetName :: string
  releasePageOfTag :: string
  lastAppliedTag :: string
  appliedAt :: nat

definition createInitialGitHubUpdateMetadata :: githubUpdateMetadata where
  "createInitialGitHubUpdateMetadata =
     \<lparr>lastTag = [], filePath = [], downloadedAt = 0, sizeBytes = 0,
      assetName = GITHUB_UPDATE_ASSET_NAME, releasePageOfTag = [], lastAppliedTag = [],
      appliedAt = 0\<rparr>"

text \<open>
  What the process reads from its surroundings: the version and packaging of the running
  application, the data directory, the platform, two environment variables (empty when
  unset) and the clock.
\<close>

record environment =
  appVersion :: string
  appIsPackaged :: bool
  userDataDir :: path
  platform :: string
  assetNameEnv :: string
  tagsPageEnv :: string
  clock :: nat

definition createInitialUpdateStatus :: "environment \<Rightarrow> updateStatus" where
  "createInitialUpdateStatus env =
     \<lparr>status = Idle, message = ''Updater idle.'', currentVersion = appVersion env,
      source = NoSource, availableVersion = None, downloadedVersion = None,
      updateFilePath = None, releasePage = None, progressPercent = 0, checkedAt = None,
      isPackaged = appIsPackaged env, error = None, updatedAt = clock env\<rparr>"

text \<open>
  The state of the updater, with the effects it has on its surroundings: the files on disk, the
  asset URLs requested from the network, the status records broadcast, the launchers
  started and whether the quit of the application has been scheduled.
\<close>

record updater_world =
  updateConfig :: updateConfig
  updateStatus :: updateStatus
  githubUpdateMetadata :: githubUpdateMetadata
  files :: filesystem
  assetRequests :: "string list"
  broadcasts :: "updateStatus list"
  launched :: "string list"
  quitScheduled :: bool

text \<open>
  \<^verbatim>\<open>
  function setUpdateStatus(patch) {
    const next = patch && typeof patch === "object" ? patch : {};
    updateStatus = { ...updateStatus, ...next,
      currentVersion: app.getVersion(), isPackaged: app.isPackaged, updatedAt: Date.now() };
    sendUpdateStatus();
  }
  \<close>
  A patch is the update it makes to the record.
\<close>

definition setUpdateStatus ::
  "environment \<Rightarrow> (updateStatus \<Rightarrow> updateStatus) \<Rightarrow> updater_world \<Rightarrow> updater_world" where
  "setUpdateStatus env patch w =
     (let next = (patch (updateStatus w))
                   \<lparr>currentVersion := appVersion env, isPackaged := appIsPackaged env,
                    updatedAt := clock env\<rparr>
      in w\<lparr>updateStatus := next, broadcasts := broadcasts w @ [next]\<rparr>)"

definition orElse :: "string \<Rightarrow> string \<Rightarrow> string" where
  \<comment> \<open>\<open>a || b\<close> on strings: the empty string is falsy\<close>
  "orElse a b = (if a \<noteq> [] then a else b)"

definition orNull :: "string \<Rightarrow> string option" where
  \<comment> \<open>\<open>a || null\<close>\<close>
  "orNull a = (if a \<noteq> [] then Some a else None)"

record check_options =
  manual :: bool
  download :: bool
  forceDownload :: bool

datatype check_result =
    CheckFailed update_error
  | UpToDate string string
  | AlreadyDownloaded bool string string string
  | UpdateAvailable string string string
  | DownloadedNow string string nat string

text \<open>
  The results are the objects the code returns: \<open>CheckFailed e\<close> is \<open>{ok: false, error}\<close>,
  \<open>UpToDate tag filePath\<close> is \<open>{ok: true, upToDate: true, tag, filePath}\<close>,
  \<open>AlreadyDownloaded alreadyApplied tag filePath releasePage\<close> is
  \<open>{ok: true, alreadyDownloaded: true, alreadyApplied, tag, filePath, releasePage}\<close>,
  \<open>UpdateAvailable tag downloadURL releasePage\<close> is \<open>{ok: true, available: true, ...}\<close> and
  \<open>DownloadedNow tag filePath sizeBytes releasePage\<close> is \<open>{ok: true, downloaded: true, ...}\<close>.

  \<open>checkRelease\<close> is the part of \<open>checkGitHubReleaseZipUpdate\<close> from the line
  \<open>const tag = String(release.tag_name || "").trim()\<close> on, for the release found.
\<close>

definition checkRelease ::
  "environment \<Rightarrow> download_env \<Rightarrow> check_options \<Rightarrow> release \<Rightarrow> updater_world
     \<Rightarrow> check_result \<times> updater_world" where
  "checkRelease env dl opts r w =
     (let wantedAsset = resolveGitHubUpdateAssetName (assetNameEnv env);
          tagsPageURL = resolveGitHubTagsPageURL (tagsPageEnv env);
          tag = trim (tag_name r);
          normalizedVersion = normalizeVersionFromTag tag;
          normalizedCurrentVersion = normalizeVersionFromTag (appVersion env);
          page = orElse (html_url r) tagsPageURL;
          found = findReleaseAsset r wantedAsset;
          latestParts = parseVersionParts normalizedVersion;
          currentParts = parseVersionParts normalizedCurrentVersion;
          meta = githubUpdateMetadata w
      in
      if length latestParts > 0 \<and> length currentParts > 0
         \<and> compareVersions normalizedVersion normalizedCurrentVersion \<le> 0
      then
        (UpToDate tag (filePath meta),
         setUpdateStatus env
           (\<lambda>s. s\<lparr>source := GithubReleaseZip, status := Idle,
                  message := ''You are already on version '' @ appVersion env @ ''.'',
                  availableVersion := Some (orElse normalizedVersion tag),
                  downloadedVersion := Some (orElse normalizedVersion tag),
                  updateFilePath := orNull (filePath meta),
                  releasePage := Some page, progressPercent := 100,
                  checkedAt := Some (clock env), error := None\<rparr>) w)
      else if (case found of None \<Rightarrow> True | Some a \<Rightarrow> browser_download_url a = [])
      then
        (CheckFailed (NoAsset tag wantedAsset),
         setUpdateStatus env
           (\<lambda>s. s\<lparr>source := GithubReleaseZip, status := Failed,
                  message := ''Latest tag '' @ tag @ '' has no '' @ wantedAsset @ '' asset.'',
                  availableVersion := Some (orElse normalizedVersion tag),
                  checkedAt := Some (clock env), releasePage := Some page,
                  error := Some (NoAsset tag wantedAsset)\<rparr>) w)
      else
        (let downloadURL = (case found of None \<Rightarrow> [] | Some a \<Rightarrow> browser_download_url a);
             hasDownloadedFile =
               (lastTag meta = tag \<and> filePath meta \<noteq> [] \<and> files w (filePath meta) \<noteq> None)
         in
         if hasDownloadedFile \<and> \<not> forceDownload opts then
           (let alreadyApplied = (tag \<noteq> [] \<and> lastAppliedTag meta = tag) in
            (AlreadyDownloaded alreadyApplied tag (filePath meta) page,
             setUpdateStatus env
               (\<lambda>s. s\<lparr>source := GithubReleaseZip,
                      status := (if alreadyApplied then Idle else Downloaded),
                      message := (if alreadyApplied
                                  then ''Latest tag '' @ tag @ '' is already applied.''
                                  else ''Latest tag '' @ tag @ '' is already downloaded.''),
                      availableVersion := Some (orElse normalizedVersion tag),
                      downloadedVersion := Some (orElse normalizedVersion tag),
                      updateFilePath := Some (filePath meta),
                      releasePage := Some page, progressPercent := 100,
                      checkedAt := Some (clock env), error := None\<rparr>) w))
         else if \<not> download opts then
           (UpdateAvailable tag downloadURL page,
            setUpdateStatus env
              (\<lambda>s. s\<lparr>source := GithubReleaseZip, status := Available,
                     message := ''GitHub update '' @ tag @ '' is available.'',
                     availableVersion := Some (orElse normalizedVersion tag),
                     downloadedVersion := None, updateFilePath := None,
                     releasePage := Some page, progressPercent := 0,
                     checkedAt := Some (clock env), error := None\<rparr>) w)
         else
           (let w1 = setUpdateStatus env
                       (\<lambda>s. s\<lparr>source := GithubReleaseZip, status := Downloading,
                              message := ''Downloading '' @ wantedAsset @ '' from '' @ tag @ ''...'',
                              availableVersion := Some (orElse normalizedVersion tag),
                              downloadedVersion := None, updateFilePath := None,
                              releasePage := Some page, progressPercent := 0,
                              checkedAt := Some (clock env), error := None\<rparr>) w;
                destinationPath =
                  pathString (resolveGitHubUpdateTargetPath (userDataDir env) (assetNameEnv env) tag)
            in
            case downloadGitHubAssetToPath dl downloadURL destinationPath
                   (files w1, assetRequests w1) of
              (Inr (savedPath, savedSize), fs', requested') \<Rightarrow>
                (let w2 = w1\<lparr>files := fs', assetRequests := requested',
                             githubUpdateMetadata :=
                               meta\<lparr>lastTag := tag, filePath := savedPath,
                                    downloadedAt := clock env, sizeBytes := savedSize,
                                    assetName := wantedAsset, releasePageOfTag := page\<rparr>\<rparr>
                 in (DownloadedNow tag savedPath savedSize page,
                     setUpdateStatus env
                       (\<lambda>s. s\<lparr>source := GithubReleaseZip, status := Downloaded,
                              message := ''Downloaded '' @ wantedAsset @ '' from '' @ tag @ ''.'',
                              availableVersion := Some (orElse normalizedVersion tag),
                              downloadedVersion := Some (orElse normalizedVersion tag),
                              updateFilePath := Some savedPath,
                              releasePage := Some page, progressPercent := 100,
                              checkedAt := Some (clock env), error := None\<rparr>) w2))
            | (Inl e, fs', requested') \<Rightarrow>
                (CheckFailed e,
                 setUpdateStatus env
                   (\<lambda>s. s\<lparr>source := GithubReleaseZip, status := Failed,
                          message := ''Failed to download update.zip from GitHub.'',
                          availableVersion := Some (orElse normalizedVersion tag),
                          checkedAt := Some (clock env), releasePage := Some page,
                          error := Some e\<rparr>)
                   (w1\<lparr>files := fs', assetRequests := requested'\<rparr>)))))"

text \<open>
  \<open>checkGitHubReleaseZipUpdate(options)\<close>: the status goes to \<open>checking\<close>, the latest
  release is fetched, and a release with a tag is handed to \<open>checkRelease\<close>.
\<close>

definition checkGitHubReleaseZipUpdate ::
  "(string \<Rightarrow> int option) \<Rightarrow> environment \<Rightarrow> index_outcome \<Rightarrow> download_env \<Rightarrow> check_options
     \<Rightarrow> updater_world \<Rightarrow> check_result \<times> updater_world" where
  "checkGitHubReleaseZipUpdate Date_parse env idx dl opts w =
     (let wantedAsset = resolveGitHubUpdateAssetName (assetNameEnv env);
          tagsPageURL = resolveGitHubTagsPageURL (tagsPageEnv env);
          w0 = setUpdateStatus env
                 (\<lambda>s. s\<lparr>source := GithubReleaseZip, status := Checking,
                        message := ''Checking GitHub release tags for '' @ wantedAsset @ ''...'',
                        availableVersion := None, downloadedVersion := None,
                        updateFilePath := None, releasePage := Some tagsPageURL,
                        progressPercent := 0, checkedAt := Some (clock env), error := None\<rparr>) w
      in
      case fetchLatestGitHubRelease Date_parse (allowPrerelease (updateConfig w0)) idx of
        Inl e \<Rightarrow>
          (CheckFailed e,
           setUpdateStatus env
             (\<lambda>s. s\<lparr>source := GithubReleaseZip, status := Failed,
                    message := ''Failed to fetch GitHub release tags.'',
                    checkedAt := Some (clock env), error := Some e\<rparr>) w0)
      | Inr found \<Rightarrow>
          (case (case found of None \<Rightarrow> None
                 | Some r \<Rightarrow> if tag_name r = [] then None else Some r) of
             None \<Rightarrow>
               (CheckFailed NoReleaseTags,
                setUpdateStatus env
                  (\<lambda>s. s\<lparr>source := GithubReleaseZip, status := Idle,
                         message := ''No GitHub release tags found.'',
                         checkedAt := Some (clock env), error := None\<rparr>) w0)
           | Some r \<Rightarrow> checkRelease env dl opts r w0))"


section \<open>Archive installer\<close>

text \<open>
  \<open>path.basename\<close> and \<open>path.extname\<close> on the path of a file: the part after the last
  separator, and of that part the last dot and what follows it, unless the dot comes
  first or the part is \<open>..\<close>.
\<close>

definition basename :: "string \<Rightarrow> string" where
  "basename p = rev (takeWhile (\<lambda>c. \<not> isSeparator c) (rev p))"

definition extname :: "string \<Rightarrow> string" where
  "extname p =
     (let base = basename p;
          afterDot = takeWhile (\<lambda>c. c \<noteq> CHR ''.'') (rev base);
          stem = take (length base - length afterDot - 1) base
      in if CHR ''.'' \<notin> set base \<or> stem = [] \<or> base = ''..'' then []
         else drop (length stem) base)"

text \<open>
  \<^verbatim>\<open>
  function scoreLauncherCandidate(filePath) {
    const name = path.basename(filePath).toLowerCase();
    if (name.includes("uninstall")) { return -100; }
    let score = 0;
    if (name.includes("setup")) { score += 60; }
    if (name.includes("installer")) { score += 50; }
    if (name.includes("update")) { score += 40; }
    if (name.includes("portable")) { score += 30; }
    if (name.includes("bastion")) { score += 20; }
    const ext = path.extname(name);
    if (ext === ".exe") { score += 25; }
    else if (ext === ".cmd" || ext === ".bat") { score += 10; }
    else { score -= 10; }
    return score;
  }
  \<close>
\<close>

definition scoreLauncherCandidate :: "string \<Rightarrow> int" where
  "scoreLauncherCandidate p =
     (let base = toLowerCase (basename p) in
      if str_includes base ''uninstall'' then - 100
      else
        (if str_includes base ''setup'' then 60 else 0)
        + (if str_includes base ''installer'' then 50 else 0)
        + (if str_includes base ''update'' then 40 else 0)
        + (if str_includes base ''portable'' then 30 else 0)
        + (if str_includes base ''bastion'' then 20 else 0)
        + (let ext = extname base in
           if ext = ''.exe'' then 25
           else if ext = ''.cmd'' \<or> ext = ''.bat'' then 10
           else - 10))"

text \<open>
  \<open>candidates.sort(compare)\<close> as a stable insertion sort: an element goes in front of the
  first later element that the comparator does not put before it.
\<close>

fun insertBy :: "('a \<Rightarrow> 'a \<Rightarrow> int) \<Rightarrow> 'a \<Rightarrow> 'a list \<Rightarrow> 'a list" where
  "insertBy cmp x [] = [x]"
| "insertBy cmp x (y # ys) = (if cmp x y \<le> 0 then x # y # ys else y # insertBy cmp x ys)"

definition sortBy :: "('a \<Rightarrow> 'a \<Rightarrow> int) \<Rightarrow> 'a list \<Rightarrow> 'a list" where
  "sortBy cmp xs = foldr (insertBy cmp) xs []"

definition compareLaunchers :: "string \<Rightarrow> string \<Rightarrow> int" where
  "compareLaunchers l r =
     (let scoreDiff = scoreLauncherCandidate r - scoreLauncherCandidate l
      in if scoreDiff \<noteq> 0 then scoreDiff else int (length l) - int (length r))"

definition pickUpdateLauncherFromExtractedFiles :: "string list \<Rightarrow> string option" where
  "pickUpdateLauncherFromExtractedFiles extracted =
     (let candidates =
            filter (\<lambda>p. let ext = toLowerCase (extname p)
                        in ext = ''.exe'' \<or> ext = ''.cmd'' \<or> ext = ''.bat'') extracted
      in case sortBy compareLaunchers candidates of
           [] \<Rightarrow> None
         | first # rest \<Rightarrow> Some first)"

text \<open>
  The options of \<open>applyGitHubReleaseZipUpdate\<close>: a field that is not given is \<open>None\<close> and
  takes its default from the metadata. What the staging step does is given from outside:
  whether \<open>fs.rmSync\<close> and \<open>fs.mkdirSync\<close> clear the staging directory or throw (the code
  goes on either way), and whether the extraction fails or leaves files, listed with
  their contents in the order \<open>collectFilesRecursive\<close> finds them.
\<close>

record apply_options =
  applyManual :: bool
  applyTag :: "string option"
  applyZipPath :: "string option"
  applyReleasePage :: "string option"

datatype extract_outcome = ExtractFails string | Extracted "(string \<times> string) list"

record staging_outcome =
  stageCleared :: bool
  extractResult :: extract_outcome

definition removeTree :: "string \<Rightarrow> filesystem \<Rightarrow> filesystem" where
  \<comment> \<open>\<open>fs.rmSync(dir, { recursive: true, force: true })\<close>\<close>
  "removeTree dir fs = (\<lambda>p. if p = dir \<or> startsWith p (dir @ ''/'') then None else fs p)"

fun writeFiles :: "(string \<times> string) list \<Rightarrow> filesystem \<Rightarrow> filesystem" where
  "writeFiles [] fs = fs"
| "writeFiles ((p, content) # rest) fs = writeFiles rest (fs(p \<mapsto> content))"

datatype apply_result =
    ApplyFailed update_error
  | ApplySkipped string
  | Applied string string path

text \<open>
  \<open>ApplySkipped tag\<close> is \<open>{ok: true, skipped: true, reason: "already-applied", tag}\<close>,
  \<open>Applied tag launcherPath stagedPath\<close> is \<open>{ok: true, tag, launcherPath, stagedPath}\<close>.
\<close>

definition applyGitHubReleaseZipUpdate ::
  "environment \<Rightarrow> staging_outcome \<Rightarrow> apply_options \<Rightarrow> updater_world
     \<Rightarrow> apply_result \<times> updater_world" where
  "applyGitHubReleaseZipUpdate env staging opts w =
     (let meta = githubUpdateMetadata w;
          tag = trim (case applyTag opts of None \<Rightarrow> lastTag meta | Some t \<Rightarrow> t);
          zipPath = trim (case applyZipPath opts of None \<Rightarrow> filePath meta | Some z \<Rightarrow> z);
          page = trim (case applyReleasePage opts of None \<Rightarrow> releasePageOfTag meta
                       | Some p \<Rightarrow> p)
      in
      if platform env \<noteq> ''win32'' then (ApplyFailed NotWindows, w)
      else if zipPath = [] \<or> files w zipPath = None then (ApplyFailed NoDownloadedZip, w)
      else if \<not> applyManual opts \<and> tag \<noteq> [] \<and> lastAppliedTag meta = tag
      then (ApplySkipped tag, w)
      else
        (let stageDir = resolveGitHubUpdateStagingDir (userDataDir env) (orElse tag ''latest'');
             w0 = setUpdateStatus env
                    (\<lambda>s. s\<lparr>source := GithubReleaseZip, status := Installing,
                           message := ''Applying '' @ basename zipPath @ ''...'',
                           availableVersion :=
                             (if tag \<noteq> [] then Some (orElse (normalizeVersionFromTag tag) tag)
                              else availableVersion s),
                           updateFilePath := Some zipPath,
                           releasePage := (if page \<noteq> [] then Some page else releasePage s),
                           progressPercent := 100, checkedAt := Some (clock env),
                           error := None\<rparr>) w;
             w1 = (if stageCleared staging
                   then w0\<lparr>files := removeTree (pathString stageDir) (files w0)\<rparr>
                   else w0);
             failWith = (\<lambda>e. (ApplyFailed e,
                          setUpdateStatus env
                            (\<lambda>s. s\<lparr>source := GithubReleaseZip, status := Failed,
                                   message := ''Failed to apply downloaded update.zip.'',
                                   updateFilePath := Some zipPath,
                                   releasePage := (if page \<noteq> [] then Some page else releasePage s),
                                   checkedAt := Some (clock env), error := Some e\<rparr>) w1))
         in
         case extractResult staging of
           ExtractFails msg \<Rightarrow> failWith (FileSystemError msg)
         | Extracted extracted \<Rightarrow>
             (case pickUpdateLauncherFromExtractedFiles (map fst extracted) of
                None \<Rightarrow>
                  (ApplyFailed NoLauncher,
                   setUpdateStatus env
                     (\<lambda>s. s\<lparr>source := GithubReleaseZip, status := Failed,
                            message := ''Failed to apply downloaded update.zip.'',
                            updateFilePath := Some zipPath,
                            releasePage := (if page \<noteq> [] then Some page else releasePage s),
                            checkedAt := Some (clock env), error := Some NoLauncher\<rparr>)
                     (w1\<lparr>files := writeFiles extracted (files w1)\<rparr>))
              | Some launcherPath \<Rightarrow>
                  (let w2 = w1\<lparr>files := writeFiles extracted (files w1),
                               launched := launched w1 @ [launcherPath],
                               githubUpdateMetadata :=
                                 meta\<lparr>lastAppliedTag := tag, appliedAt := clock env,
                                      releasePageOfTag := orElse page (releasePageOfTag meta)\<rparr>\<rparr>;
                       w3 = setUpdateStatus env
                              (\<lambda>s. s\<lparr>source := GithubReleaseZip, status := Installing,
                                     message := ''Launching updater: '' @ basename launcherPath,
                                     updateFilePath := Some zipPath,
                                     releasePage := (if page \<noteq> [] then Some page else releasePage s),
                                     error := None\<rparr>) w2
                   in (Applied tag launcherPath stageDir, w3\<lparr>quitScheduled := True\<rparr>)))))"

text \<open>The surroundings and the state of the worked examples.\<close>

definition example_env :: environment where
  "example_env =
     \<lparr>appVersion = ''1.2.0'', appIsPackaged = True, userDataDir = [''data''],
      platform = ''win32'', assetNameEnv = [], tagsPageEnv = [], clock = 1000\<rparr>"

definition example_world :: updater_world where
  "example_world =
     \<lparr>updateConfig = DEFAULT_UPDATE_CONFIG, updateStatus = createInitialUpdateStatus example_env,
      githubUpdateMetadata = createInitialGitHubUpdateMetadata, files = Map.empty,
      assetRequests = [], broadcasts = [], launched = [], quitScheduled = False\<rparr>"

definition download_requested :: check_options where
  "download_requested = \<lparr>manual = False, download = True, forceDownload = False\<rparr>"


text \<open>
  The conditions that \<open>checkRelease\<close> tests, by name: the tag of the release, whether
  the running version is at least the version of the tag (both having a numeric part),
  and the download URL of the wanted asset (empty when the asset is missing or has no
  URL).
\<close>

definition releaseTag :: "release \<Rightarrow> string" where
  "releaseTag r = trim (tag_name r)"

definition isUpToDate :: "environment \<Rightarrow> release \<Rightarrow> bool" where
  "isUpToDate env r =
     (length (parseVersionParts (normalizeVersionFromTag (releaseTag r))) > 0
      \<and> length (parseVersionParts (normalizeVersionFromTag (appVersion env))) > 0
      \<and> compareVersions (normalizeVersionFromTag (releaseTag r))
            (normalizeVersionFromTag (appVersion env)) \<le> 0)"

definition wantedAssetURL :: "environment \<Rightarrow> release \<Rightarrow> string" where
  "wantedAssetURL env r =
     (case findReleaseAsset r (resolveGitHubUpdateAssetName (assetNameEnv env)) of
        None \<Rightarrow> []
      | Some a \<Rightarrow> browser_download_url a)"

definition releasePageOf :: "environment \<Rightarrow> release \<Rightarrow> string" where
  "releasePageOf env r = orElse (html_url r) (resolveGitHubTagsPageURL (tagsPageEnv env))"


definition release_1_2_0 :: release where
  "release_1_2_0 = mk_release ''v1.2.0'' False False ''2024-01-01T00:00:00Z''"

definition release_1_3_0 :: release where
  "release_1_3_0 = mk_release ''v1.3.0'' False False ''2024-01-01T00:00:00Z''"


definition index_1_3_0 :: index_outcome where
  "index_1_3_0 = IndexResponse True 200 (ReleaseArray [Some release_1_3_0])"

definition applied_world :: updater_world where
  "applied_world =
     example_world
       \<lparr>githubUpdateMetadata :=
          createInitialGitHubUpdateMetadata
            \<lparr>lastTag := ''v1.3.0'', filePath := ''/data/updates/v1.3.0/update.zip'',
             lastAppliedTag := ''v1.3.0''\<rparr>,
        files := [''/data/updates/v1.3.0/update.zip'' \<mapsto> ''PK.archive'']\<rparr>"

definition automatic_apply :: apply_options where
  "automatic_apply =
     \<lparr>applyManual = False, applyTag = None, applyZipPath = None, applyReleasePage = None\<rparr>"

definition setup_extracted :: staging_outcome where
  "setup_extracted =
     \<lparr>stageCleared = True,
      extractResult = Extracted [(''/data/updates/staged/latest/Bastion-Setup.exe'', ''MZ'')]\<rparr>"

text \<open>
  States and surroundings in which the tag of the latest release is the one on disk:
  the running version is already \<open>1.3.0\<close>; the release has lost its asset; the archive
  is gone from the disk; the platform is not Windows; and an archive recorded without a
  tag.
\<close>

definition env_1_3_0 :: environment where
  "env_1_3_0 = example_env\<lparr>appVersion := ''1.3.0''\<rparr>"

definition env_linux :: environment where
  "env_linux = example_env\<lparr>platform := ''linux''\<rparr>"

definition index_without_asset :: index_outcome where
  "index_without_asset =
     IndexResponse True 200 (ReleaseArray [Some (release_1_3_0\<lparr>assets := []\<rparr>)])"

definition archive_removed :: updater_world where
  "archive_removed = applied_world\<lparr>files := Map.empty\<rparr>"

definition untagged_world :: updater_world where
  "untagged_world =
     example_world
       \<lparr>githubUpdateMetadata :=
          createInitialGitHubUpdateMetadata\<lparr>filePath := ''/data/updates/latest/update.zip''\<rparr>,
        files := [''/data/updates/latest/update.zip'' \<mapsto> ''PK.archive'']\<rparr>"


section \<open>Properties of the version comparison\<close>

lemma at_or_zero_pad:
  "index < n \<Longrightarrow> length xs \<le> n \<Longrightarrow> pad_zeros n xs ! index = at_or_zero xs index"
  by (simp add: pad_zeros_def at_or_zero_def nth_append)

lemma length_pad_zeros: "length xs \<le> n \<Longrightarrow> length (pad_zeros n xs) = n"
  by (simp add: pad_zeros_def)

lemma compareLoop_componentwise:
  assumes "length left \<le> n" and "length right \<le> n"
  shows "compareLoop left right n index =
           compare_componentwise (drop index (pad_zeros n left)) (drop index (pad_zeros n right))"
  using assms
proof (induction left right n index rule: compareLoop.induct)
  case (1 left right maxLength index)
  show ?case
  proof (cases "index < maxLength")
    case False
    with 1 show ?thesis
      by (simp add: compareLoop.simps [of left right maxLength index] length_pad_zeros)
  next
    case True
    let ?l = "pad_zeros maxLength left" and ?r = "pad_zeros maxLength right"
    from True 1 have dl: "drop index ?l = at_or_zero left index # drop (Suc index) ?l"
      by (metis Cons_nth_drop_Suc at_or_zero_pad length_pad_zeros)
    from True 1 have dr: "drop index ?r = at_or_zero right index # drop (Suc index) ?r"
      by (metis Cons_nth_drop_Suc at_or_zero_pad length_pad_zeros)
    show ?thesis
    proof (cases "at_or_zero left index = at_or_zero right index")
      case False
      then show ?thesis
        using True by (simp add: compareLoop.simps [of left right maxLength index] dl dr Let_def)
    next
      case eq: True
      have "compareLoop left right maxLength index = compareLoop left right maxLength (index + 1)"
        using True eq by (simp add: compareLoop.simps [of left right maxLength index] Let_def)
      also have "\<dots> = compare_componentwise (drop (index + 1) ?l) (drop (index + 1) ?r)"
        using "1.IH" [OF True refl refl] eq "1.prems" by simp
      finally show ?thesis
        using eq by (simp add: dl dr)
    qed
  qed
qed

lemma compare_componentwise_range: "compare_componentwise xs ys \<in> {- 1, 0, 1}"
  by (induction xs ys rule: compare_componentwise.induct) auto

lemma compareVersions_padded_eq: "compareVersions a b = compareVersions_padded a b"
  by (simp add: compareVersions_def compareVersions_padded_def Let_def compareLoop_componentwise)

lemma compareVersions_range: "compareVersions a b \<in> {- 1, 0, 1}"
  unfolding compareVersions_padded_eq compareVersions_padded_def Let_def
  using compare_componentwise_range by auto

lemma pieces_nonempty: "pieces s \<noteq> []"
  by (induction s) (auto split: list.splits)

lemma split_nondigits_pieces:
  "filter (\<lambda>p. p \<noteq> []) (split_nondigits cur s)
     = filter (\<lambda>p. p \<noteq> []) ((rev cur @ hd (pieces s)) # tl (pieces s))"
proof (induction cur s rule: split_nondigits.induct)
  case (1 cur)
  show ?case by simp
next
  case (2 cur c cs)
  show ?case
  proof (cases "isDigit c")
    case True
    obtain p ps where p: "pieces cs = p # ps"
      using pieces_nonempty [of cs] by (cases "pieces cs") auto
    from True 2 p show ?thesis by simp
  next
    case False
    have skip: "filter (\<lambda>p. p \<noteq> []) (pieces (dropWhile (\<lambda>d. \<not> isDigit d) xs))
        = filter (\<lambda>p. p \<noteq> []) (pieces xs)" for xs
      by (induction xs) auto
    have whole: "filter (\<lambda>p. p \<noteq> []) ((hd (pieces xs)) # tl (pieces xs))
        = filter (\<lambda>p. p \<noteq> []) (pieces xs)" for xs
      using pieces_nonempty [of xs] by (cases "pieces xs") auto
    from False 2 show ?thesis
      by (simp add: skip whole del: filter.simps) (simp add: skip whole)
  qed
qed

lemma digit_runs_split:
  "filter (\<lambda>p. p \<noteq> []) (split_nondigits [] s) = digit_runs s"
  using split_nondigits_pieces [of "[]" s] pieces_nonempty [of s]
  by (cases "pieces s") (auto simp add: digit_runs_def)

lemma digit_runs_dropWhile:
  assumes "\<And>c. P c \<Longrightarrow> \<not> isDigit c"
  shows "digit_runs (dropWhile P s) = digit_runs s"
  using assms by (induction s) (auto simp add: digit_runs_def)

lemma pieces_snoc_nondigit:
  "\<not> isDigit c \<Longrightarrow> pieces (xs @ [c]) = pieces xs @ [[]]"
  by (induction xs) (auto split: list.splits simp add: pieces_nonempty)

lemma digit_runs_append_nondigits:
  assumes "\<And>c. c \<in> set ys \<Longrightarrow> \<not> isDigit c"
  shows "digit_runs (xs @ ys) = digit_runs xs"
  using assms
proof (induction ys rule: rev_induct)
  case Nil
  show ?case by simp
next
  case (snoc y ys)
  have "digit_runs (xs @ ys @ [y]) = digit_runs ((xs @ ys) @ [y])"
    by simp
  also have "\<dots> = digit_runs (xs @ ys)"
    using snoc.prems by (simp add: digit_runs_def pieces_snoc_nondigit del: append_assoc)
  finally show ?case
    using snoc by simp
qed

lemma space_no_digit: "isSpace c \<Longrightarrow> \<not> isDigit c"
  by (auto simp add: isSpace_def isDigit_def)

lemma digit_runs_trim: "digit_runs (trim s) = digit_runs s"
proof -
  let ?t = "dropWhile isSpace s"
  have "?t = rev (dropWhile isSpace (rev ?t)) @ rev (takeWhile isSpace (rev ?t))"
    by (metis rev_append rev_rev_ident takeWhile_dropWhile_id)
  then have "digit_runs ?t = digit_runs (rev (dropWhile isSpace (rev ?t)) @ rev (takeWhile isSpace (rev ?t)))"
    by simp
  also have "\<dots> = digit_runs (rev (dropWhile isSpace (rev ?t)))"
    by (rule digit_runs_append_nondigits) (auto dest: set_takeWhileD space_no_digit)
  finally have "digit_runs (trim s) = digit_runs ?t"
    by (simp add: trim_def)
  then show ?thesis
    by (simp add: digit_runs_dropWhile space_no_digit)
qed

lemma decimalValue_positional: "decimalValue s = positional (rev s)"
  by (induction s rule: rev_induct) (simp_all add: decimalValue_def)

lemma digit_runs_empty: "digit_runs [] = []"
  by (simp add: digit_runs_def)

lemma parseVersionParts_versionNumbers: "parseVersionParts v = versionNumbers v"
proof (cases "trim v = []")
  case True
  then have "digit_runs v = []"
    using digit_runs_trim [of v] by (simp add: digit_runs_empty)
  with True show ?thesis
    by (simp add: parseVersionParts_def versionNumbers_def)
next
  case False
  have ne: "(\<lambda>part. 0 < length part) = (\<lambda>p. p \<noteq> [])"
    by auto
  have num: "Number_digits = (\<lambda>p. roundToDouble (positional (rev p)))"
    by (rule ext) (simp only: Number_digits_def decimalValue_positional)
  have fin: "Number_isFinite = (\<lambda>n. n < 2 ^ 1024)"
    by (rule ext) (simp only: Number_isFinite_def)
  from False have "parseVersionParts v
      = filter Number_isFinite (map Number_digits (digit_runs (trim v)))"
    by (simp add: parseVersionParts_def ne digit_runs_split)
  then show ?thesis
    by (simp only: versionNumbers_def digit_runs_trim num fin)
qed

lemma digit_runs_digits: "p \<in> set (digit_runs s) \<Longrightarrow> p \<noteq> [] \<and> list_all isDigit p"
proof -
  have "\<forall>p \<in> set (pieces s). list_all isDigit p"
    by (induction s) (auto split: list.splits)
  then show "p \<in> set (digit_runs s) \<Longrightarrow> p \<noteq> [] \<and> list_all isDigit p"
    by (auto simp add: digit_runs_def)
qed

lemma compareVersions_refines: "compareVersions a b = compareVersions_spec a b"
  by (simp add: compareVersions_padded_eq compareVersions_padded_def compareVersions_spec_def
      parseVersionParts_versionNumbers)



lemma bitLength_bounds: "n \<noteq> 0 \<Longrightarrow> 2 ^ (bitLength n - 1) \<le> n \<and> n < 2 ^ bitLength n"
proof (induction n rule: bitLength.induct)
  case (1 n)
  show ?case
  proof (cases "n div 2 = 0")
    case True
    with 1 have "n = 1" by (cases n) auto
    moreover have "bitLength (Suc 0) = Suc 0"
      by (simp add: bitLength.simps [of "Suc 0"] bitLength.simps [of 0])
    ultimately show ?thesis
      by simp
  next
    case False
    with 1 have ih: "2 ^ (bitLength (n div 2) - 1) \<le> n div 2" "n div 2 < 2 ^ bitLength (n div 2)"
      by auto
    have pos: "bitLength (n div 2) \<noteq> 0"
      using False by (simp add: bitLength.simps [of "n div 2"])
    then have dbl: "(2::nat) ^ bitLength (n div 2) = 2 * 2 ^ (bitLength (n div 2) - 1)"
      by (cases "bitLength (n div 2)") auto
    have half: "2 * (n div 2) \<le> n" "n < 2 * (n div 2) + 2"
      by presburger+
    have bl: "bitLength n = Suc (bitLength (n div 2))"
      using "1.prems" by (simp add: bitLength.simps [of n])
    from ih dbl half have "(2::nat) ^ bitLength (n div 2) \<le> n"
      and "n < 2 * 2 ^ bitLength (n div 2)"
      by linarith+
    then show ?thesis
      by (simp add: bl)
  qed
qed

lemma bitLength_unique:
  assumes "2 ^ (k - 1) \<le> n" and "n < 2 ^ k" and "k \<noteq> 0"
  shows "bitLength n = k"
proof -
  have "(0::nat) < 2 ^ (k - 1)" by simp
  with assms(1) have nz: "n \<noteq> 0" by linarith
  from bitLength_bounds [OF nz] assms
  have "(2::nat) ^ (bitLength n - 1) < 2 ^ k" and "(2::nat) ^ (k - 1) < 2 ^ bitLength n"
    by linarith+
  then have "bitLength n - 1 < k" and "k - 1 < bitLength n"
    by (simp_all only: power_strict_increasing_iff one_less_numeral_iff semiring_norm)
  with assms(3) show ?thesis by linarith
qed

lemma bitLength_54:
  "bitLength 9007199254740993 = 54" "bitLength 9007199254740992 = 54"
  "bitLength 9007199254740995 = 54"
  by (rule bitLength_unique, simp, simp, simp)+

lemma rounding_examples:
  "roundToDouble 9007199254740993 = 9007199254740992"
  "roundToDouble 9007199254740992 = 9007199254740992"
  "roundToDouble 9007199254740995 = 9007199254740996"
  by (simp_all add: roundToDouble_def bitLength_54)

lemma parse_1_2_0: "parseVersionParts ''1.2.0'' = [1, 2, 0]"
  by (simp add: parseVersionParts_def trim_def isSpace_def isDigit_def Number_digits_def
      decimalValue_def roundToDouble_def digitValue_def Number_isFinite_def)

lemma parse_1_10_0: "parseVersionParts ''1.10.0'' = [1, 10, 0]"
  by (simp add: parseVersionParts_def trim_def isSpace_def isDigit_def Number_digits_def
      decimalValue_def roundToDouble_def digitValue_def Number_isFinite_def)

lemma parse_2_0: "parseVersionParts ''2.0'' = [2, 0]"
  by (simp add: parseVersionParts_def trim_def isSpace_def isDigit_def Number_digits_def
      decimalValue_def roundToDouble_def digitValue_def Number_isFinite_def)

lemma parse_2_0_0: "parseVersionParts ''2.0.0'' = [2, 0, 0]"
  by (simp add: parseVersionParts_def trim_def isSpace_def isDigit_def Number_digits_def
      decimalValue_def roundToDouble_def digitValue_def Number_isFinite_def)

lemma parse_1_0: "parseVersionParts ''1.0'' = [1, 0]"
  by (simp add: parseVersionParts_def trim_def isSpace_def isDigit_def Number_digits_def
      decimalValue_def roundToDouble_def digitValue_def Number_isFinite_def)

lemma parse_abc: "parseVersionParts ''abc'' = []"
  by (simp add: parseVersionParts_def trim_def isSpace_def isDigit_def)

lemma parse_rounded:
  "parseVersionParts ''9007199254740993'' = [9007199254740992]"
  "parseVersionParts ''9007199254740992'' = [9007199254740992]"
  by (simp_all add: parseVersionParts_def trim_def isSpace_def isDigit_def Number_digits_def
      decimalValue_def digitValue_def Number_isFinite_def rounding_examples)

text \<open>
  Claim C6. \<open>compareVersions\<close> splits both versions on the runs of non-digits and
  compares the numeric components pairwise, the missing trailing components read as
  \<open>0\<close>; the result is \<open>-1\<close>, \<open>0\<close> or \<open>1\<close>, and it is \<open>0\<close> whenever a side has no
  numeric part. So \<open>compareVersions("1.2.0", "1.10.0") = -1\<close>,
  \<open>compareVersions("2.0", "2.0.0") = 0\<close> and \<open>compareVersions("abc", "1.0") = 0\<close>.
  The components are JavaScript numbers, the decimal values of the digit runs as doubles:
  \<open>9007199254740993\<close> and \<open>9007199254740992\<close> are the same number and compare as \<open>0\<close>.
\<close>

theorem compareVersions_componentwise:
  "parseVersionParts a = versionNumbers a
   \<and> compareVersions a b = compareVersions_spec a b
   \<and> compareVersions a b \<in> {- 1, 0, 1}
   \<and> (versionNumbers a = [] \<or> versionNumbers b = [] \<longrightarrow> compareVersions a b = 0)
   \<and> compareVersions ''1.2.0'' ''1.10.0'' = - 1
   \<and> compareVersions ''2.0'' ''2.0.0'' = 0
   \<and> compareVersions ''abc'' ''1.0'' = 0
   \<and> compareVersions ''9007199254740993'' ''9007199254740992'' = 0"
proof -
  have "compareVersions ''9007199254740993'' ''9007199254740992'' = 0"
    by (simp add: compareVersions_padded_eq compareVersions_padded_def parse_rounded
        pad_zeros_def)
  moreover have "compareVersions ''1.2.0'' ''1.10.0'' = - 1"
    by (simp add: compareVersions_padded_eq compareVersions_padded_def parse_1_2_0 parse_1_10_0
        pad_zeros_def)
  moreover have "compareVersions ''2.0'' ''2.0.0'' = 0"
    by (simp add: compareVersions_padded_eq compareVersions_padded_def parse_2_0 parse_2_0_0
        pad_zeros_def)
  moreover have "compareVersions ''abc'' ''1.0'' = 0"
    by (simp add: compareVersions_def parse_abc)
  moreover have "versionNumbers a = [] \<or> versionNumbers b = [] \<longrightarrow> compareVersions a b = 0"
    by (auto simp add: compareVersions_def parseVersionParts_versionNumbers)
  ultimately show ?thesis
    using compareVersions_refines [of a b] compareVersions_range [of a b]
      parseVersionParts_versionNumbers [of a]
    by simp
qed

theorem compareVersions_componentwise_witness:
  "versionNumbers ''abc'' = [] \<and> compareVersions ''abc'' ''1.0'' = 0
   \<and> versionNumbers ''1.10.0'' = [1, 10, 0]
   \<and> versionNumbers ''1.2.0'' = [1, 2, 0]
   \<and> compareVersions_spec ''1.10.0'' ''1.2.0'' = 1
   \<and> compareVersions ''1.10.0'' ''1.2.0'' = 1
   \<and> versionNumbers ''9007199254740993'' = [9007199254740992]
   \<and> compareVersions ''9007199254740993'' ''9007199254740992'' = 0"
proof -
  have v1: "versionNumbers ''abc'' = []"
    using compareVersions_componentwise [of "''abc''" "''1.0''"] by (simp add: parse_abc)
  have v2: "versionNumbers ''1.10.0'' = [1, 10, 0]"
    using compareVersions_componentwise [of "''1.10.0''" "''1.2.0''"] by (simp add: parse_1_10_0)
  have v3: "versionNumbers ''1.2.0'' = [1, 2, 0]"
    using compareVersions_componentwise [of "''1.2.0''" "''1.10.0''"] by (simp add: parse_1_2_0)
  have v4: "versionNumbers ''9007199254740993'' = [9007199254740992]"
    using compareVersions_componentwise [of "''9007199254740993''" "''9007199254740992''"]
    by (simp add: parse_rounded)
  have v5: "versionNumbers ''9007199254740992'' = [9007199254740992]"
    using compareVersions_componentwise [of "''9007199254740992''" "''9007199254740993''"]
    by (simp add: parse_rounded)
  show ?thesis
    using compareVersions_componentwise [of "''abc''" "''1.0''"]
      compareVersions_componentwise [of "''1.10.0''" "''1.2.0''"]
      compareVersions_componentwise [of "''9007199254740993''" "''9007199254740992''"]
    by (simp add: v1 v2 v3 v4 v5 compareVersions_spec_def pad_zeros_def)
qed

section \<open>Properties of the request decision\<close>

lemmas string_eval =
  toLowerCase_def lowerChar_def isUpper_def isLower_def isDigit_def startsWith_def endsWith_def
  split_on_def

lemma simple_URL_tracker:
  "simple_URL ''http://doubleclick.net/x'' = Some \<lparr>protocol = ''http:'', hostname = ''doubleclick.net''\<rparr>"
  by (simp add: simple_URL_def string_eval)

lemma simple_URL_news:
  "simple_URL ''https://news.example.com/'' = Some \<lparr>protocol = ''https:'', hostname = ''news.example.com''\<rparr>"
  by (simp add: simple_URL_def string_eval)

lemma lower_doubleclick: "toLowerCase ''doubleclick.net'' = ''doubleclick.net''"
  by (simp add: string_eval)

lemma lower_news: "toLowerCase ''news.example.com'' = ''news.example.com''"
  by (simp add: string_eval)

lemma siteKey_doubleclick: "getSiteKey ''doubleclick.net'' = ''doubleclick.net''"
  by (simp add: getSiteKey_def lower_doubleclick LOOPBACK_HOSTS_def isIPv4Literal_def
      endsWith_def split_on_def isDigit_def)

lemma siteKey_news: "getSiteKey ''news.example.com'' = ''example.com''"
  by (simp add: getSiteKey_def lower_news LOOPBACK_HOSTS_def isIPv4Literal_def
      endsWith_def split_on_def isDigit_def)

lemma matches_doubleclick: "matchesTrackerHost ''doubleclick.net''"
  by (simp add: matchesTrackerHost_def lower_doubleclick TRACKER_HOST_RULES_def)

lemma tracker_request_blocked:
  "shouldBlockTrackerRequest simple_URL DEFAULT_PRIVACY_CONFIG tracker_request"
  by (simp add: shouldBlockTrackerRequest_def DEFAULT_PRIVACY_CONFIG_def tracker_request_def
      TRACKER_RESOURCE_TYPES_def getHostnameFromUrl_def toUrlObject_def simple_URL_tracker
      simple_URL_news lower_doubleclick lower_news matches_doubleclick isThirdPartyRequest_def
      siteKey_doubleclick siteKey_news)

lemma tracker_request_upgradable:
  "shouldUpgradeToHttps simple_URL (url tracker_request)"
  by (simp add: shouldUpgradeToHttps_def tracker_request_def toUrlObject_def simple_URL_tracker
      lower_doubleclick LOOPBACK_HOSTS_def isIPv4Literal_def endsWith_def split_on_def isDigit_def)

text \<open>
  Claim C5. In the per-request decision blocking comes before upgrading: a request that
  meets both the block condition and the upgrade condition is cancelled and counted in
  \<open>blockedRequests\<close>; it is never redirected to https. So it is for the script
  \<open>http://doubleclick.net/x\<close> loaded from another site with both flags on.
\<close>

theorem tracker_block_precedes_upgrade:
  assumes "shouldBlockTrackerRequest URL (privacyConfig st) d"
    and "upgradeHttps (privacyConfig st)"
    and "shouldUpgradeToHttps URL (url d)"
  shows "fst (onBeforeRequest URL d st) = Cancel
         \<and> (\<forall>r. fst (onBeforeRequest URL d st) \<noteq> Redirect r)
         \<and> blockedRequests (privacyStats (snd (onBeforeRequest URL d st)))
             = blockedRequests (privacyStats st) + 1
         \<and> upgradedToHttps (privacyStats (snd (onBeforeRequest URL d st)))
             = upgradedToHttps (privacyStats st)"
  using assms(1)
  by (simp add: onBeforeRequest_def bumpStat_def incrementPrivacyStat_def)

theorem tracker_block_precedes_upgrade_witness:
  "shouldBlockTrackerRequest simple_URL (privacyConfig (initial_app_state 0 :: (unit, unit) app_state)) tracker_request
   \<and> upgradeHttps (privacyConfig (initial_app_state 0 :: (unit, unit) app_state))
   \<and> shouldUpgradeToHttps simple_URL (url tracker_request)
   \<and> fst (onBeforeRequest simple_URL tracker_request (initial_app_state 0 :: (unit, unit) app_state)) = Cancel
   \<and> blockedRequests (privacyStats (snd (onBeforeRequest simple_URL tracker_request
         (initial_app_state 0 :: (unit, unit) app_state)))) = 1"
proof -
  let ?st = "initial_app_state 0 :: (unit, unit) app_state"
  have cfg: "privacyConfig ?st = DEFAULT_PRIVACY_CONFIG"
    by (simp add: initial_app_state_def)
  have b: "shouldBlockTrackerRequest simple_URL (privacyConfig ?st) tracker_request"
    using tracker_request_blocked by (simp add: cfg)
  have u: "upgradeHttps (privacyConfig ?st)"
    by (simp add: cfg DEFAULT_PRIVACY_CONFIG_def)
  have z: "blockedRequests (privacyStats ?st) = 0"
    by (simp add: initial_app_state_def createEmptyPrivacyStats_def)
  show ?thesis
    using tracker_block_precedes_upgrade [OF b u tracker_request_upgradable] b u
      tracker_request_upgradable z
    by simp
qed

section \<open>Properties of the permission gate\<close>



section \<open>Properties of the statistics\<close>

lemma step_counters:
  fixes st :: "('h, 'd) app_state"
  shows "blockedRequests (privacyStats (step URL op st))
           \<in> {blockedRequests (privacyStats st), blockedRequests (privacyStats st) + 1}"
    and "upgradedToHttps (privacyStats (step URL op st))
           \<in> {upgradedToHttps (privacyStats st), upgradedToHttps (privacyStats st) + 1}"
    and "strippedCookieHeaders (privacyStats (step URL op st))
           \<in> {strippedCookieHeaders (privacyStats st), strippedCookieHeaders (privacyStats st) + 1}"
    and "blockedPermissions (privacyStats (step URL op st))
           \<in> {blockedPermissions (privacyStats st), blockedPermissions (privacyStats st) + 1}"
  by (cases op; simp add: onBeforeRequest_def onBeforeSendHeaders_def
      permissionRequestHandler_def patchPrivacyConfig_def clearDataByScope_def bumpStat_def
      incrementPrivacyStat_def Let_def)+

lemma run_counters:
  fixes st :: "('h, 'd) app_state"
  shows "blockedRequests (privacyStats st) \<le> blockedRequests (privacyStats (run URL ops st))
       \<and> upgradedToHttps (privacyStats st) \<le> upgradedToHttps (privacyStats (run URL ops st))
       \<and> strippedCookieHeaders (privacyStats st)
            \<le> strippedCookieHeaders (privacyStats (run URL ops st))
       \<and> blockedPermissions (privacyStats st) \<le> blockedPermissions (privacyStats (run URL ops st))"
proof (induction ops arbitrary: st)
  case Nil
  show ?case by simp
next
  case (Cons op ops)
  have "blockedRequests (privacyStats st) \<le> blockedRequests (privacyStats (step URL op st))"
    and "upgradedToHttps (privacyStats st) \<le> upgradedToHttps (privacyStats (step URL op st))"
    and "strippedCookieHeaders (privacyStats st)
           \<le> strippedCookieHeaders (privacyStats (step URL op st))"
    and "blockedPermissions (privacyStats st) \<le> blockedPermissions (privacyStats (step URL op st))"
    using step_counters [of URL op st] by auto
  with Cons.IH [of "step URL op st"] show ?case
    by (simp del: step.simps)
qed

text \<open>
  Claim C10. Each of the counters \<open>blockedRequests\<close>, \<open>upgradedToHttps\<close>,
  \<open>strippedCookieHeaders\<close> and \<open>blockedPermissions\<close> is left unchanged or raised by
  one by every core operation (request interception, header mutation, permission
  decision, configuration patch, clear-data), so no run of operations lowers a counter.
\<close>

theorem counters_never_decrease:
  fixes st :: "('h, 'd) app_state"
  shows
  "blockedRequests (privacyStats (step URL op st))
     \<in> {blockedRequests (privacyStats st), blockedRequests (privacyStats st) + 1}
   \<and> upgradedToHttps (privacyStats (step URL op st))
     \<in> {upgradedToHttps (privacyStats st), upgradedToHttps (privacyStats st) + 1}
   \<and> strippedCookieHeaders (privacyStats (step URL op st))
     \<in> {strippedCookieHeaders (privacyStats st), strippedCookieHeaders (privacyStats st) + 1}
   \<and> blockedPermissions (privacyStats (step URL op st))
     \<in> {blockedPermissions (privacyStats st), blockedPermissions (privacyStats st) + 1}
   \<and> blockedRequests (privacyStats st) \<le> blockedRequests (privacyStats (run URL ops st))
   \<and> upgradedToHttps (privacyStats st) \<le> upgradedToHttps (privacyStats (run URL ops st))
   \<and> strippedCookieHeaders (privacyStats st)
        \<le> strippedCookieHeaders (privacyStats (run URL ops st))
   \<and> blockedPermissions (privacyStats st) \<le> blockedPermissions (privacyStats (run URL ops st))"
  using step_counters [of URL op st] run_counters [of st URL ops] by blast

theorem counters_never_decrease_witness:
  "privacyStats (run simple_URL
       [BeforeRequest tracker_request, PermissionRequest ''midi'', ClearData ''all'',
        PermissionCheck ''midi'']
       (initial_app_state 0 :: (unit, unit) app_state))
     = \<lparr>blockedRequests = 1, upgradedToHttps = 0, strippedCookieHeaders = 0,
        blockedPermissions = 1, startedAt = 0\<rparr>
   \<and> blockedRequests (privacyStats (initial_app_state 0 :: (unit, unit) app_state))
       \<le> blockedRequests (privacyStats (run simple_URL
            [BeforeRequest tracker_request, PermissionRequest ''midi'', ClearData ''all'',
             PermissionCheck ''midi'']
            (initial_app_state 0 :: (unit, unit) app_state)))
   \<and> blockedRequests (privacyStats (step simple_URL (ClearData ''all'')
         (initial_app_state 0 :: (unit, unit) app_state))) = 0"
proof -
  let ?st = "initial_app_state 0 :: (unit, unit) app_state"
  have cfg: "privacyConfig ?st = DEFAULT_PRIVACY_CONFIG"
    by (simp add: initial_app_state_def)
  have stats: "privacyStats ?st = createEmptyPrivacyStats 0"
    by (simp add: initial_app_state_def)
  have r: "onBeforeRequest simple_URL tracker_request ?st = (Cancel, bumpStat ''blockedRequests'' ?st)"
    using tracker_request_blocked by (simp add: onBeforeRequest_def cfg)
  have "privacyStats (run simple_URL
       [BeforeRequest tracker_request, PermissionRequest ''midi'', ClearData ''all'',
        PermissionCheck ''midi''] ?st)
     = \<lparr>blockedRequests = 1, upgradedToHttps = 0, strippedCookieHeaders = 0,
        blockedPermissions = 1, startedAt = 0\<rparr>"
    by (simp add: r cfg stats bumpStat_def incrementPrivacyStat_def permissionRequestHandler_def
        clearDataByScope_def Let_def toLowerCase_def lowerChar_def isUpper_def
        FINGERPRINTING_PERMISSIONS_def DEFAULT_PRIVACY_CONFIG_def
        createEmptyPrivacyStats_def)
  moreover have "blockedRequests (privacyStats (step simple_URL (ClearData ''all'') ?st)) = 0"
    by (simp add: clearDataByScope_def Let_def toLowerCase_def lowerChar_def isUpper_def
        initial_app_state_def createEmptyPrivacyStats_def)
  ultimately show ?thesis
    using counters_never_decrease [of simple_URL "ClearData ''all''" ?st
        "[BeforeRequest tracker_request, PermissionRequest ''midi'', ClearData ''all'',
          PermissionCheck ''midi'']"]
    by simp
qed


section \<open>Properties of the header mutation\<close>

lemma findHeaderKey_lower:
  "findHeaderKey hs name = Some k \<Longrightarrow> toLowerCase k = toLowerCase name"
  by (induction hs name rule: findHeaderKey.induct) (auto split: if_splits)

lemma referer_assignKey:
  "toLowerCase k \<noteq> ''referer'' \<Longrightarrow> refererHeaders (assignKey k v hs) = refererHeaders hs"
  by (induction k v hs rule: assignKey.induct) (auto simp add: refererHeaders_def)

lemma referer_deleteKey:
  "toLowerCase k \<noteq> ''referer'' \<Longrightarrow> refererHeaders (deleteKey k hs) = refererHeaders hs"
  by (induction hs) (auto simp add: refererHeaders_def deleteKey_def)

lemma referer_setHeader:
  "toLowerCase name \<noteq> ''referer'' \<Longrightarrow> refererHeaders (setHeader hs name v) = refererHeaders hs"
  by (auto simp add: setHeader_def referer_assignKey dest: findHeaderKey_lower
      split: option.splits)

lemma referer_removeHeader:
  "toLowerCase name \<noteq> ''referer'' \<Longrightarrow> refererHeaders (removeHeader hs name) = refererHeaders hs"
  by (auto simp add: removeHeader_def referer_deleteKey dest: findHeaderKey_lower
      split: option.splits)

lemma lower_header_names:
  "toLowerCase ''DNT'' \<noteq> ''referer''"
  "toLowerCase ''Sec-GPC'' \<noteq> ''referer''"
  "toLowerCase ''Cookie'' \<noteq> ''referer''"
  by (simp_all add: toLowerCase_def lowerChar_def isUpper_def)

lemma referer_onBeforeSendHeaders:
  "refererHeaders (fst (onBeforeSendHeaders URL d st)) = refererHeaders (requestHeaders d)"
  by (simp add: onBeforeSendHeaders_def Let_def referer_setHeader referer_removeHeader
      lower_header_names)

lemma sanitize_drops_referer_flag:
  "sanitizePrivacyConfig ((privacyConfigObject cfg)(''stripThirdPartyReferer'' \<mapsto> v)) = cfg"
  by (simp add: sanitizePrivacyConfig_def privacyConfigObject_def sanitizeBoolean_def)

lemma simple_URL_a: "simple_URL ''https://a.com'' = Some \<lparr>protocol = ''https:'', hostname = ''a.com''\<rparr>"
  by (simp add: simple_URL_def string_eval)

lemma simple_URL_b:
  "simple_URL ''https://b.com/beacon'' = Some \<lparr>protocol = ''https:'', hostname = ''b.com''\<rparr>"
  by (simp add: simple_URL_def string_eval)

lemma siteKey_a: "getSiteKey ''a.com'' = ''a.com''"
  by (simp add: getSiteKey_def LOOPBACK_HOSTS_def isIPv4Literal_def string_eval)

lemma siteKey_b: "getSiteKey ''b.com'' = ''b.com''"
  by (simp add: getSiteKey_def LOOPBACK_HOSTS_def isIPv4Literal_def string_eval)

lemma cross_site_third_party:
  "isThirdPartyRequest simple_URL ''https://b.com/beacon'' ''https://a.com''"
  by (simp add: isThirdPartyRequest_def getHostnameFromUrl_def toUrlObject_def simple_URL_a
      simple_URL_b siteKey_a siteKey_b)
    (simp add: toLowerCase_def lowerChar_def isUpper_def siteKey_a siteKey_b)

text \<open>
  Claim C4. With \<open>stripThirdPartyReferer\<close> switched on, the header stage should remove
  or blank the \<open>Referer\<close> header of a third-party request and count it in
  \<open>strippedRefererHeaders\<close>. In the code the configuration has no such flag (a patch
  that sets it is dropped on sanitizing), the statistics have no such counter, and the
  header stage hands every \<open>Referer\<close> header on as it came: for the request from
  \<open>https://a.com\<close> to \<open>https://b.com/beacon\<close> the header is still there and the
  state is as before.
\<close>

theorem referer_header_kept:
  "refererHeaders (fst (onBeforeSendHeaders URL d st)) = refererHeaders (requestHeaders d)
   \<and> privacyConfig (patchPrivacyConfig [''stripThirdPartyReferer'' \<mapsto> JBool True]
       (initial_app_state 0 :: (unit, unit) app_state)) = DEFAULT_PRIVACY_CONFIG
   \<and> isThirdPartyRequest simple_URL (url cross_site_request) ''https://a.com''
   \<and> onBeforeSendHeaders simple_URL cross_site_request
        (patchPrivacyConfig [''stripThirdPartyReferer'' \<mapsto> JBool True]
           (initial_app_state 0 :: (unit, unit) app_state))
      = ([(''Referer'', ''https://a.com/''), (''DNT'', ''1''), (''Sec-GPC'', ''1'')],
         initial_app_state 0)"
proof -
  let ?st = "initial_app_state 0 :: (unit, unit) app_state"
  let ?st' = "patchPrivacyConfig [''stripThirdPartyReferer'' \<mapsto> JBool True] ?st"
  have same: "?st' = ?st"
    by (simp add: patchPrivacyConfig_def sanitize_drops_referer_flag)
  have cfg: "privacyConfig ?st = DEFAULT_PRIVACY_CONFIG"
    by (simp add: initial_app_state_def)
  have hdr: "onBeforeSendHeaders simple_URL cross_site_request ?st
      = ([(''Referer'', ''https://a.com/''), (''DNT'', ''1''), (''Sec-GPC'', ''1'')], ?st)"
    by (simp add: onBeforeSendHeaders_def cfg DEFAULT_PRIVACY_CONFIG_def cross_site_request_def
        setHeader_def hasHeader_def toLowerCase_def lowerChar_def isUpper_def)
  show ?thesis
    using cross_site_third_party referer_onBeforeSendHeaders [of URL d st]
    by (simp add: same cfg hdr) (simp add: cross_site_request_def)
qed

section \<open>Properties of the release selection\<close>

lemma hd_insort_key:
  "(case insort_key f x ys of [] \<Rightarrow> None | r # rest \<Rightarrow> Some r)
     = (case ys of [] \<Rightarrow> Some x | y # rest \<Rightarrow> if f x \<le> f y then Some x else Some y)"
  by (cases ys) simp_all

lemma first_sorted_newest:
  "(case sort_key (\<lambda>r. - t r) xs of [] \<Rightarrow> None | r # rest \<Rightarrow> Some r) = newest t xs"
proof (induction xs)
  case Nil
  show ?case by simp
next
  case (Cons x xs)
  show ?case
  proof (cases "sort_key (\<lambda>r. - t r) xs")
    case Nil
    with Cons show ?thesis by simp
  next
    case (Cons y ys)
    with Cons.IH have "newest t xs = Some y" by simp
    with Cons show ?thesis by auto
  qed
qed

lemma newest_None: "newest t xs = None \<longleftrightarrow> xs = []"
  by (induction xs) (auto split: option.splits)

lemma newest_latest:
  "newest t xs = Some r \<Longrightarrow> r \<in> set xs \<and> (\<forall>x \<in> set xs. t x \<le> t r)"
proof (induction xs arbitrary: r)
  case Nil
  then show ?case by simp
next
  case (Cons x xs)
  show ?case
  proof (cases "newest t xs")
    case None
    with Cons.prems show ?thesis by (simp add: newest_None)
  next
    case (Some y)
    with Cons.IH [of y] Cons.prems show ?thesis
      by (auto split: if_splits)
  qed
qed

lemma newest_first_latest:
  "newest t xs = Some r \<Longrightarrow>
     \<exists>before after. xs = before @ r # after \<and> (\<forall>x \<in> set before. t x < t r)
       \<and> (\<forall>x \<in> set after. t x \<le> t r)"
proof (induction xs arbitrary: r)
  case Nil
  then show ?case by simp
next
  case (Cons x xs)
  show ?case
  proof (cases "newest t xs")
    case None
    with Cons.prems have "r = x" and "xs = []"
      by (simp_all add: newest_None)
    then have "x # xs = [] @ r # [] \<and> (\<forall>y \<in> set []. t y < t r) \<and> (\<forall>y \<in> set []. t y \<le> t r)"
      by simp
    then show ?thesis by blast
  next
    case (Some y)
    from Cons.IH [OF Some] obtain before after
      where sp: "xs = before @ y # after" and b: "\<forall>z \<in> set before. t z < t y"
        and a: "\<forall>z \<in> set after. t z \<le> t y"
      by blast
    show ?thesis
    proof (cases "t x < t y")
      case True
      with Some Cons.prems have "r = y" by simp
      with sp b a True
      have "x # xs = (x # before) @ r # after \<and> (\<forall>z \<in> set (x # before). t z < t r)
          \<and> (\<forall>z \<in> set after. t z \<le> t r)"
        by simp
      then show ?thesis by blast
    next
      case False
      with Some Cons.prems have rx: "r = x" by simp
      from newest_latest [OF Some] False have "\<forall>z \<in> set xs. t z \<le> t x"
        by fastforce
      with rx have "x # xs = [] @ r # xs \<and> (\<forall>z \<in> set []. t z < t r)
          \<and> (\<forall>z \<in> set xs. t z \<le> t r)"
        by simp
      then show ?thesis by blast
    qed
  qed
qed

lemma selectionPool_empty: "selectionPool allowPre releases = [] \<longleftrightarrow> nonDraftReleases releases = []"
  by (auto simp add: selectionPool_def Let_def)

lemma nonDraftReleases_list:
  "nonDraftReleases releases = [r. Some r \<leftarrow> releases, \<not> draft r]"
  by (induction releases) (auto simp add: nonDraftReleases_def map_filter_def split: option.splits)

lemma releaseTime_epochTime: "releaseTime Date_parse r = epochTime Date_parse r"
  by (simp add: releaseTime_def epochTime_def publishedOrCreated_def Let_def
      split: option.splits)

text \<open>
  Claim C7. From the fetched array \<open>fetchLatestGitHubRelease\<close> drops the nulls and the
  drafts, then the prereleases unless \<open>allowPrerelease\<close> is set, going back to all
  non-draft releases when that leaves nothing; it returns the newest release of this
  pool by published/created time, an unparseable time counting as \<open>0\<close>: no release of
  the pool has a later time, and the releases before it in the pool have an earlier one.
  It returns \<open>null\<close> exactly when no non-draft release exists.
\<close>

theorem latest_release_selected:
  fixes releases :: "release option list" and allowPre :: bool
    and Date_parse :: "string \<Rightarrow> int option" and code :: nat
  defines "pool \<equiv> selectionPool allowPre releases"
  defines "result \<equiv> fetchLatestGitHubRelease Date_parse allowPre (IndexResponse True code (ReleaseArray releases))"
  shows
  "nonDraftReleases releases = [r. Some r \<leftarrow> releases, \<not> draft r]
   \<and> pool = (if allowPre then nonDraftReleases releases
             else if filter (\<lambda>r. \<not> prerelease r) (nonDraftReleases releases) = []
               then nonDraftReleases releases
             else filter (\<lambda>r. \<not> prerelease r) (nonDraftReleases releases))
   \<and> result = Inr (newest (epochTime Date_parse) pool)
   \<and> (result = Inr None \<longleftrightarrow> nonDraftReleases releases = [])
   \<and> (\<forall>r. result = Inr (Some r) \<longrightarrow>
         (\<forall>x \<in> set pool. epochTime Date_parse x \<le> epochTime Date_parse r)
         \<and> (\<exists>before after. pool = before @ r # after
               \<and> (\<forall>x \<in> set before. epochTime Date_parse x < epochTime Date_parse r)))
   \<and> (\<forall>r t. Date_parse (publishedOrCreated r) = Some t \<longrightarrow> releaseTime Date_parse r = t)
   \<and> (\<forall>r. Date_parse (publishedOrCreated r) = None \<longrightarrow> releaseTime Date_parse r = 0)"
proof -
  have te: "releaseTime Date_parse = epochTime Date_parse"
    by (rule ext) (rule releaseTime_epochTime)
  have r: "result = Inr (newest (epochTime Date_parse) pool)"
    by (simp add: result_def pool_def fetchLatestGitHubRelease_def selectLatest_def
        first_sorted_newest te)
  have p: "pool = (if allowPre then nonDraftReleases releases
             else if filter (\<lambda>r. \<not> prerelease r) (nonDraftReleases releases) = []
               then nonDraftReleases releases
             else filter (\<lambda>r. \<not> prerelease r) (nonDraftReleases releases))"
    by (simp add: pool_def selectionPool_def Let_def)
  have e: "result = Inr None \<longleftrightarrow> nonDraftReleases releases = []"
    by (simp add: r newest_None pool_def selectionPool_empty)
  have m: "\<forall>r. result = Inr (Some r) \<longrightarrow>
         (\<forall>x \<in> set pool. epochTime Date_parse x \<le> epochTime Date_parse r)
         \<and> (\<exists>before after. pool = before @ r # after
               \<and> (\<forall>x \<in> set before. epochTime Date_parse x < epochTime Date_parse r))"
  proof (intro allI impI)
    fix x
    assume "result = Inr (Some x)"
    with r have n: "newest (epochTime Date_parse) pool = Some x"
      by simp
    from newest_latest [OF n] newest_first_latest [OF n]
    show "(\<forall>y \<in> set pool. epochTime Date_parse y \<le> epochTime Date_parse x)
         \<and> (\<exists>before after. pool = before @ x # after
               \<and> (\<forall>y \<in> set before. epochTime Date_parse y < epochTime Date_parse x))"
      by blast
  qed
  have t: "\<forall>r t. Date_parse (publishedOrCreated r) = Some t \<longrightarrow> releaseTime Date_parse r = t"
    "\<forall>r. Date_parse (publishedOrCreated r) = None \<longrightarrow> releaseTime Date_parse r = 0"
    by (simp_all add: releaseTime_epochTime epochTime_def)
  show ?thesis
    using nonDraftReleases_list [of releases] r p e m t by blast
qed

theorem latest_release_selected_witness:
  "nonDraftReleases example_index
     = [mk_release ''v1.2.0'' False False ''not a date'',
        mk_release ''v1.3.0'' False False ''2024-01-01T00:00:00Z'',
        mk_release ''v1.4.0-beta'' False True ''2024-02-01T00:00:00Z'']
   \<and> fetchLatestGitHubRelease example_dates False (IndexResponse True 200 (ReleaseArray example_index))
       = Inr (Some (mk_release ''v1.3.0'' False False ''2024-01-01T00:00:00Z''))
   \<and> fetchLatestGitHubRelease example_dates True (IndexResponse True 200 (ReleaseArray example_index))
       = Inr (Some (mk_release ''v1.4.0-beta'' False True ''2024-02-01T00:00:00Z''))
   \<and> example_dates (publishedOrCreated (mk_release ''v1.4.0-beta'' False True ''2024-02-01T00:00:00Z''))
       = Some 1706745600000
   \<and> releaseTime example_dates (mk_release ''v1.4.0-beta'' False True ''2024-02-01T00:00:00Z'')
       = 1706745600000
   \<and> releaseTime example_dates (mk_release ''v1.3.0'' False False ''2024-01-01T00:00:00Z'')
       = 1704067200000
   \<and> example_dates (publishedOrCreated (mk_release ''v1.2.0'' False False ''not a date'')) = None
   \<and> releaseTime example_dates (mk_release ''v1.2.0'' False False ''not a date'') = 0"
proof -
  have nd: "nonDraftReleases example_index
     = [mk_release ''v1.2.0'' False False ''not a date'',
        mk_release ''v1.3.0'' False False ''2024-01-01T00:00:00Z'',
        mk_release ''v1.4.0-beta'' False True ''2024-02-01T00:00:00Z'']"
    by (simp add: nonDraftReleases_def example_index_def map_filter_def mk_release_def)
  have pre: "prerelease (mk_release t d p stamp) = p" for t d p stamp
    by (simp add: mk_release_def)
  have d1: "example_dates (publishedOrCreated (mk_release ''v1.4.0-beta'' False True ''2024-02-01T00:00:00Z''))
      = Some 1706745600000"
    and d2: "example_dates (publishedOrCreated (mk_release ''v1.2.0'' False False ''not a date'')) = None"
    and d3: "example_dates (publishedOrCreated (mk_release ''v1.3.0'' False False ''2024-01-01T00:00:00Z''))
      = Some 1704067200000"
    by (simp_all add: publishedOrCreated_def mk_release_def example_dates_def)
  have t1: "epochTime example_dates (mk_release ''v1.4.0-beta'' False True ''2024-02-01T00:00:00Z'')
      = 1706745600000"
    and t2: "epochTime example_dates (mk_release ''v1.2.0'' False False ''not a date'') = 0"
    and t3: "epochTime example_dates (mk_release ''v1.3.0'' False False ''2024-01-01T00:00:00Z'')
      = 1704067200000"
    by (simp_all add: epochTime_def d1 d2 d3)
  note A = latest_release_selected [of example_index False example_dates 200]
  note B = latest_release_selected [of example_index True example_dates 200]
  have pA: "selectionPool False example_index
      = [mk_release ''v1.2.0'' False False ''not a date'',
         mk_release ''v1.3.0'' False False ''2024-01-01T00:00:00Z'']"
    using A [THEN conjunct2, THEN conjunct1] by (simp add: nd pre)
  have pB: "selectionPool True example_index
      = [mk_release ''v1.2.0'' False False ''not a date'',
         mk_release ''v1.3.0'' False False ''2024-01-01T00:00:00Z'',
         mk_release ''v1.4.0-beta'' False True ''2024-02-01T00:00:00Z'']"
    using B [THEN conjunct2, THEN conjunct1] by (simp add: nd)
  have rA: "fetchLatestGitHubRelease example_dates False
        (IndexResponse True 200 (ReleaseArray example_index))
      = Inr (Some (mk_release ''v1.3.0'' False False ''2024-01-01T00:00:00Z''))"
    using A [THEN conjunct2, THEN conjunct2, THEN conjunct1] by (simp add: pA t2 t3)
  have rB: "fetchLatestGitHubRelease example_dates True
        (IndexResponse True 200 (ReleaseArray example_index))
      = Inr (Some (mk_release ''v1.4.0-beta'' False True ''2024-02-01T00:00:00Z''))"
    using B [THEN conjunct2, THEN conjunct2, THEN conjunct1] by (simp add: pB t1 t2 t3)
  have parsed: "\<forall>r t. example_dates (publishedOrCreated r) = Some t
      \<longrightarrow> releaseTime example_dates r = t"
    using A [THEN conjunct2, THEN conjunct2, THEN conjunct2, THEN conjunct2, THEN conjunct2,
        THEN conjunct1] .
  have unparsed: "\<forall>r. example_dates (publishedOrCreated r) = None
      \<longrightarrow> releaseTime example_dates r = 0"
    using A [THEN conjunct2, THEN conjunct2, THEN conjunct2, THEN conjunct2, THEN conjunct2,
        THEN conjunct2] .
  show ?thesis
    using parsed d1 d3 unparsed d2 by (simp add: nd rA rB)
qed

section \<open>Properties of the update paths\<close>

lemma replaceRuns_chars: "\<forall>c \<in> set (replaceRuns b s). isTagChar c \<or> c = CHR ''_''"
  by (induction b s rule: replaceRuns.induct) auto

lemma sanitizeTagForPath_chars:
  "sanitizeTagForPath t \<noteq> [] \<and> (\<forall>c \<in> set (sanitizeTagForPath t). isTagChar c \<or> c = CHR ''_'')"
  using replaceRuns_chars [of False "trim t"]
  by (auto simp add: sanitizeTagForPath_def Let_def isTagChar_def isLower_def)

lemma sanitize_dotdot: "sanitizeTagForPath ''..'' = ''..''"
  by (simp add: sanitizeTagForPath_def trim_def isSpace_def isTagChar_def)

text \<open>
  Claim C2. The target path of a download is meant to stay inside the updates directory
  for every tag. \<open>sanitizeTagForPath\<close> lets the dots of the tag through, so the tag
  \<open>..\<close> is its own sanitized form and \<open>path.join\<close> resolves it: the target is
  \<open>update.zip\<close> in the data directory itself, outside the updates directory.
\<close>

theorem target_path_escapes:
  "sanitizeTagForPath ''..'' = ''..''
   \<and> getGitHubUpdateDownloadDir userData = userData @ [''updates'']
   \<and> resolveGitHubUpdateTargetPath userData [] ''..'' = userData @ [''update.zip'']
   \<and> \<not> prefix (getGitHubUpdateDownloadDir userData)
          (resolveGitHubUpdateTargetPath userData [] ''..'')"
proof -
  have d: "getGitHubUpdateDownloadDir userData = userData @ [''updates'']"
    by (simp add: getGitHubUpdateDownloadDir_def path_join_def isSeparator_def)
  have n: "resolveGitHubUpdateAssetName [] = ''update.zip''"
    by (simp add: resolveGitHubUpdateAssetName_def trim_def GITHUB_UPDATE_ASSET_NAME_def)
  have t: "resolveGitHubUpdateTargetPath userData [] ''..'' = userData @ [''update.zip'']"
    by (simp add: resolveGitHubUpdateTargetPath_def sanitize_dotdot n d path_join_def
        isSeparator_def)
  show ?thesis
    by (simp add: sanitize_dotdot d t)
qed

section \<open>Properties of the artifact fetcher\<close>

lemma temp_not_target: "targetPath @ ''.download'' \<noteq> targetPath"
  by simp


lemma streamAndRename_success:
  assumes "streamAndRename env (targetPath @ ''.download'') targetPath fs = (Inr u, fs1)"
  shows "\<exists>body. bodyStream env = StreamDone body \<and> renameSucceeds env
           \<and> fs1 targetPath = Some body \<and> fs1 (targetPath @ ''.download'') = None
           \<and> (\<forall>p. p \<noteq> targetPath \<and> p \<noteq> targetPath @ ''.download'' \<longrightarrow> fs1 p = fs p)"
  using assms
  by (auto simp add: streamAndRename_def Let_def split: stream_outcome.splits if_splits)



lemma download_cases:
  assumes "downloadGitHubAssetToPath env assetURL targetPath (fs, requested) = (res, fs', requested')"
  shows "(\<exists>e. res = Inl e \<and> fs' = fs)
       \<or> (\<exists>e fs1. streamAndRename env (targetPath @ ''.download'') targetPath fs = (Inl e, fs1)
              \<and> res = Inl e \<and> fs' = cleanupTemp env (targetPath @ ''.download'') fs1)
       \<or> (\<exists>u fs1 content. streamAndRename env (targetPath @ ''.download'') targetPath fs = (Inr u, fs1)
              \<and> fs' = fs1 \<and> fs1 targetPath = Some content
              \<and> res = Inr (targetPath, length content))"
proof -
  obtain r fs1 where sr: "streamAndRename env (targetPath @ ''.download'') targetPath fs = (r, fs1)"
    by (cases "streamAndRename env (targetPath @ ''.download'') targetPath fs") simp
  show ?thesis
  proof (cases r)
    case (Inl e)
    with assms sr show ?thesis
      by (simp add: downloadGitHubAssetToPath_def Let_def split: asset_response.splits if_splits)
        blast+
  next
    case (Inr u)
    with sr obtain body where "fs1 targetPath = Some body"
      using streamAndRename_success [of env targetPath fs u fs1] by auto
    with assms sr Inr show ?thesis
      by (simp add: downloadGitHubAssetToPath_def Let_def split: asset_response.splits if_splits)
        blast+
  qed
qed


lemma download_success:
  assumes "downloadGitHubAssetToPath env assetURL targetPath (fs, requested) = (Inr (p, n), fs', requested')"
  shows "p = targetPath \<and> fs' (targetPath @ ''.download'') = None
         \<and> (\<exists>body. bodyStream env = StreamDone body \<and> fs' targetPath = Some body \<and> n = length body)"
proof -
  from download_cases [OF assms]
  obtain u fs1 content
    where sr: "streamAndRename env (targetPath @ ''.download'') targetPath fs = (Inr u, fs1)"
      and "fs' = fs1" and "fs1 targetPath = Some content" and "p = targetPath"
      and "n = length content"
    by auto
  with streamAndRename_success [OF sr] show ?thesis
    by auto
qed



lemma good_download_run:
  "downloadGitHubAssetToPath good_download u t (fs, requested)
     = (Inr (t, 10), (fs(t \<mapsto> ''PK.archive''))(t @ ''.download'' := None), requested @ [u])"
  by (simp add: downloadGitHubAssetToPath_def good_download_def Let_def streamAndRename_def)






section \<open>Properties of the update check\<close>

lemma setUpdateStatus_fields:
  "updateConfig (setUpdateStatus env patch w) = updateConfig w"
  "githubUpdateMetadata (setUpdateStatus env patch w) = githubUpdateMetadata w"
  "files (setUpdateStatus env patch w) = files w"
  "assetRequests (setUpdateStatus env patch w) = assetRequests w"
  "launched (setUpdateStatus env patch w) = launched w"
  "quitScheduled (setUpdateStatus env patch w) = quitScheduled w"
  by (simp_all add: setUpdateStatus_def Let_def)

lemma parseVersionParts_empty: "parseVersionParts [] = []"
  by (simp add: parseVersionParts_def trim_def)

lemma missing_asset_iff:
  "(case findReleaseAsset r (resolveGitHubUpdateAssetName (assetNameEnv env)) of
      None \<Rightarrow> True | Some a \<Rightarrow> browser_download_url a = []) \<longleftrightarrow> wantedAssetURL env r = []"
  by (simp add: wantedAssetURL_def split: option.splits)

lemma checkRelease_up_to_date:
  assumes "isUpToDate env r"
  shows "fst (checkRelease env dl opts r w) = UpToDate (releaseTag r) (filePath (githubUpdateMetadata w))"
    and "status (updateStatus (snd (checkRelease env dl opts r w))) = Idle"
    and "message (updateStatus (snd (checkRelease env dl opts r w)))
           = ''You are already on version '' @ appVersion env @ ''.''"
    and "availableVersion (updateStatus (snd (checkRelease env dl opts r w)))
           = Some (normalizeVersionFromTag (releaseTag r))"
    and "downloadedVersion (updateStatus (snd (checkRelease env dl opts r w)))
           = Some (normalizeVersionFromTag (releaseTag r))"
    and "files (snd (checkRelease env dl opts r w)) = files w"
    and "assetRequests (snd (checkRelease env dl opts r w)) = assetRequests w"
    and "githubUpdateMetadata (snd (checkRelease env dl opts r w)) = githubUpdateMetadata w"
proof -
  from assms have ne: "normalizeVersionFromTag (releaseTag r) \<noteq> []"
    by (auto simp add: isUpToDate_def parseVersionParts_empty)
  have c: "length (parseVersionParts (normalizeVersionFromTag (trim (tag_name r)))) > 0
      \<and> length (parseVersionParts (normalizeVersionFromTag (appVersion env))) > 0
      \<and> compareVersions (normalizeVersionFromTag (trim (tag_name r)))
            (normalizeVersionFromTag (appVersion env)) \<le> 0"
    using assms by (simp add: isUpToDate_def releaseTag_def)
  have eq: "checkRelease env dl opts r w =
        (UpToDate (releaseTag r) (filePath (githubUpdateMetadata w)),
         setUpdateStatus env
           (\<lambda>s. s\<lparr>source := GithubReleaseZip, status := Idle,
                  message := ''You are already on version '' @ appVersion env @ ''.'',
                  availableVersion := Some (normalizeVersionFromTag (releaseTag r)),
                  downloadedVersion := Some (normalizeVersionFromTag (releaseTag r)),
                  updateFilePath := orNull (filePath (githubUpdateMetadata w)),
                  releasePage := Some (releasePageOf env r), progressPercent := 100,
                  checkedAt := Some (clock env), error := None\<rparr>) w)"
    unfolding checkRelease_def Let_def
    using c ne by (simp add: releaseTag_def releasePageOf_def orElse_def)
  show "fst (checkRelease env dl opts r w) = UpToDate (releaseTag r) (filePath (githubUpdateMetadata w))"
    and "status (updateStatus (snd (checkRelease env dl opts r w))) = Idle"
    and "message (updateStatus (snd (checkRelease env dl opts r w)))
           = ''You are already on version '' @ appVersion env @ ''.''"
    and "availableVersion (updateStatus (snd (checkRelease env dl opts r w)))
           = Some (normalizeVersionFromTag (releaseTag r))"
    and "downloadedVersion (updateStatus (snd (checkRelease env dl opts r w)))
           = Some (normalizeVersionFromTag (releaseTag r))"
    and "files (snd (checkRelease env dl opts r w)) = files w"
    and "assetRequests (snd (checkRelease env dl opts r w)) = assetRequests w"
    and "githubUpdateMetadata (snd (checkRelease env dl opts r w)) = githubUpdateMetadata w"
    by (simp_all add: eq setUpdateStatus_def Let_def)
qed


lemma check_found_release:
  assumes "fetchLatestGitHubRelease Date_parse (allowPrerelease (updateConfig w)) idx = Inr (Some r)"
    and "tag_name r \<noteq> []"
  shows "\<exists>patch. checkGitHubReleaseZipUpdate Date_parse env idx dl opts w
           = checkRelease env dl opts r (setUpdateStatus env patch w)"
  using assms
  by (simp add: checkGitHubReleaseZipUpdate_def Let_def setUpdateStatus_fields) blast

text \<open>
  Claim C8. When the latest release has a tag, the version of the tag and the running
  version both have a numeric part, and \<open>compareVersions\<close> puts the version of the tag
  at or below the running one, the check ends with status \<open>idle\<close> and the message that
  the running version is current, records the version of the tag (the tag without its
  leading \<open>v\<close>) as available and as downloaded version, and downloads nothing: no asset
  is requested, and the files and the metadata stay as they are.
\<close>

theorem check_up_to_date:
  assumes "fetchLatestGitHubRelease Date_parse (allowPrerelease (updateConfig w)) idx = Inr (Some r)"
    and "tag_name r \<noteq> []"
    and "parseVersionParts (normalizeVersionFromTag (releaseTag r)) \<noteq> []"
    and "parseVersionParts (normalizeVersionFromTag (appVersion env)) \<noteq> []"
    and "compareVersions (normalizeVersionFromTag (releaseTag r))
           (normalizeVersionFromTag (appVersion env)) \<le> 0"
  shows "fst (checkGitHubReleaseZipUpdate Date_parse env idx dl opts w)
           = UpToDate (releaseTag r) (filePath (githubUpdateMetadata w))
       \<and> status (updateStatus (snd (checkGitHubReleaseZipUpdate Date_parse env idx dl opts w))) = Idle
       \<and> message (updateStatus (snd (checkGitHubReleaseZipUpdate Date_parse env idx dl opts w)))
           = ''You are already on version '' @ appVersion env @ ''.''
       \<and> availableVersion (updateStatus (snd (checkGitHubReleaseZipUpdate Date_parse env idx dl opts w)))
           = Some (normalizeVersionFromTag (releaseTag r))
       \<and> downloadedVersion (updateStatus (snd (checkGitHubReleaseZipUpdate Date_parse env idx dl opts w)))
           = Some (normalizeVersionFromTag (releaseTag r))
       \<and> assetRequests (snd (checkGitHubReleaseZipUpdate Date_parse env idx dl opts w))
           = assetRequests w
       \<and> files (snd (checkGitHubReleaseZipUpdate Date_parse env idx dl opts w)) = files w
       \<and> githubUpdateMetadata (snd (checkGitHubReleaseZipUpdate Date_parse env idx dl opts w))
           = githubUpdateMetadata w"
proof -
  have u: "isUpToDate env r"
    using assms(3-5) by (simp add: isUpToDate_def)
  obtain patch where c: "checkGitHubReleaseZipUpdate Date_parse env idx dl opts w
           = checkRelease env dl opts r (setUpdateStatus env patch w)"
    using check_found_release [OF assms(1,2)] by blast
  show ?thesis
    unfolding c
    using checkRelease_up_to_date [OF u, of dl opts "setUpdateStatus env patch w"]
    by (simp add: setUpdateStatus_fields)
qed


lemma releaseTag_mk: "releaseTag (mk_release ''v1.2.0'' d p stamp) = ''v1.2.0''"
  "releaseTag (mk_release ''v1.3.0'' d p stamp) = ''v1.3.0''"
  by (simp_all add: releaseTag_def mk_release_def trim_def isSpace_def)

lemma normalize_examples:
  "normalizeVersionFromTag ''v1.2.0'' = ''1.2.0''"
  "normalizeVersionFromTag ''v1.3.0'' = ''1.3.0''"
  "normalizeVersionFromTag ''1.2.0'' = ''1.2.0''"
  by (simp_all add: normalizeVersionFromTag_def trim_def isSpace_def)

lemma parse_1_3_0: "parseVersionParts ''1.3.0'' = [1, 3, 0]"
  by (simp add: parseVersionParts_def trim_def isSpace_def isDigit_def Number_digits_def
      decimalValue_def roundToDouble_def digitValue_def Number_isFinite_def)

lemma fetch_single:
  "fetchLatestGitHubRelease Date_parse False (IndexResponse True 200 (ReleaseArray [Some (mk_release t False False stamp)]))
     = Inr (Some (mk_release t False False stamp))"
  by (simp add: fetchLatestGitHubRelease_def selectLatest_def selectionPool_def
      nonDraftReleases_def map_filter_def mk_release_def)

lemma example_world_fields:
  "allowPrerelease (updateConfig example_world) = False"
  "githubUpdateMetadata example_world = createInitialGitHubUpdateMetadata"
  "files example_world = Map.empty"
  "assetRequests example_world = []"
  by (simp_all add: example_world_def DEFAULT_UPDATE_CONFIG_def)

theorem check_up_to_date_witness:
  "fetchLatestGitHubRelease example_dates (allowPrerelease (updateConfig example_world))
       (IndexResponse True 200 (ReleaseArray [Some release_1_2_0])) = Inr (Some release_1_2_0)
   \<and> tag_name release_1_2_0 \<noteq> []
   \<and> parseVersionParts (normalizeVersionFromTag (releaseTag release_1_2_0)) = [1, 2, 0]
   \<and> parseVersionParts (normalizeVersionFromTag (appVersion example_env)) = [1, 2, 0]
   \<and> compareVersions (normalizeVersionFromTag (releaseTag release_1_2_0))
        (normalizeVersionFromTag (appVersion example_env)) = 0
   \<and> fst (checkGitHubReleaseZipUpdate example_dates example_env
            (IndexResponse True 200 (ReleaseArray [Some release_1_2_0])) good_download
            download_requested example_world) = UpToDate ''v1.2.0'' []
   \<and> status (updateStatus (snd (checkGitHubReleaseZipUpdate example_dates example_env
            (IndexResponse True 200 (ReleaseArray [Some release_1_2_0])) good_download
            download_requested example_world))) = Idle
   \<and> message (updateStatus (snd (checkGitHubReleaseZipUpdate example_dates example_env
            (IndexResponse True 200 (ReleaseArray [Some release_1_2_0])) good_download
            download_requested example_world))) = ''You are already on version 1.2.0.''
   \<and> availableVersion (updateStatus (snd (checkGitHubReleaseZipUpdate example_dates example_env
            (IndexResponse True 200 (ReleaseArray [Some release_1_2_0])) good_download
            download_requested example_world))) = Some ''1.2.0''
   \<and> assetRequests (snd (checkGitHubReleaseZipUpdate example_dates example_env
            (IndexResponse True 200 (ReleaseArray [Some release_1_2_0])) good_download
            download_requested example_world)) = []"
proof -
  have f: "fetchLatestGitHubRelease example_dates (allowPrerelease (updateConfig example_world))
       (IndexResponse True 200 (ReleaseArray [Some release_1_2_0])) = Inr (Some release_1_2_0)"
    by (simp add: example_world_fields release_1_2_0_def fetch_single)
  have t: "tag_name release_1_2_0 \<noteq> []"
    by (simp add: release_1_2_0_def mk_release_def)
  have v: "appVersion example_env = ''1.2.0''"
    by (simp add: example_env_def)
  have p1: "parseVersionParts (normalizeVersionFromTag (releaseTag release_1_2_0)) = [1, 2, 0]"
    by (simp add: release_1_2_0_def releaseTag_mk normalize_examples parse_1_2_0)
  have p2: "parseVersionParts (normalizeVersionFromTag (appVersion example_env)) = [1, 2, 0]"
    by (simp add: v normalize_examples parse_1_2_0)
  have c: "compareVersions (normalizeVersionFromTag (releaseTag release_1_2_0))
        (normalizeVersionFromTag (appVersion example_env)) = 0"
    by (simp add: release_1_2_0_def releaseTag_mk v normalize_examples compareVersions_padded_eq
        compareVersions_padded_def parse_1_2_0 pad_zeros_def)
  have rt: "releaseTag release_1_2_0 = ''v1.2.0''"
    by (simp add: release_1_2_0_def releaseTag_mk)
  have m: "filePath (githubUpdateMetadata example_world) = []"
    by (simp add: example_world_fields createInitialGitHubUpdateMetadata_def)
  show ?thesis
    using check_up_to_date [of example_dates example_world
        "IndexResponse True 200 (ReleaseArray [Some release_1_2_0])" release_1_2_0 example_env
        good_download download_requested] f t p1 p2 c
    by (simp add: m v rt normalize_examples example_world_fields(3,4))
qed

section \<open>Properties of repeated checks\<close>

lemma checkRelease_no_asset:
  assumes "\<not> isUpToDate env r" and "wantedAssetURL env r = []"
  shows "\<exists>e. fst (checkRelease env dl opts r w) = CheckFailed e"
  unfolding checkRelease_def Let_def
  unfolding releaseTag_def [symmetric]
  unfolding isUpToDate_def [symmetric]
  using assms
  by (simp add: missing_asset_iff)

lemma checkRelease_no_asset_exact:
  assumes "\<not> isUpToDate env r" and "wantedAssetURL env r = []"
  shows "fst (checkRelease env dl opts r w)
           = CheckFailed (NoAsset (releaseTag r) (resolveGitHubUpdateAssetName (assetNameEnv env)))"
    and "files (snd (checkRelease env dl opts r w)) = files w"
    and "assetRequests (snd (checkRelease env dl opts r w)) = assetRequests w"
    and "githubUpdateMetadata (snd (checkRelease env dl opts r w)) = githubUpdateMetadata w"
  unfolding checkRelease_def Let_def
  unfolding releaseTag_def [symmetric]
  unfolding isUpToDate_def [symmetric]
  using assms
  by (simp_all add: missing_asset_iff setUpdateStatus_def Let_def)

lemma checkRelease_already_downloaded:
  assumes "\<not> isUpToDate env r" and "wantedAssetURL env r \<noteq> []"
    and "lastTag (githubUpdateMetadata w) = releaseTag r"
    and "filePath (githubUpdateMetadata w) \<noteq> []"
    and "files w (filePath (githubUpdateMetadata w)) \<noteq> None"
    and "\<not> forceDownload opts"
  shows "fst (checkRelease env dl opts r w)
           = AlreadyDownloaded (releaseTag r \<noteq> [] \<and> lastAppliedTag (githubUpdateMetadata w) = releaseTag r)
               (releaseTag r) (filePath (githubUpdateMetadata w)) (releasePageOf env r)"
    and "status (updateStatus (snd (checkRelease env dl opts r w)))
           = (if releaseTag r \<noteq> [] \<and> lastAppliedTag (githubUpdateMetadata w) = releaseTag r
              then Idle else Downloaded)"
    and "files (snd (checkRelease env dl opts r w)) = files w"
    and "assetRequests (snd (checkRelease env dl opts r w)) = assetRequests w"
    and "githubUpdateMetadata (snd (checkRelease env dl opts r w)) = githubUpdateMetadata w"
    and "launched (snd (checkRelease env dl opts r w)) = launched w"
  unfolding checkRelease_def Let_def
  unfolding releaseTag_def [symmetric]
  unfolding isUpToDate_def [symmetric]
  using assms
  by (simp_all add: missing_asset_iff releasePageOf_def setUpdateStatus_def Let_def)

lemma checkRelease_available:
  assumes "\<not> isUpToDate env r" and "wantedAssetURL env r \<noteq> []"
    and "\<not> (lastTag (githubUpdateMetadata w) = releaseTag r
            \<and> filePath (githubUpdateMetadata w) \<noteq> []
            \<and> files w (filePath (githubUpdateMetadata w)) \<noteq> None
            \<and> \<not> forceDownload opts)"
    and "\<not> download opts"
  shows "\<exists>u pg. fst (checkRelease env dl opts r w) = UpdateAvailable (releaseTag r) u pg"
  unfolding checkRelease_def Let_def
  unfolding releaseTag_def [symmetric]
  unfolding isUpToDate_def [symmetric]
  using assms
  by (auto simp add: missing_asset_iff)

lemma checkRelease_download:
  assumes "\<not> isUpToDate env r" and "wantedAssetURL env r \<noteq> []"
    and "\<not> (lastTag (githubUpdateMetadata w) = releaseTag r
            \<and> filePath (githubUpdateMetadata w) \<noteq> []
            \<and> files w (filePath (githubUpdateMetadata w)) \<noteq> None
            \<and> \<not> forceDownload opts)"
    and "download opts"
    and "downloadGitHubAssetToPath dl (wantedAssetURL env r)
           (pathString (resolveGitHubUpdateTargetPath (userDataDir env) (assetNameEnv env) (releaseTag r)))
           (files w, assetRequests w) = (res, fs', requested')"
  shows "case res of
           Inl e \<Rightarrow> fst (checkRelease env dl opts r w) = CheckFailed e
         | Inr (savedPath, savedSize) \<Rightarrow>
             fst (checkRelease env dl opts r w)
               = DownloadedNow (releaseTag r) savedPath savedSize (releasePageOf env r)
             \<and> lastTag (githubUpdateMetadata (snd (checkRelease env dl opts r w))) = releaseTag r
             \<and> filePath (githubUpdateMetadata (snd (checkRelease env dl opts r w))) = savedPath
             \<and> lastAppliedTag (githubUpdateMetadata (snd (checkRelease env dl opts r w)))
                 = lastAppliedTag (githubUpdateMetadata w)
             \<and> files (snd (checkRelease env dl opts r w)) = fs'
             \<and> assetRequests (snd (checkRelease env dl opts r w)) = requested'
             \<and> updateConfig (snd (checkRelease env dl opts r w)) = updateConfig w"
proof -
  have d: "downloadGitHubAssetToPath dl
             (case findReleaseAsset r (resolveGitHubUpdateAssetName (assetNameEnv env)) of
                None \<Rightarrow> [] | Some a \<Rightarrow> browser_download_url a)
             (pathString (resolveGitHubUpdateTargetPath (userDataDir env) (assetNameEnv env)
                (releaseTag r)))
             (files w, assetRequests w) = (res, fs', requested')"
    using assms(5) by (simp add: wantedAssetURL_def)
  show ?thesis
    unfolding checkRelease_def Let_def
    unfolding releaseTag_def [symmetric]
    unfolding isUpToDate_def [symmetric]
    using assms(1-4)
    by (cases res)
      (auto simp add: missing_asset_iff releasePageOf_def setUpdateStatus_def Let_def d)
qed


lemma pathString_nonempty: "pathString p \<noteq> []"
  by (cases p) (simp_all add: pathString_def)

lemma checkRelease_downloaded_inv:
  assumes "checkRelease env dl opts r w = (DownloadedNow t p n pg, w')"
  shows "\<not> isUpToDate env r \<and> wantedAssetURL env r \<noteq> [] \<and> t = releaseTag r
         \<and> pg = releasePageOf env r
         \<and> lastTag (githubUpdateMetadata w') = t \<and> filePath (githubUpdateMetadata w') = p
         \<and> p \<noteq> [] \<and> files w' p \<noteq> None
         \<and> lastAppliedTag (githubUpdateMetadata w') = lastAppliedTag (githubUpdateMetadata w)
         \<and> updateConfig w' = updateConfig w"
proof -
  let ?dest = "pathString (resolveGitHubUpdateTargetPath (userDataDir env) (assetNameEnv env) (releaseTag r))"
  from assms have f: "fst (checkRelease env dl opts r w) = DownloadedNow t p n pg"
    and s: "snd (checkRelease env dl opts r w) = w'"
    by simp_all
  have u: "\<not> isUpToDate env r"
    using checkRelease_up_to_date(1) [of env r dl opts w] f by auto
  have a: "wantedAssetURL env r \<noteq> []"
    using checkRelease_no_asset [OF u, of dl opts w] f by auto
  have h: "\<not> (lastTag (githubUpdateMetadata w) = releaseTag r
            \<and> filePath (githubUpdateMetadata w) \<noteq> []
            \<and> files w (filePath (githubUpdateMetadata w)) \<noteq> None
            \<and> \<not> forceDownload opts)"
  proof
    assume c: "lastTag (githubUpdateMetadata w) = releaseTag r
            \<and> filePath (githubUpdateMetadata w) \<noteq> []
            \<and> files w (filePath (githubUpdateMetadata w)) \<noteq> None
            \<and> \<not> forceDownload opts"
    then have "fst (checkRelease env dl opts r w)
           = AlreadyDownloaded (releaseTag r \<noteq> [] \<and> lastAppliedTag (githubUpdateMetadata w) = releaseTag r)
               (releaseTag r) (filePath (githubUpdateMetadata w)) (releasePageOf env r)"
      by (intro checkRelease_already_downloaded(1) [OF u a]) simp_all
    with f show False by simp
  qed
  have d: "download opts"
    using checkRelease_available [OF u a h, of dl] f by auto
  obtain res fs' requested'
    where dl: "downloadGitHubAssetToPath dl (wantedAssetURL env r) ?dest (files w, assetRequests w)
                 = (res, fs', requested')"
    by (metis prod_cases3)
  show ?thesis
  proof (cases res)
    case (Inl e)
    with checkRelease_download [OF u a h d dl] f show ?thesis by simp
  next
    case (Inr saved)
    obtain savedPath savedSize where sv: "saved = (savedPath, savedSize)"
      by (cases saved)
    from checkRelease_download [OF u a h d dl] Inr sv f s
    have facts: "t = releaseTag r" "p = savedPath" "pg = releasePageOf env r"
      "lastTag (githubUpdateMetadata w') = releaseTag r"
      "filePath (githubUpdateMetadata w') = savedPath"
      "lastAppliedTag (githubUpdateMetadata w') = lastAppliedTag (githubUpdateMetadata w)"
      "files w' = fs'" "updateConfig w' = updateConfig w"
      by simp_all
    from download_success [of dl "wantedAssetURL env r" ?dest "files w" "assetRequests w"
        savedPath savedSize fs' requested'] dl Inr sv
    have "savedPath = ?dest" and "fs' ?dest \<noteq> None"
      by auto
    with facts u a show ?thesis
      by (simp add: pathString_nonempty)
  qed
qed

lemma check_downloaded_inv:
  assumes "checkGitHubReleaseZipUpdate Date_parse env idx dl opts w = (DownloadedNow t p n pg, w')"
  shows "\<exists>r patch. fetchLatestGitHubRelease Date_parse (allowPrerelease (updateConfig w)) idx
                      = Inr (Some r)
           \<and> tag_name r \<noteq> []
           \<and> checkRelease env dl opts r (setUpdateStatus env patch w) = (DownloadedNow t p n pg, w')"
proof (cases "fetchLatestGitHubRelease Date_parse (allowPrerelease (updateConfig w)) idx")
  case (Inl e)
  with assms show ?thesis
    by (simp add: checkGitHubReleaseZipUpdate_def Let_def setUpdateStatus_fields)
next
  case (Inr found)
  show ?thesis
  proof (cases found)
    case None
    with Inr assms show ?thesis
      by (simp add: checkGitHubReleaseZipUpdate_def Let_def setUpdateStatus_fields)
  next
    case (Some r)
    show ?thesis
    proof (cases "tag_name r = []")
      case True
      with Inr Some assms show ?thesis
        by (simp add: checkGitHubReleaseZipUpdate_def Let_def setUpdateStatus_fields)
    next
      case False
      with check_found_release [of Date_parse w idx r env dl opts] Inr Some assms
      show ?thesis by auto
    qed
  qed
qed

lemma second_check_already_downloaded:
  assumes first: "checkGitHubReleaseZipUpdate Date_parse env idx dl opts w = (DownloadedNow t p n pg, w1)"
    and nf: "\<not> forceDownload opts'"
  shows "fst (checkGitHubReleaseZipUpdate Date_parse env idx dl' opts' w1)
           = AlreadyDownloaded (t \<noteq> [] \<and> lastAppliedTag (githubUpdateMetadata w1) = t) t p pg
       \<and> status (updateStatus (snd (checkGitHubReleaseZipUpdate Date_parse env idx dl' opts' w1)))
           = (if t \<noteq> [] \<and> lastAppliedTag (githubUpdateMetadata w1) = t then Idle else Downloaded)
       \<and> assetRequests (snd (checkGitHubReleaseZipUpdate Date_parse env idx dl' opts' w1))
           = assetRequests w1
       \<and> files (snd (checkGitHubReleaseZipUpdate Date_parse env idx dl' opts' w1)) = files w1
       \<and> githubUpdateMetadata (snd (checkGitHubReleaseZipUpdate Date_parse env idx dl' opts' w1))
           = githubUpdateMetadata w1
       \<and> launched (snd (checkGitHubReleaseZipUpdate Date_parse env idx dl' opts' w1)) = launched w1"
proof -
  from check_downloaded_inv [OF first] obtain r patch
    where fr: "fetchLatestGitHubRelease Date_parse (allowPrerelease (updateConfig w)) idx = Inr (Some r)"
      and tn: "tag_name r \<noteq> []"
      and cr: "checkRelease env dl opts r (setUpdateStatus env patch w) = (DownloadedNow t p n pg, w1)"
    by blast
  from checkRelease_downloaded_inv [OF cr]
  have u: "\<not> isUpToDate env r" and a: "wantedAssetURL env r \<noteq> []" and t: "t = releaseTag r"
    and pg: "pg = releasePageOf env r"
    and lt: "lastTag (githubUpdateMetadata w1) = releaseTag r"
    and fp: "filePath (githubUpdateMetadata w1) = p" and pne: "p \<noteq> []"
    and ex: "files w1 p \<noteq> None" and cfg: "updateConfig w1 = updateConfig w"
    by (simp_all add: setUpdateStatus_fields)
  from fr cfg have fr1: "fetchLatestGitHubRelease Date_parse (allowPrerelease (updateConfig w1)) idx
      = Inr (Some r)"
    by simp
  obtain patch' where c2: "checkGitHubReleaseZipUpdate Date_parse env idx dl' opts' w1
      = checkRelease env dl' opts' r (setUpdateStatus env patch' w1)"
    using check_found_release [OF fr1 tn] by blast
  let ?w = "setUpdateStatus env patch' w1"
  have m: "githubUpdateMetadata ?w = githubUpdateMetadata w1" and fl: "files ?w = files w1"
    by (simp_all add: setUpdateStatus_fields)
  have h1: "lastTag (githubUpdateMetadata ?w) = releaseTag r"
    and h2: "filePath (githubUpdateMetadata ?w) \<noteq> []"
    and h3: "files ?w (filePath (githubUpdateMetadata ?w)) \<noteq> None"
    using lt fp pne ex by (simp_all add: m fl)
  show ?thesis
    unfolding c2
    using checkRelease_already_downloaded [OF u a h1 h2 h3 nf, of dl']
    by (simp add: m fl fp t pg setUpdateStatus_fields)
qed

lemma apply_skipped:
  assumes "platform env = ''win32''"
    and "trim (case applyZipPath opts of None \<Rightarrow> filePath (githubUpdateMetadata w) | Some z \<Rightarrow> z) \<noteq> []"
    and "files w (trim (case applyZipPath opts of None \<Rightarrow> filePath (githubUpdateMetadata w)
                        | Some z \<Rightarrow> z)) \<noteq> None"
    and "\<not> applyManual opts"
    and "trim (case applyTag opts of None \<Rightarrow> lastTag (githubUpdateMetadata w) | Some t \<Rightarrow> t) \<noteq> []"
    and "lastAppliedTag (githubUpdateMetadata w)
           = trim (case applyTag opts of None \<Rightarrow> lastTag (githubUpdateMetadata w) | Some t \<Rightarrow> t)"
  shows "applyGitHubReleaseZipUpdate env extraction opts w
           = (ApplySkipped (lastAppliedTag (githubUpdateMetadata w)), w)"
  using assms
  by (simp add: applyGitHubReleaseZipUpdate_def Let_def)


lemma update_idempotent_parts:
  "(fetchLatestGitHubRelease Date_parse (allowPrerelease (updateConfig w)) idx = Inr (Some r)
      \<and> tag_name r \<noteq> [] \<and> \<not> isUpToDate env r \<and> wantedAssetURL env r \<noteq> []
      \<and> lastTag (githubUpdateMetadata w) = releaseTag r
      \<and> filePath (githubUpdateMetadata w) \<noteq> []
      \<and> files w (filePath (githubUpdateMetadata w)) \<noteq> None
      \<and> \<not> forceDownload opts
    \<longrightarrow> fst (checkGitHubReleaseZipUpdate Date_parse env idx dl opts w)
          = AlreadyDownloaded
              (releaseTag r \<noteq> [] \<and> lastAppliedTag (githubUpdateMetadata w) = releaseTag r)
              (releaseTag r) (filePath (githubUpdateMetadata w)) (releasePageOf env r)
        \<and> status (updateStatus (snd (checkGitHubReleaseZipUpdate Date_parse env idx dl opts w)))
          = (if releaseTag r \<noteq> [] \<and> lastAppliedTag (githubUpdateMetadata w) = releaseTag r
             then Idle else Downloaded)
        \<and> assetRequests (snd (checkGitHubReleaseZipUpdate Date_parse env idx dl opts w))
          = assetRequests w
        \<and> files (snd (checkGitHubReleaseZipUpdate Date_parse env idx dl opts w)) = files w
        \<and> githubUpdateMetadata (snd (checkGitHubReleaseZipUpdate Date_parse env idx dl opts w))
          = githubUpdateMetadata w)
   \<and> (checkGitHubReleaseZipUpdate Date_parse env idx dl opts wb = (DownloadedNow t p n pg, wb')
        \<and> \<not> forceDownload opts'
      \<longrightarrow> fst (checkGitHubReleaseZipUpdate Date_parse env idx dl' opts' wb')
            = AlreadyDownloaded (t \<noteq> [] \<and> lastAppliedTag (githubUpdateMetadata wb') = t) t p pg
          \<and> status (updateStatus (snd (checkGitHubReleaseZipUpdate Date_parse env idx dl' opts' wb')))
            = (if t \<noteq> [] \<and> lastAppliedTag (githubUpdateMetadata wb') = t then Idle else Downloaded)
          \<and> assetRequests (snd (checkGitHubReleaseZipUpdate Date_parse env idx dl' opts' wb'))
            = assetRequests wb'
          \<and> files (snd (checkGitHubReleaseZipUpdate Date_parse env idx dl' opts' wb')) = files wb'
          \<and> githubUpdateMetadata (snd (checkGitHubReleaseZipUpdate Date_parse env idx dl' opts' wb'))
            = githubUpdateMetadata wb')
   \<and> (platform env = ''win32''
        \<and> trim (case applyZipPath aopts of None \<Rightarrow> filePath (githubUpdateMetadata wc)
                 | Some z \<Rightarrow> z) \<noteq> []
        \<and> files wc (trim (case applyZipPath aopts of None \<Rightarrow> filePath (githubUpdateMetadata wc)
                           | Some z \<Rightarrow> z)) \<noteq> None
        \<and> \<not> applyManual aopts
        \<and> trim (case applyTag aopts of None \<Rightarrow> lastTag (githubUpdateMetadata wc)
                 | Some t \<Rightarrow> t) \<noteq> []
        \<and> lastAppliedTag (githubUpdateMetadata wc)
            = trim (case applyTag aopts of None \<Rightarrow> lastTag (githubUpdateMetadata wc) | Some t \<Rightarrow> t)
      \<longrightarrow> applyGitHubReleaseZipUpdate env extraction aopts wc
            = (ApplySkipped (lastAppliedTag (githubUpdateMetadata wc)), wc))
   \<and> (\<not> applyManual aopts
        \<and> trim (case applyTag aopts of None \<Rightarrow> lastTag (githubUpdateMetadata wc)
                 | Some t \<Rightarrow> t) \<noteq> []
        \<and> lastAppliedTag (githubUpdateMetadata wc)
            = trim (case applyTag aopts of None \<Rightarrow> lastTag (githubUpdateMetadata wc) | Some t \<Rightarrow> t)
      \<longrightarrow> snd (applyGitHubReleaseZipUpdate env extraction aopts wc) = wc)"
proof (intro conjI impI)
  assume h: "fetchLatestGitHubRelease Date_parse (allowPrerelease (updateConfig w)) idx = Inr (Some r)
      \<and> tag_name r \<noteq> [] \<and> \<not> isUpToDate env r \<and> wantedAssetURL env r \<noteq> []
      \<and> lastTag (githubUpdateMetadata w) = releaseTag r
      \<and> filePath (githubUpdateMetadata w) \<noteq> []
      \<and> files w (filePath (githubUpdateMetadata w)) \<noteq> None
      \<and> \<not> forceDownload opts"
  then obtain patch where c: "checkGitHubReleaseZipUpdate Date_parse env idx dl opts w
      = checkRelease env dl opts r (setUpdateStatus env patch w)"
    using check_found_release [of Date_parse w idx r env dl opts] by blast
  let ?w = "setUpdateStatus env patch w"
  have m: "githubUpdateMetadata ?w = githubUpdateMetadata w" and fl: "files ?w = files w"
    by (simp_all add: setUpdateStatus_fields)
  from h have u: "\<not> isUpToDate env r" and a: "wantedAssetURL env r \<noteq> []"
    and h1: "lastTag (githubUpdateMetadata ?w) = releaseTag r"
    and h2: "filePath (githubUpdateMetadata ?w) \<noteq> []"
    and h3: "files ?w (filePath (githubUpdateMetadata ?w)) \<noteq> None"
    and nf: "\<not> forceDownload opts"
    by (simp_all add: m fl)
  have all: "fst (checkGitHubReleaseZipUpdate Date_parse env idx dl opts w)
          = AlreadyDownloaded
              (releaseTag r \<noteq> [] \<and> lastAppliedTag (githubUpdateMetadata w) = releaseTag r)
              (releaseTag r) (filePath (githubUpdateMetadata w)) (releasePageOf env r)
        \<and> status (updateStatus (snd (checkGitHubReleaseZipUpdate Date_parse env idx dl opts w)))
          = (if releaseTag r \<noteq> [] \<and> lastAppliedTag (githubUpdateMetadata w) = releaseTag r
             then Idle else Downloaded)
        \<and> assetRequests (snd (checkGitHubReleaseZipUpdate Date_parse env idx dl opts w))
          = assetRequests w
        \<and> files (snd (checkGitHubReleaseZipUpdate Date_parse env idx dl opts w)) = files w
        \<and> githubUpdateMetadata (snd (checkGitHubReleaseZipUpdate Date_parse env idx dl opts w))
          = githubUpdateMetadata w"
    unfolding c
    using checkRelease_already_downloaded [OF u a h1 h2 h3 nf, of dl]
    by (simp add: m fl setUpdateStatus_fields)
  from all show "fst (checkGitHubReleaseZipUpdate Date_parse env idx dl opts w)
          = AlreadyDownloaded
              (releaseTag r \<noteq> [] \<and> lastAppliedTag (githubUpdateMetadata w) = releaseTag r)
              (releaseTag r) (filePath (githubUpdateMetadata w)) (releasePageOf env r)"
    by simp
  from all show "status (updateStatus (snd (checkGitHubReleaseZipUpdate Date_parse env idx dl opts w)))
          = (if releaseTag r \<noteq> [] \<and> lastAppliedTag (githubUpdateMetadata w) = releaseTag r
             then Idle else Downloaded)"
    by simp
  from all show "assetRequests (snd (checkGitHubReleaseZipUpdate Date_parse env idx dl opts w))
          = assetRequests w"
    by simp
  from all show "files (snd (checkGitHubReleaseZipUpdate Date_parse env idx dl opts w)) = files w"
    by simp
  from all show "githubUpdateMetadata (snd (checkGitHubReleaseZipUpdate Date_parse env idx dl opts w))
          = githubUpdateMetadata w"
    by simp
next
  assume h: "checkGitHubReleaseZipUpdate Date_parse env idx dl opts wb = (DownloadedNow t p n pg, wb')
        \<and> \<not> forceDownload opts'"
  then have s: "fst (checkGitHubReleaseZipUpdate Date_parse env idx dl' opts' wb')
           = AlreadyDownloaded (t \<noteq> [] \<and> lastAppliedTag (githubUpdateMetadata wb') = t) t p pg
       \<and> status (updateStatus (snd (checkGitHubReleaseZipUpdate Date_parse env idx dl' opts' wb')))
           = (if t \<noteq> [] \<and> lastAppliedTag (githubUpdateMetadata wb') = t then Idle else Downloaded)
       \<and> assetRequests (snd (checkGitHubReleaseZipUpdate Date_parse env idx dl' opts' wb'))
           = assetRequests wb'
       \<and> files (snd (checkGitHubReleaseZipUpdate Date_parse env idx dl' opts' wb')) = files wb'
       \<and> githubUpdateMetadata (snd (checkGitHubReleaseZipUpdate Date_parse env idx dl' opts' wb'))
           = githubUpdateMetadata wb'
       \<and> launched (snd (checkGitHubReleaseZipUpdate Date_parse env idx dl' opts' wb')) = launched wb'"
    using second_check_already_downloaded [of Date_parse env idx dl opts wb t p n pg wb' opts' dl']
    by blast
  from s show "fst (checkGitHubReleaseZipUpdate Date_parse env idx dl' opts' wb')
           = AlreadyDownloaded (t \<noteq> [] \<and> lastAppliedTag (githubUpdateMetadata wb') = t) t p pg"
    by simp
  from s show "status (updateStatus (snd (checkGitHubReleaseZipUpdate Date_parse env idx dl' opts' wb')))
           = (if t \<noteq> [] \<and> lastAppliedTag (githubUpdateMetadata wb') = t then Idle else Downloaded)"
    by simp
  from s show "assetRequests (snd (checkGitHubReleaseZipUpdate Date_parse env idx dl' opts' wb'))
           = assetRequests wb'"
    by simp
  from s show "files (snd (checkGitHubReleaseZipUpdate Date_parse env idx dl' opts' wb')) = files wb'"
    by simp
  from s show "githubUpdateMetadata (snd (checkGitHubReleaseZipUpdate Date_parse env idx dl' opts' wb'))
           = githubUpdateMetadata wb'"
    by simp
next
  assume "platform env = ''win32''
        \<and> trim (case applyZipPath aopts of None \<Rightarrow> filePath (githubUpdateMetadata wc)
                 | Some z \<Rightarrow> z) \<noteq> []
        \<and> files wc (trim (case applyZipPath aopts of None \<Rightarrow> filePath (githubUpdateMetadata wc)
                           | Some z \<Rightarrow> z)) \<noteq> None
        \<and> \<not> applyManual aopts
        \<and> trim (case applyTag aopts of None \<Rightarrow> lastTag (githubUpdateMetadata wc)
                 | Some t \<Rightarrow> t) \<noteq> []
        \<and> lastAppliedTag (githubUpdateMetadata wc)
            = trim (case applyTag aopts of None \<Rightarrow> lastTag (githubUpdateMetadata wc) | Some t \<Rightarrow> t)"
  then show "applyGitHubReleaseZipUpdate env extraction aopts wc
            = (ApplySkipped (lastAppliedTag (githubUpdateMetadata wc)), wc)"
    using apply_skipped [where env = env and opts = aopts and w = wc and extraction = extraction]
    by blast
next
  assume "\<not> applyManual aopts
        \<and> trim (case applyTag aopts of None \<Rightarrow> lastTag (githubUpdateMetadata wc)
                 | Some t \<Rightarrow> t) \<noteq> []
        \<and> lastAppliedTag (githubUpdateMetadata wc)
            = trim (case applyTag aopts of None \<Rightarrow> lastTag (githubUpdateMetadata wc) | Some t \<Rightarrow> t)"
  then show "snd (applyGitHubReleaseZipUpdate env extraction aopts wc) = wc"
    by (simp add: applyGitHubReleaseZipUpdate_def Let_def)
qed

lemma check_unforced_no_download:
  "(fetchLatestGitHubRelease Date_parse (allowPrerelease (updateConfig w)) idx = Inr (Some r)
      \<and> tag_name r \<noteq> []
      \<and> lastTag (githubUpdateMetadata w) = releaseTag r
      \<and> filePath (githubUpdateMetadata w) \<noteq> []
      \<and> files w (filePath (githubUpdateMetadata w)) \<noteq> None
      \<and> \<not> forceDownload opts
    \<longrightarrow> assetRequests (snd (checkGitHubReleaseZipUpdate Date_parse env idx dl opts w))
          = assetRequests w
        \<and> files (snd (checkGitHubReleaseZipUpdate Date_parse env idx dl opts w)) = files w
        \<and> githubUpdateMetadata (snd (checkGitHubReleaseZipUpdate Date_parse env idx dl opts w))
          = githubUpdateMetadata w
        \<and> (if isUpToDate env r
           then fst (checkGitHubReleaseZipUpdate Date_parse env idx dl opts w)
                  = UpToDate (releaseTag r) (filePath (githubUpdateMetadata w))
           else if wantedAssetURL env r = []
           then fst (checkGitHubReleaseZipUpdate Date_parse env idx dl opts w)
                  = CheckFailed (NoAsset (releaseTag r)
                      (resolveGitHubUpdateAssetName (assetNameEnv env)))
           else fst (checkGitHubReleaseZipUpdate Date_parse env idx dl opts w)
                  = AlreadyDownloaded
                      (releaseTag r \<noteq> [] \<and> lastAppliedTag (githubUpdateMetadata w) = releaseTag r)
                      (releaseTag r) (filePath (githubUpdateMetadata w)) (releasePageOf env r)))"
proof (intro impI)
  assume h: "fetchLatestGitHubRelease Date_parse (allowPrerelease (updateConfig w)) idx = Inr (Some r)
      \<and> tag_name r \<noteq> []
      \<and> lastTag (githubUpdateMetadata w) = releaseTag r
      \<and> filePath (githubUpdateMetadata w) \<noteq> []
      \<and> files w (filePath (githubUpdateMetadata w)) \<noteq> None
      \<and> \<not> forceDownload opts"
  then obtain patch where c: "checkGitHubReleaseZipUpdate Date_parse env idx dl opts w
      = checkRelease env dl opts r (setUpdateStatus env patch w)"
    using check_found_release [of Date_parse w idx r env dl opts] by blast
  let ?w = "setUpdateStatus env patch w"
  have m: "githubUpdateMetadata ?w = githubUpdateMetadata w" and fl: "files ?w = files w"
    and rq: "assetRequests ?w = assetRequests w"
    by (simp_all add: setUpdateStatus_fields)
  from h have h1: "lastTag (githubUpdateMetadata ?w) = releaseTag r"
    and h2: "filePath (githubUpdateMetadata ?w) \<noteq> []"
    and h3: "files ?w (filePath (githubUpdateMetadata ?w)) \<noteq> None"
    and nf: "\<not> forceDownload opts"
    by (simp_all add: m fl)
  consider (current) "isUpToDate env r"
    | (missing) "\<not> isUpToDate env r" "wantedAssetURL env r = []"
    | (present) "\<not> isUpToDate env r" "wantedAssetURL env r \<noteq> []"
    by blast
  then show "assetRequests (snd (checkGitHubReleaseZipUpdate Date_parse env idx dl opts w))
          = assetRequests w
        \<and> files (snd (checkGitHubReleaseZipUpdate Date_parse env idx dl opts w)) = files w
        \<and> githubUpdateMetadata (snd (checkGitHubReleaseZipUpdate Date_parse env idx dl opts w))
          = githubUpdateMetadata w
        \<and> (if isUpToDate env r
           then fst (checkGitHubReleaseZipUpdate Date_parse env idx dl opts w)
                  = UpToDate (releaseTag r) (filePath (githubUpdateMetadata w))
           else if wantedAssetURL env r = []
           then fst (checkGitHubReleaseZipUpdate Date_parse env idx dl opts w)
                  = CheckFailed (NoAsset (releaseTag r)
                      (resolveGitHubUpdateAssetName (assetNameEnv env)))
           else fst (checkGitHubReleaseZipUpdate Date_parse env idx dl opts w)
                  = AlreadyDownloaded
                      (releaseTag r \<noteq> [] \<and> lastAppliedTag (githubUpdateMetadata w) = releaseTag r)
                      (releaseTag r) (filePath (githubUpdateMetadata w)) (releasePageOf env r))"
  proof cases
    case current
    with checkRelease_up_to_date [OF current, of dl opts ?w] show ?thesis
      unfolding c by (simp add: m fl rq)
  next
    case missing
    with checkRelease_no_asset_exact [OF missing, of dl opts ?w] show ?thesis
      unfolding c by (simp add: m fl rq)
  next
    case present
    with checkRelease_already_downloaded [OF present h1 h2 h3 nf, of dl] show ?thesis
      unfolding c by (simp add: m fl rq)
  qed
qed

lemma apply_last_applied_result:
  "(\<not> applyManual aopts
        \<and> trim (case applyTag aopts of None \<Rightarrow> lastTag (githubUpdateMetadata wc)
                 | Some t \<Rightarrow> t) \<noteq> []
        \<and> lastAppliedTag (githubUpdateMetadata wc)
            = trim (case applyTag aopts of None \<Rightarrow> lastTag (githubUpdateMetadata wc) | Some t \<Rightarrow> t)
      \<longrightarrow> fst (applyGitHubReleaseZipUpdate env extraction aopts wc)
            = (if platform env \<noteq> ''win32'' then ApplyFailed NotWindows
               else if trim (case applyZipPath aopts of None \<Rightarrow> filePath (githubUpdateMetadata wc)
                             | Some z \<Rightarrow> z) = []
                       \<or> files wc (trim (case applyZipPath aopts of
                                              None \<Rightarrow> filePath (githubUpdateMetadata wc)
                                            | Some z \<Rightarrow> z)) = None
               then ApplyFailed NoDownloadedZip
               else ApplySkipped (lastAppliedTag (githubUpdateMetadata wc))))"
  by (simp add: applyGitHubReleaseZipUpdate_def Let_def)

text \<open>
  Claim C3, as the code has it. A check that finds the artifact of the latest tag on disk
  (the metadata name the tag and a file that exists) and is not forced downloads
  nothing: no asset is requested, and the files and the metadata stay as they are. Its
  answer is \<open>upToDate\<close> when the running version is at least the version of the tag, the
  failure for the missing asset when the release has no usable asset, and otherwise
  \<open>alreadyDownloaded\<close>, with status \<open>downloaded\<close>, or \<open>idle\<close> when the tag is the one last
  applied. So a check that follows a check that downloaded, against the same index and
  running version, answers \<open>alreadyDownloaded\<close> and requests no asset again. And
  \<open>applyGitHubReleaseZipUpdate\<close>, called non-manually for a non-empty tag that is the one
  last applied, leaves the state as it is: nothing is extracted or launched. Its result
  is the skipped success on Windows with the archive on disk, and the failure of that
  guard otherwise.
\<close>

theorem update_idempotent:
  "(fetchLatestGitHubRelease Date_parse (allowPrerelease (updateConfig w)) idx = Inr (Some r)
      \<and> tag_name r \<noteq> [] \<and> \<not> isUpToDate env r \<and> wantedAssetURL env r \<noteq> []
      \<and> lastTag (githubUpdateMetadata w) = releaseTag r
      \<and> filePath (githubUpdateMetadata w) \<noteq> []
      \<and> files w (filePath (githubUpdateMetadata w)) \<noteq> None
      \<and> \<not> forceDownload opts
    \<longrightarrow> fst (checkGitHubReleaseZipUpdate Date_parse env idx dl opts w)
          = AlreadyDownloaded
              (releaseTag r \<noteq> [] \<and> lastAppliedTag (githubUpdateMetadata w) = releaseTag r)
              (releaseTag r) (filePath (githubUpdateMetadata w)) (releasePageOf env r)
        \<and> status (updateStatus (snd (checkGitHubReleaseZipUpdate Date_parse env idx dl opts w)))
          = (if releaseTag r \<noteq> [] \<and> lastAppliedTag (githubUpdateMetadata w) = releaseTag r
             then Idle else Downloaded)
        \<and> assetRequests (snd (checkGitHubReleaseZipUpdate Date_parse env idx dl opts w))
          = assetRequests w
        \<and> files (snd (checkGitHubReleaseZipUpdate Date_parse env idx dl opts w)) = files w
        \<and> githubUpdateMetadata (snd (checkGitHubReleaseZipUpdate Date_parse env idx dl opts w))
          = githubUpdateMetadata w)
   \<and> (checkGitHubReleaseZipUpdate Date_parse env idx dl opts wb = (DownloadedNow t p n pg, wb')
        \<and> \<not> forceDownload opts'
      \<longrightarrow> fst (checkGitHubReleaseZipUpdate Date_parse env idx dl' opts' wb')
            = AlreadyDownloaded (t \<noteq> [] \<and> lastAppliedTag (githubUpdateMetadata wb') = t) t p pg
          \<and> status (updateStatus (snd (checkGitHubReleaseZipUpdate Date_parse env idx dl' opts' wb')))
            = (if t \<noteq> [] \<and> lastAppliedTag (githubUpdateMetadata wb') = t then Idle else Downloaded)
          \<and> assetRequests (snd (checkGitHubReleaseZipUpdate Date_parse env idx dl' opts' wb'))
            = assetRequests wb'
          \<and> files (snd (checkGitHubReleaseZipUpdate Date_parse env idx dl' opts' wb')) = files wb'
          \<and> githubUpdateMetadata (snd (checkGitHubReleaseZipUpdate Date_parse env idx dl' opts' wb'))
            = githubUpdateMetadata wb')
   \<and> (platform env = ''win32''
        \<and> trim (case applyZipPath aopts of None \<Rightarrow> filePath (githubUpdateMetadata wc)
                 | Some z \<Rightarrow> z) \<noteq> []
        \<and> files wc (trim (case applyZipPath aopts of None \<Rightarrow> filePath (githubUpdateMetadata wc)
                           | Some z \<Rightarrow> z)) \<noteq> None
        \<and> \<not> applyManual aopts
        \<and> trim (case applyTag aopts of None \<Rightarrow> lastTag (githubUpdateMetadata wc)
                 | Some t \<Rightarrow> t) \<noteq> []
        \<and> lastAppliedTag (githubUpdateMetadata wc)
            = trim (case applyTag aopts of None \<Rightarrow> lastTag (githubUpdateMetadata wc) | Some t \<Rightarrow> t)
      \<longrightarrow> applyGitHubReleaseZipUpdate env extraction aopts wc
            = (ApplySkipped (lastAppliedTag (githubUpdateMetadata wc)), wc))
   \<and> (\<not> applyManual aopts
        \<and> trim (case applyTag aopts of None \<Rightarrow> lastTag (githubUpdateMetadata wc)
                 | Some t \<Rightarrow> t) \<noteq> []
        \<and> lastAppliedTag (githubUpdateMetadata wc)
            = trim (case applyTag aopts of None \<Rightarrow> lastTag (githubUpdateMetadata wc) | Some t \<Rightarrow> t)
      \<longrightarrow> snd (applyGitHubReleaseZipUpdate env extraction aopts wc) = wc)
   \<and> (fetchLatestGitHubRelease Date_parse (allowPrerelease (updateConfig w)) idx = Inr (Some r)
      \<and> tag_name r \<noteq> []
      \<and> lastTag (githubUpdateMetadata w) = releaseTag r
      \<and> filePath (githubUpdateMetadata w) \<noteq> []
      \<and> files w (filePath (githubUpdateMetadata w)) \<noteq> None
      \<and> \<not> forceDownload opts
    \<longrightarrow> assetRequests (snd (checkGitHubReleaseZipUpdate Date_parse env idx dl opts w))
          = assetRequests w
        \<and> files (snd (checkGitHubReleaseZipUpdate Date_parse env idx dl opts w)) = files w
        \<and> githubUpdateMetadata (snd (checkGitHubReleaseZipUpdate Date_parse env idx dl opts w))
          = githubUpdateMetadata w
        \<and> (if isUpToDate env r
           then fst (checkGitHubReleaseZipUpdate Date_parse env idx dl opts w)
                  = UpToDate (releaseTag r) (filePath (githubUpdateMetadata w))
           else if wantedAssetURL env r = []
           then fst (checkGitHubReleaseZipUpdate Date_parse env idx dl opts w)
                  = CheckFailed (NoAsset (releaseTag r)
                      (resolveGitHubUpdateAssetName (assetNameEnv env)))
           else fst (checkGitHubReleaseZipUpdate Date_parse env idx dl opts w)
                  = AlreadyDownloaded
                      (releaseTag r \<noteq> [] \<and> lastAppliedTag (githubUpdateMetadata w) = releaseTag r)
                      (releaseTag r) (filePath (githubUpdateMetadata w)) (releasePageOf env r)))
   \<and> (\<not> applyManual aopts
        \<and> trim (case applyTag aopts of None \<Rightarrow> lastTag (githubUpdateMetadata wc)
                 | Some t \<Rightarrow> t) \<noteq> []
        \<and> lastAppliedTag (githubUpdateMetadata wc)
            = trim (case applyTag aopts of None \<Rightarrow> lastTag (githubUpdateMetadata wc) | Some t \<Rightarrow> t)
      \<longrightarrow> fst (applyGitHubReleaseZipUpdate env extraction aopts wc)
            = (if platform env \<noteq> ''win32'' then ApplyFailed NotWindows
               else if trim (case applyZipPath aopts of None \<Rightarrow> filePath (githubUpdateMetadata wc)
                             | Some z \<Rightarrow> z) = []
                       \<or> files wc (trim (case applyZipPath aopts of
                                              None \<Rightarrow> filePath (githubUpdateMetadata wc)
                                            | Some z \<Rightarrow> z)) = None
               then ApplyFailed NoDownloadedZip
               else ApplySkipped (lastAppliedTag (githubUpdateMetadata wc))))"
  by (intro conjI update_idempotent_parts [THEN conjunct1]
      update_idempotent_parts [THEN conjunct2, THEN conjunct1]
      update_idempotent_parts [THEN conjunct2, THEN conjunct2, THEN conjunct1]
      update_idempotent_parts [THEN conjunct2, THEN conjunct2, THEN conjunct2]
      check_unforced_no_download apply_last_applied_result)

lemma release_1_3_0_facts:
  "tag_name release_1_3_0 \<noteq> []"
  "releaseTag release_1_3_0 = ''v1.3.0''"
  "wantedAssetURL example_env release_1_3_0 = ''https://example.org/v1.3.0/update.zip''"
  "releasePageOf example_env release_1_3_0 = GITHUB_RELEASES_TAGS_PAGE_URL"
  by (simp_all add: release_1_3_0_def releaseTag_mk)
    (simp_all add: mk_release_def wantedAssetURL_def releasePageOf_def orElse_def example_env_def
      findReleaseAsset_def resolveGitHubUpdateAssetName_def resolveGitHubTagsPageURL_def
      GITHUB_UPDATE_ASSET_NAME_def trim_def)

lemma release_1_3_0_newer: "\<not> isUpToDate example_env release_1_3_0"
  by (simp add: isUpToDate_def release_1_3_0_facts example_env_def normalize_examples
      parse_1_3_0 parse_1_2_0 compareVersions_padded_eq compareVersions_padded_def pad_zeros_def)

lemma example_target:
  "pathString (resolveGitHubUpdateTargetPath (userDataDir example_env) (assetNameEnv example_env)
     ''v1.3.0'') = ''/data/updates/v1.3.0/update.zip''"
  by (simp add: resolveGitHubUpdateTargetPath_def getGitHubUpdateDownloadDir_def path_join_def
      pathString_def example_env_def sanitizeTagForPath_def resolveGitHubUpdateAssetName_def
      GITHUB_UPDATE_ASSET_NAME_def trim_def isSpace_def isTagChar_def isLower_def isUpper_def
      isDigit_def isSeparator_def)

lemma first_check_downloads:
  "fst (checkGitHubReleaseZipUpdate example_dates example_env index_1_3_0 good_download
          download_requested example_world)
     = DownloadedNow ''v1.3.0'' ''/data/updates/v1.3.0/update.zip'' 10 GITHUB_RELEASES_TAGS_PAGE_URL"
  "assetRequests (snd (checkGitHubReleaseZipUpdate example_dates example_env index_1_3_0
          good_download download_requested example_world))
     = [''https://example.org/v1.3.0/update.zip'']"
  "lastAppliedTag (githubUpdateMetadata (snd (checkGitHubReleaseZipUpdate example_dates
          example_env index_1_3_0 good_download download_requested example_world))) = []"
proof -
  let ?first = "checkGitHubReleaseZipUpdate example_dates example_env index_1_3_0 good_download
          download_requested example_world"
  have fr: "fetchLatestGitHubRelease example_dates (allowPrerelease (updateConfig example_world))
      index_1_3_0 = Inr (Some release_1_3_0)"
    by (simp add: example_world_fields index_1_3_0_def release_1_3_0_def fetch_single)
  obtain patch where c: "?first = checkRelease example_env good_download download_requested
      release_1_3_0 (setUpdateStatus example_env patch example_world)"
    using check_found_release [OF fr release_1_3_0_facts(1)] by blast
  let ?w = "setUpdateStatus example_env patch example_world"
  have m: "githubUpdateMetadata ?w = createInitialGitHubUpdateMetadata"
    and fl: "files ?w = Map.empty" and rq: "assetRequests ?w = []"
    by (simp_all add: setUpdateStatus_fields example_world_fields)
  have h: "\<not> (lastTag (githubUpdateMetadata ?w) = releaseTag release_1_3_0
            \<and> filePath (githubUpdateMetadata ?w) \<noteq> []
            \<and> files ?w (filePath (githubUpdateMetadata ?w)) \<noteq> None
            \<and> \<not> forceDownload download_requested)"
    by (simp add: m createInitialGitHubUpdateMetadata_def)
  have d: "download download_requested"
    by (simp add: download_requested_def)
  have a: "wantedAssetURL example_env release_1_3_0 \<noteq> []"
    by (simp add: release_1_3_0_facts)
  have dl: "downloadGitHubAssetToPath good_download (wantedAssetURL example_env release_1_3_0)
      (pathString (resolveGitHubUpdateTargetPath (userDataDir example_env)
         (assetNameEnv example_env) (releaseTag release_1_3_0)))
      (files ?w, assetRequests ?w)
     = (Inr (''/data/updates/v1.3.0/update.zip'', 10),
        (Map.empty(''/data/updates/v1.3.0/update.zip'' \<mapsto> ''PK.archive''))
          (''/data/updates/v1.3.0/update.zip'' @ ''.download'' := None),
        [] @ [''https://example.org/v1.3.0/update.zip''])"
    unfolding release_1_3_0_facts example_target fl rq
    by (rule good_download_run)
  from checkRelease_download [OF release_1_3_0_newer a h d dl]
  show "fst ?first
     = DownloadedNow ''v1.3.0'' ''/data/updates/v1.3.0/update.zip'' 10 GITHUB_RELEASES_TAGS_PAGE_URL"
    and "assetRequests (snd ?first) = [''https://example.org/v1.3.0/update.zip'']"
    and "lastAppliedTag (githubUpdateMetadata (snd ?first)) = []"
    unfolding c
    by (simp_all add: release_1_3_0_facts m createInitialGitHubUpdateMetadata_def)
qed

lemma applied_world_fields:
  "allowPrerelease (updateConfig applied_world) = False"
  "lastTag (githubUpdateMetadata applied_world) = ''v1.3.0''"
  "filePath (githubUpdateMetadata applied_world) = ''/data/updates/v1.3.0/update.zip''"
  "lastAppliedTag (githubUpdateMetadata applied_world) = ''v1.3.0''"
  "files applied_world ''/data/updates/v1.3.0/update.zip'' = Some ''PK.archive''"
  "assetRequests applied_world = []"
  by (simp_all add: applied_world_def example_world_def DEFAULT_UPDATE_CONFIG_def)

theorem update_idempotent_witness:
  "fst (checkGitHubReleaseZipUpdate example_dates example_env index_1_3_0 good_download
          download_requested example_world)
     = DownloadedNow ''v1.3.0'' ''/data/updates/v1.3.0/update.zip'' 10 GITHUB_RELEASES_TAGS_PAGE_URL
   \<and> \<not> forceDownload download_requested
   \<and> fst (checkGitHubReleaseZipUpdate example_dates example_env index_1_3_0 broken_download
            download_requested
            (snd (checkGitHubReleaseZipUpdate example_dates example_env index_1_3_0 good_download
               download_requested example_world)))
     = AlreadyDownloaded False ''v1.3.0'' ''/data/updates/v1.3.0/update.zip''
         GITHUB_RELEASES_TAGS_PAGE_URL
   \<and> status (updateStatus (snd (checkGitHubReleaseZipUpdate example_dates example_env index_1_3_0
            broken_download download_requested
            (snd (checkGitHubReleaseZipUpdate example_dates example_env index_1_3_0 good_download
               download_requested example_world))))) = Downloaded
   \<and> assetRequests (snd (checkGitHubReleaseZipUpdate example_dates example_env index_1_3_0
            broken_download download_requested
            (snd (checkGitHubReleaseZipUpdate example_dates example_env index_1_3_0 good_download
               download_requested example_world))))
     = [''https://example.org/v1.3.0/update.zip'']
   \<and> fetchLatestGitHubRelease example_dates (allowPrerelease (updateConfig applied_world))
       index_1_3_0 = Inr (Some release_1_3_0)
   \<and> lastTag (githubUpdateMetadata applied_world) = releaseTag release_1_3_0
   \<and> files applied_world (filePath (githubUpdateMetadata applied_world)) = Some ''PK.archive''
   \<and> fst (checkGitHubReleaseZipUpdate example_dates example_env index_1_3_0 good_download
            download_requested applied_world)
     = AlreadyDownloaded True ''v1.3.0'' ''/data/updates/v1.3.0/update.zip''
         GITHUB_RELEASES_TAGS_PAGE_URL
   \<and> status (updateStatus (snd (checkGitHubReleaseZipUpdate example_dates example_env index_1_3_0
            good_download download_requested applied_world))) = Idle
   \<and> assetRequests (snd (checkGitHubReleaseZipUpdate example_dates example_env index_1_3_0
            good_download download_requested applied_world)) = []
   \<and> platform example_env = ''win32''
   \<and> \<not> applyManual automatic_apply
   \<and> applyGitHubReleaseZipUpdate example_env setup_extracted automatic_apply applied_world
     = (ApplySkipped ''v1.3.0'', applied_world)"
proof -
  let ?first = "checkGitHubReleaseZipUpdate example_dates example_env index_1_3_0 good_download
          download_requested example_world"
  have f: "?first = (DownloadedNow ''v1.3.0'' ''/data/updates/v1.3.0/update.zip'' 10
                       GITHUB_RELEASES_TAGS_PAGE_URL, snd ?first)"
    using first_check_downloads(1) by (simp add: prod_eq_iff)
  have nf: "\<not> forceDownload download_requested"
    by (simp add: download_requested_def)
  have fr: "fetchLatestGitHubRelease example_dates (allowPrerelease (updateConfig applied_world))
      index_1_3_0 = Inr (Some release_1_3_0)"
    by (simp add: applied_world_fields index_1_3_0_def release_1_3_0_def fetch_single)
  have tz: "trim ''/data/updates/v1.3.0/update.zip'' = ''/data/updates/v1.3.0/update.zip''"
    and tt: "trim ''v1.3.0'' = ''v1.3.0''"
    by (simp_all add: trim_def isSpace_def)
  have pl: "platform example_env = ''win32''"
    by (simp add: example_env_def)
  have am: "\<not> applyManual automatic_apply" "applyTag automatic_apply = None"
    "applyZipPath automatic_apply = None"
    by (simp_all add: automatic_apply_def)
  show ?thesis
    using update_idempotent [where Date_parse = example_dates and env = example_env
        and idx = index_1_3_0 and dl = good_download and opts = download_requested
        and wb = example_world and t = "''v1.3.0''" and p = "''/data/updates/v1.3.0/update.zip''"
        and n = 10 and pg = GITHUB_RELEASES_TAGS_PAGE_URL and wb' = "snd ?first"
        and opts' = download_requested and dl' = broken_download
        and w = applied_world and r = release_1_3_0
        and aopts = automatic_apply and wc = applied_world
        and extraction = setup_extracted]
      f nf fr release_1_3_0_newer
    by (simp add: first_check_downloads release_1_3_0_facts applied_world_fields tz tt pl am)
qed

lemma current_1_3_0: "isUpToDate env_1_3_0 release_1_3_0"
  by (simp add: isUpToDate_def release_1_3_0_facts env_1_3_0_def example_env_def
      normalize_examples parse_1_3_0 compareVersions_padded_eq compareVersions_padded_def
      pad_zeros_def normalizeVersionFromTag_def trim_def isSpace_def)

lemma release_without_asset_facts:
  "tag_name (release_1_3_0\<lparr>assets := []\<rparr>) \<noteq> []"
  "releaseTag (release_1_3_0\<lparr>assets := []\<rparr>) = ''v1.3.0''"
  "wantedAssetURL example_env (release_1_3_0\<lparr>assets := []\<rparr>) = []"
  "\<not> isUpToDate example_env (release_1_3_0\<lparr>assets := []\<rparr>)"
proof -
  show t: "tag_name (release_1_3_0\<lparr>assets := []\<rparr>) \<noteq> []"
    by (simp add: release_1_3_0_def mk_release_def)
  show rt: "releaseTag (release_1_3_0\<lparr>assets := []\<rparr>) = ''v1.3.0''"
    using release_1_3_0_facts(2) by (simp add: releaseTag_def)
  show "wantedAssetURL example_env (release_1_3_0\<lparr>assets := []\<rparr>) = []"
    by (simp add: wantedAssetURL_def findReleaseAsset_def)
  show "\<not> isUpToDate example_env (release_1_3_0\<lparr>assets := []\<rparr>)"
    using release_1_3_0_newer by (simp add: isUpToDate_def rt release_1_3_0_facts)
qed

lemma setup_launcher:
  "pickUpdateLauncherFromExtractedFiles [''/data/updates/staged/latest/Bastion-Setup.exe'']
     = Some ''/data/updates/staged/latest/Bastion-Setup.exe''"
  by (simp add: pickUpdateLauncherFromExtractedFiles_def Let_def extname_def basename_def
      isSeparator_def toLowerCase_def lowerChar_def isUpper_def sortBy_def)

lemma latest_staging_dir:
  "resolveGitHubUpdateStagingDir (userDataDir example_env) ''latest''
     = [''data'', ''updates'', ''staged'', ''latest'']"
  by (simp add: resolveGitHubUpdateStagingDir_def getGitHubUpdateDownloadDir_def path_join_def
      example_env_def sanitizeTagForPath_def trim_def isSpace_def isTagChar_def isLower_def
      isUpper_def isDigit_def isSeparator_def)

text \<open>
  The tag of the latest release is the one recorded, its file is on disk and no download
  is forced, and yet the check does not answer \<open>alreadyDownloaded\<close>: with the running
  version at \<open>1.3.0\<close> it answers \<open>upToDate\<close>, and for a release without the asset it
  fails. A non-manual apply for the tag last applied is no success when the archive is
  gone or the platform is not Windows. And with no tag recorded, the empty tag equals the
  empty \<open>lastAppliedTag\<close>, and the apply runs: the launcher is started.
\<close>

theorem idempotence_guards_needed:
  "fetchLatestGitHubRelease example_dates (allowPrerelease (updateConfig applied_world))
       index_1_3_0 = Inr (Some release_1_3_0)
   \<and> lastTag (githubUpdateMetadata applied_world) = releaseTag release_1_3_0
   \<and> files applied_world (filePath (githubUpdateMetadata applied_world)) = Some ''PK.archive''
   \<and> \<not> forceDownload download_requested
   \<and> fst (checkGitHubReleaseZipUpdate example_dates env_1_3_0 index_1_3_0 good_download
            download_requested applied_world)
       = UpToDate ''v1.3.0'' ''/data/updates/v1.3.0/update.zip''
   \<and> fst (checkGitHubReleaseZipUpdate example_dates example_env index_without_asset
            good_download download_requested applied_world)
       = CheckFailed (NoAsset ''v1.3.0'' ''update.zip'')
   \<and> \<not> applyManual automatic_apply
   \<and> lastAppliedTag (githubUpdateMetadata archive_removed) = ''v1.3.0''
   \<and> lastTag (githubUpdateMetadata archive_removed) = ''v1.3.0''
   \<and> applyGitHubReleaseZipUpdate example_env setup_extracted automatic_apply archive_removed
       = (ApplyFailed NoDownloadedZip, archive_removed)
   \<and> applyGitHubReleaseZipUpdate env_linux setup_extracted automatic_apply applied_world
       = (ApplyFailed NotWindows, applied_world)
   \<and> lastAppliedTag (githubUpdateMetadata untagged_world) = []
   \<and> lastTag (githubUpdateMetadata untagged_world) = []
   \<and> fst (applyGitHubReleaseZipUpdate example_env setup_extracted automatic_apply untagged_world)
       = Applied [] ''/data/updates/staged/latest/Bastion-Setup.exe''
           [''data'', ''updates'', ''staged'', ''latest'']
   \<and> launched (snd (applyGitHubReleaseZipUpdate example_env setup_extracted automatic_apply
         untagged_world))
       = [''/data/updates/staged/latest/Bastion-Setup.exe'']"
proof -
  have fr: "fetchLatestGitHubRelease example_dates (allowPrerelease (updateConfig applied_world))
      index_1_3_0 = Inr (Some release_1_3_0)"
    by (simp add: applied_world_fields index_1_3_0_def release_1_3_0_def fetch_single)
  obtain patch where c1: "checkGitHubReleaseZipUpdate example_dates env_1_3_0 index_1_3_0
        good_download download_requested applied_world
      = checkRelease env_1_3_0 good_download download_requested release_1_3_0
          (setUpdateStatus env_1_3_0 patch applied_world)"
    using check_found_release [OF fr release_1_3_0_facts(1)] by blast
  have up: "fst (checkGitHubReleaseZipUpdate example_dates env_1_3_0 index_1_3_0 good_download
            download_requested applied_world)
       = UpToDate ''v1.3.0'' ''/data/updates/v1.3.0/update.zip''"
    unfolding c1
    using checkRelease_up_to_date(1) [OF current_1_3_0]
    by (simp add: release_1_3_0_facts setUpdateStatus_fields applied_world_fields)
  have fr2: "fetchLatestGitHubRelease example_dates (allowPrerelease (updateConfig applied_world))
      index_without_asset = Inr (Some (release_1_3_0\<lparr>assets := []\<rparr>))"
    by (simp add: applied_world_fields index_without_asset_def fetchLatestGitHubRelease_def
        selectLatest_def selectionPool_def nonDraftReleases_def map_filter_def
        release_1_3_0_def mk_release_def)
  obtain patch2 where c2: "checkGitHubReleaseZipUpdate example_dates example_env
        index_without_asset good_download download_requested applied_world
      = checkRelease example_env good_download download_requested (release_1_3_0\<lparr>assets := []\<rparr>)
          (setUpdateStatus example_env patch2 applied_world)"
    using check_found_release [OF fr2 release_without_asset_facts(1)] by blast
  have name: "resolveGitHubUpdateAssetName (assetNameEnv example_env) = ''update.zip''"
    by (simp add: resolveGitHubUpdateAssetName_def example_env_def trim_def
        GITHUB_UPDATE_ASSET_NAME_def)
  have na: "fst (checkGitHubReleaseZipUpdate example_dates example_env index_without_asset
            good_download download_requested applied_world)
       = CheckFailed (NoAsset ''v1.3.0'' ''update.zip'')"
    unfolding c2
    using checkRelease_no_asset_exact(1)
      [OF release_without_asset_facts(4) release_without_asset_facts(3)]
    by (simp add: release_without_asset_facts name)
  have tz: "trim ''/data/updates/v1.3.0/update.zip'' = ''/data/updates/v1.3.0/update.zip''"
    and tl: "trim ''/data/updates/latest/update.zip'' = ''/data/updates/latest/update.zip''"
    and tt: "trim ''v1.3.0'' = ''v1.3.0''" and te: "trim [] = []"
    by (simp_all add: trim_def isSpace_def)
  have am: "\<not> applyManual automatic_apply" "applyTag automatic_apply = None"
    "applyZipPath automatic_apply = None" "applyReleasePage automatic_apply = None"
    by (simp_all add: automatic_apply_def)
  have rm: "lastAppliedTag (githubUpdateMetadata archive_removed) = ''v1.3.0''"
    "lastTag (githubUpdateMetadata archive_removed) = ''v1.3.0''"
    "filePath (githubUpdateMetadata archive_removed) = ''/data/updates/v1.3.0/update.zip''"
    "files archive_removed = Map.empty"
    by (simp_all add: archive_removed_def applied_world_fields)
  have gone: "applyGitHubReleaseZipUpdate example_env setup_extracted automatic_apply
      archive_removed = (ApplyFailed NoDownloadedZip, archive_removed)"
    by (simp add: applyGitHubReleaseZipUpdate_def Let_def am rm tz tt example_env_def)
  have linux: "applyGitHubReleaseZipUpdate env_linux setup_extracted automatic_apply applied_world
      = (ApplyFailed NotWindows, applied_world)"
    by (simp add: applyGitHubReleaseZipUpdate_def Let_def env_linux_def example_env_def)
  have un: "lastAppliedTag (githubUpdateMetadata untagged_world) = []"
    "lastTag (githubUpdateMetadata untagged_world) = []"
    "filePath (githubUpdateMetadata untagged_world) = ''/data/updates/latest/update.zip''"
    "releasePageOfTag (githubUpdateMetadata untagged_world) = []"
    "files untagged_world ''/data/updates/latest/update.zip'' = Some ''PK.archive''"
    "launched untagged_world = []"
    by (simp_all add: untagged_world_def example_world_def createInitialGitHubUpdateMetadata_def)
  have pl: "platform example_env = ''win32''"
    by (simp add: example_env_def)
  have ex: "extractResult setup_extracted
      = Extracted [(''/data/updates/staged/latest/Bastion-Setup.exe'', ''MZ'')]"
    by (simp add: setup_extracted_def)
  have run: "fst (applyGitHubReleaseZipUpdate example_env setup_extracted automatic_apply
        untagged_world)
       = Applied [] ''/data/updates/staged/latest/Bastion-Setup.exe''
           [''data'', ''updates'', ''staged'', ''latest'']"
    "launched (snd (applyGitHubReleaseZipUpdate example_env setup_extracted automatic_apply
         untagged_world))
       = [''/data/updates/staged/latest/Bastion-Setup.exe'']"
    by (simp_all add: applyGitHubReleaseZipUpdate_def Let_def am un tl te pl ex setup_launcher
        orElse_def latest_staging_dir setUpdateStatus_def)
  show ?thesis
    using fr up na gone linux run
    by (simp add: applied_world_fields release_1_3_0_facts download_requested_def am rm un)
qed

end
